theory Spec2Isabelle
  imports Complex_Main "HOL-Library.AList" "HOL-Library.Multiset"
begin

section \<open>Conventions of the embedding\<close>

text \<open>
  The development embeds the durable orchestration layer of BioValue-AI: the Saga
  compensator (\<^verbatim>\<open>internal/workflow/saga.go\<close>), the per-pipeline child workflow and
  the main workflow (\<^verbatim>\<open>internal/workflow\<close>), the error classifier
  (\<^verbatim>\<open>pkg/errors\<close>) and the LLM-backed activities
  (\<^verbatim>\<open>internal/activity/activities.go\<close>).

  \<^item> A Go struct is a record. Go structs share field names (\<^verbatim>\<open>Ticker\<close>,
    \<^verbatim>\<open>DrugName\<close>, ...), record fields cannot, so every field carries a short prefix
    of its struct: \<^verbatim>\<open>DrugPipeline.DrugName\<close> is \<open>dp_DrugName\<close>.
  \<^item> \<^verbatim>\<open>float64\<close> in an artifact is the type parameter \<open>'f\<close>. The code only
    stores and copies these floats, writes decimal literals and adds revenues; nothing is
    assumed about the arithmetic of \<open>'f\<close> beyond the symbols used, so the general
    statements hold for IEEE binary64 as they do for the reals. The example runs take
    \<open>'f\<close> to be \<open>real\<close>. The percentage of the progress query is computed in a float
    type of its own parameter \<open>'p\<close>, from the conversion of an integer and the
    division, the product and the literal 100 of that type.
  \<^item> A Go \<^verbatim>\<open>error\<close> result is a sum \<open>error + 'a\<close> (\<open>Inl\<close> the error); a
    nilable \<^verbatim>\<open>error\<close> on its own is \<open>error option\<close>; a nilable pointer is an
    \<open>option\<close>.
  \<^item> A Go \<^verbatim>\<open>map[string]string\<close> is an association list with pairwise distinct
    keys, written with \<open>AList.update\<close>; \<open>length\<close> is Go's \<^verbatim>\<open>len\<close>.
  \<^item> What the Temporal runtime, the LLM gateway, Redis and \<^verbatim>\<open>encoding/json\<close>
    answer is not decided by this repository: each is a parameter (a field of an
    environment record), and theorems quantify over all of them.
  \<^item> Logger calls are left out, except in the Saga compensator, where the log lines are
    the record of what ran.
\<close>

section \<open>Errors and their classification\<close>

text \<open>
  Package \<^verbatim>\<open>errors\<close> of the repository (\<^verbatim>\<open>pkg/errors\<close>, which the workflow
  imports; its listing follows the Makefile in \<^verbatim>\<open>skills/market_strategist.md\<close>).
  Go errors form chains:
  \<^verbatim>\<open>fmt.Errorf("...: %w", err)\<close> wraps \<^verbatim>\<open>err\<close>, a \<^verbatim>\<open>*ClassifiedError\<close>
  unwraps to its cause, and \<^verbatim>\<open>errors.Is\<close> and \<^verbatim>\<open>errors.As\<close> walk the chain.

  \<^item> \<open>DeadlineExceeded\<close> is \<^verbatim>\<open>context.DeadlineExceeded\<close>; the eight \<open>Err...\<close>
    constructors are the sentinels the package declares with \<^verbatim>\<open>errors.New\<close>.
  \<^item> \<open>Classified\<close> is a \<^verbatim>\<open>*ClassifiedError\<close> used as an error, with the fields of
    the struct in their order.
  \<^item> \<open>TemporalFailure\<close> is an error value of the Temporal SDK, the only kind of error
    that \<^verbatim>\<open>Get\<close> on the future of an activity or of a child workflow returns for a
    failure of that activity or child: the failure crosses the runtime serialised, so the
    value holds its message and, as the cause, another value of the SDK, and none of the Go
    values of the chain that the activity or child returned.
  \<^item> \<open>ErrOther\<close> is any other leaf error (a JSON syntax error, a Redis error, a
    recovered panic).
\<close>

type_synonym ErrorLevel = int

datatype meta_value = MetaString string | MetaBool bool

datatype error =
    DeadlineExceeded
  | ErrRateLimited
  | ErrValidationFailed
  | ErrHallucination
  | ErrConfigInvalid
  | ErrAuthFailed
  | ErrCacheUnavailable
  | ErrLLMUnavailable
  | ErrToolFailed
  | ErrOther string
  | Errorf string error
  | Classified ErrorLevel string string "error option" bool int "(string \<times> meta_value) list"
  | TemporalFailure string "error option"

definition L1Recoverable :: ErrorLevel where "L1Recoverable = 0 + 1"
definition L2Intervention :: ErrorLevel where "L2Intervention = 1 + 1"
definition L3Fatal :: ErrorLevel where "L3Fatal = 2 + 1"

record ClassifiedError =
  ce_Level :: ErrorLevel
  ce_Code :: string
  ce_Message :: string
  ce_Cause :: "error option"
  ce_Retryable :: bool
  ce_MaxRetries :: int
  ce_Metadata :: "(string \<times> meta_value) list"

fun errors_Is :: "error \<Rightarrow> error \<Rightarrow> bool" where
  "errors_Is (Errorf msg cause) target =
     (if Errorf msg cause = target then True else errors_Is cause target)"
| "errors_Is (Classified level code message cause retryable maxRetries metadata) target =
     (if Classified level code message cause retryable maxRetries metadata = target then True
      else case cause of None \<Rightarrow> False | Some c \<Rightarrow> errors_Is c target)"
| "errors_Is (TemporalFailure message cause) target =
     (if TemporalFailure message cause = target then True
      else case cause of None \<Rightarrow> False | Some c \<Rightarrow> errors_Is c target)"
| "errors_Is err target = (err = target)"

text \<open>\<^verbatim>\<open>errors.As(err, &classifiedErr)\<close>: the first \<^verbatim>\<open>*ClassifiedError\<close> of the chain.\<close>

fun errors_As :: "error \<Rightarrow> ClassifiedError option" where
  "errors_As (Classified level code message cause retryable maxRetries metadata) =
     Some \<lparr>ce_Level = level, ce_Code = code, ce_Message = message, ce_Cause = cause,
           ce_Retryable = retryable, ce_MaxRetries = maxRetries, ce_Metadata = metadata\<rparr>"
| "errors_As (Errorf msg cause) = errors_As cause"
| "errors_As (TemporalFailure message cause) =
     (case cause of None \<Rightarrow> None | Some c \<Rightarrow> errors_As c)"
| "errors_As err = None"

text \<open>\<^verbatim>\<open>ClassifyError\<close>; \<open>None\<close> is the nil error and the nil result.\<close>

definition ClassifyError :: "error option \<Rightarrow> ClassifiedError option" where
  "ClassifyError e =
     (case e of
        None \<Rightarrow> None
      | Some err \<Rightarrow>
          (case errors_As err of
             Some classifiedErr \<Rightarrow> Some classifiedErr
           | None \<Rightarrow>
               if errors_Is err DeadlineExceeded then
                 Some \<lparr>ce_Level = L1Recoverable, ce_Code = ''TIMEOUT'',
                       ce_Message = ''Operation timed out'', ce_Cause = Some err,
                       ce_Retryable = True, ce_MaxRetries = 3, ce_Metadata = []\<rparr>
               else if errors_Is err ErrRateLimited then
                 Some \<lparr>ce_Level = L1Recoverable, ce_Code = ''RATE_LIMITED'',
                       ce_Message = ''Rate limit exceeded'', ce_Cause = Some err,
                       ce_Retryable = True, ce_MaxRetries = 5,
                       ce_Metadata = [(''backoff'', MetaString ''exponential'')]\<rparr>
               else if errors_Is err ErrCacheUnavailable then
                 Some \<lparr>ce_Level = L1Recoverable, ce_Code = ''CACHE_UNAVAILABLE'',
                       ce_Message = ''Cache service unavailable'', ce_Cause = Some err,
                       ce_Retryable = True, ce_MaxRetries = 3, ce_Metadata = []\<rparr>
               else if errors_Is err ErrValidationFailed then
                 Some \<lparr>ce_Level = L2Intervention, ce_Code = ''VALIDATION_FAILED'',
                       ce_Message = ''Data validation failed'', ce_Cause = Some err,
                       ce_Retryable = False, ce_MaxRetries = 0, ce_Metadata = []\<rparr>
               else if errors_Is err ErrHallucination then
                 Some \<lparr>ce_Level = L2Intervention, ce_Code = ''LLM_HALLUCINATION'',
                       ce_Message = ''LLM output verification failed'', ce_Cause = Some err,
                       ce_Retryable = True, ce_MaxRetries = 2,
                       ce_Metadata = [(''require_human_review'', MetaBool True)]\<rparr>
               else if errors_Is err ErrLLMUnavailable then
                 Some \<lparr>ce_Level = L1Recoverable, ce_Code = ''LLM_UNAVAILABLE'',
                       ce_Message = ''LLM service unavailable'', ce_Cause = Some err,
                       ce_Retryable = True, ce_MaxRetries = 3,
                       ce_Metadata = [(''try_fallback'', MetaBool True)]\<rparr>
               else if errors_Is err ErrToolFailed then
                 Some \<lparr>ce_Level = L1Recoverable, ce_Code = ''TOOL_FAILED'',
                       ce_Message = ''Tool execution failed'', ce_Cause = Some err,
                       ce_Retryable = True, ce_MaxRetries = 2, ce_Metadata = []\<rparr>
               else if errors_Is err ErrConfigInvalid \<or> errors_Is err ErrAuthFailed then
                 Some \<lparr>ce_Level = L3Fatal, ce_Code = ''FATAL_CONFIG'',
                       ce_Message = ''Fatal configuration or authentication error'',
                       ce_Cause = Some err, ce_Retryable = False, ce_MaxRetries = 0,
                       ce_Metadata = []\<rparr>
               else
                 Some \<lparr>ce_Level = L1Recoverable, ce_Code = ''UNKNOWN'',
                       ce_Message = ''Unknown error'', ce_Cause = Some err,
                       ce_Retryable = True, ce_MaxRetries = 1, ce_Metadata = []\<rparr>))"


section \<open>The Saga compensator\<close>

text \<open>
  A compensation is a Go closure \<^verbatim>\<open>func(ctx workflow.Context) error\<close>: it acts on
  the world behind the context and may fail. The world is the type parameter \<open>'w\<close>.
  \<^verbatim>\<open>Execute\<close> dispatches the \<^verbatim>\<open>NotifyCompensationFailure\<close> activity through
  the SDK and discards its result; the dispatch is the parameter \<open>notify\<close>. The log
  lines of \<^verbatim>\<open>Execute\<close> and the dispatch are collected in order.
\<close>

record 'w CompensationStep =
  cs_Name :: string
  cs_Fn :: "'w \<Rightarrow> error option \<times> 'w"

record 'w SagaCompensation =
  steps :: "'w CompensationStep list"

definition NewSagaCompensation :: "'w SagaCompensation" where
  "NewSagaCompensation = \<lparr>steps = []\<rparr>"

definition AddCompensation ::
  "string \<Rightarrow> ('w \<Rightarrow> error option \<times> 'w) \<Rightarrow> 'w SagaCompensation \<Rightarrow> 'w SagaCompensation" where
  "AddCompensation name fn s = s\<lparr>steps := [\<lparr>cs_Name = name, cs_Fn = fn\<rparr>] @ steps s\<rparr>"

datatype saga_event =
    Executing string
  | CompensationFailed string error
  | NotifyCompensationFailure string error
  | CompensationCompleted string

fun Execute_loop ::
  "(string \<Rightarrow> error \<Rightarrow> 'w \<Rightarrow> 'w) \<Rightarrow> 'w CompensationStep list \<Rightarrow> 'w \<Rightarrow> saga_event list
     \<Rightarrow> 'w \<times> saga_event list" where
  "Execute_loop notify [] w evs = (w, evs)"
| "Execute_loop notify (step # rest) w evs =
     (case cs_Fn step w of
        (Some err, w') \<Rightarrow>
          Execute_loop notify rest (notify (cs_Name step) err w')
            (evs @ [Executing (cs_Name step), CompensationFailed (cs_Name step) err,
                    NotifyCompensationFailure (cs_Name step) err])
      | (None, w') \<Rightarrow>
          Execute_loop notify rest w'
            (evs @ [Executing (cs_Name step), CompensationCompleted (cs_Name step)]))"

definition Execute ::
  "(string \<Rightarrow> error \<Rightarrow> 'w \<Rightarrow> 'w) \<Rightarrow> 'w SagaCompensation \<Rightarrow> 'w
     \<Rightarrow> error option \<times> 'w \<times> saga_event list" where
  "Execute notify s w = (None, Execute_loop notify (steps s) w [])"

definition Clear :: "'w SagaCompensation \<Rightarrow> 'w SagaCompensation" where
  "Clear s = s\<lparr>steps := []\<rparr>"

definition Len :: "'w SagaCompensation \<Rightarrow> nat" where
  "Len s = length (steps s)"

text \<open>Readings of the Saga log: the steps that were started, failed, and notified.\<close>

fun executed :: "saga_event list \<Rightarrow> string list" where
  "executed [] = []"
| "executed (Executing n # es) = n # executed es"
| "executed (e # es) = executed es"

fun failures :: "saga_event list \<Rightarrow> (string \<times> error) list" where
  "failures [] = []"
| "failures (CompensationFailed n err # es) = (n, err) # failures es"
| "failures (e # es) = failures es"

fun notified :: "saga_event list \<Rightarrow> (string \<times> error) list" where
  "notified [] = []"
| "notified (NotifyCompensationFailure n err # es) = (n, err) # notified es"
| "notified (e # es) = notified es"

text \<open>
  What one compensation does to the world when it is run on \<open>w\<close>: the effect of its
  function, followed by the notification if it failed; and the lines it leaves in the log.
  \<open>saga_run\<close> runs a list of compensations in list order.
\<close>

definition compensate ::
  "(string \<Rightarrow> error \<Rightarrow> 'w \<Rightarrow> 'w) \<Rightarrow> string \<times> ('w \<Rightarrow> error option \<times> 'w) \<Rightarrow> 'w \<Rightarrow> 'w" where
  "compensate notify step w =
     (case snd step w of
        (Some err, w') \<Rightarrow> notify (fst step) err w'
      | (None, w') \<Rightarrow> w')"

definition compensation_events ::
  "string \<times> ('w \<Rightarrow> error option \<times> 'w) \<Rightarrow> 'w \<Rightarrow> saga_event list" where
  "compensation_events step w =
     (case snd step w of
        (Some err, w') \<Rightarrow>
          [Executing (fst step), CompensationFailed (fst step) err,
           NotifyCompensationFailure (fst step) err]
      | (None, w') \<Rightarrow> [Executing (fst step), CompensationCompleted (fst step)])"

fun saga_run ::
  "(string \<Rightarrow> error \<Rightarrow> 'w \<Rightarrow> 'w) \<Rightarrow> (string \<times> ('w \<Rightarrow> error option \<times> 'w)) list \<Rightarrow> 'w
     \<Rightarrow> 'w \<times> saga_event list" where
  "saga_run notify [] w = (w, [])"
| "saga_run notify (step # rest) w =
     (case saga_run notify rest (compensate notify step w) of
        (w', evs) \<Rightarrow> (w', compensation_events step w @ evs))"

text \<open>Adding compensations one after the other, in list order, to a Saga.\<close>

definition add_all ::
  "(string \<times> ('w \<Rightarrow> error option \<times> 'w)) list \<Rightarrow> 'w SagaCompensation \<Rightarrow> 'w SagaCompensation" where
  "add_all adds s = foldl (\<lambda>acc (name, fn). AddCompensation name fn acc) s adds"

section \<open>Agent artifacts\<close>

text \<open>
  The records of \<^verbatim>\<open>internal/activity/types.go\<close>. \<^verbatim>\<open>time.Time\<close> is a number of
  seconds; the zero value of a struct is the record of the zero values of its fields.
\<close>

type_synonym Time = int

record FinancialAuditorInput =
  fai_Ticker :: string
  fai_ReportPath :: string

record 'f FinancialMetrics =
  fm_CashOnHand :: 'f
  fm_AnnualBurnRate :: 'f
  fm_CashRunwayMonths :: 'f
  fm_RAndDExpenses :: 'f
  fm_OperatingCashFlow :: 'f

record 'f FinancialResult =
  fr_Ticker :: string
  fr_Metrics :: "'f FinancialMetrics"
  fr_HealthScore :: int
  fr_RiskWarning :: string
  fr_SourceURL :: string
  fr_UpdatedAt :: Time

record PipelineScoutInput =
  psi_Ticker :: string
  psi_CompanyURL :: string

record DrugPipeline =
  dp_DrugName :: string
  dp_Target :: string
  dp_Indication :: string
  dp_Phase :: string
  dp_Modality :: string
  dp_NCTID :: string

record PipelineResult =
  pr_Ticker :: string
  pr_Pipelines :: "DrugPipeline list"
  pr_DataAsOf :: Time

record ClinicalAssessorInput =
  cai_Ticker :: string
  cai_Pipeline :: DrugPipeline

record 'f ClinicalAssessment =
  ca_DrugName :: string
  ca_Target :: string
  ca_Indication :: string
  ca_Phase :: string
  ca_POSScore :: 'f
  ca_CompetitiveLandscape :: string
  ca_ClinicalAdvantage :: string
  ca_Rating :: string
  ca_KeyCompetitors :: "string list"
  ca_DataSources :: "string list"

record 'f ClinicalResult =
  cr_Ticker :: string
  cr_Assessments :: "'f ClinicalAssessment list"
  cr_UpdatedAt :: Time

record 'f MarketStrategistInput =
  msi_Ticker :: string
  msi_Pipeline :: DrugPipeline
  msi_Clinical :: "'f ClinicalAssessment option"

record 'f MarketForecast =
  mf_TAM :: 'f
  mf_PenetrationRate :: 'f
  mf_PeakSales :: 'f
  mf_Currency :: string

record 'f BDForecast =
  bd_UpfrontPotential :: 'f
  bd_MilestonePotential :: 'f
  bd_RoyaltyRate :: 'f
  bd_TargetRegion :: string
  bd_ComparableDeals :: "string list"

record 'f MarketAssessment =
  ma_DrugName :: string
  ma_Target :: string
  ma_Indication :: string
  ma_Domestic :: "'f MarketForecast"
  ma_BDOutlook :: "'f BDForecast"
  ma_RiskAdjustedRevenue :: 'f
  ma_Assumptions :: "string list"

record 'f MarketResult =
  mr_Ticker :: string
  mr_Assessments :: "'f MarketAssessment list"
  mr_TotalRiskAdjustedRevenue :: 'f
  mr_UpdatedAt :: Time

record PipelineAnalysisInput =
  pai_Ticker :: string
  pai_Pipeline :: DrugPipeline

record 'f PipelineAnalysisResult =
  par_Pipeline :: DrugPipeline
  par_Clinical :: "'f ClinicalAssessment"
  par_Market :: "'f MarketAssessment"

record 'f ValuationActuaryInput =
  vai_Ticker :: string
  vai_Financial :: "'f FinancialResult option"
  vai_Clinical :: "'f ClinicalResult option"
  vai_Market :: "'f MarketResult option"

record 'f ValuationScenario =
  vs_Value1Y :: 'f
  vs_Value3Y :: 'f
  vs_Value5Y :: 'f
  vs_Value10Y :: 'f
  vs_Rationale :: string

record 'f ValuationAssumptions =
  va_WACC :: 'f
  va_TerminalGrowth :: 'f
  va_AvgPOS :: 'f
  va_Methodology :: string

record 'f ValuationResult =
  vr_BullCase :: "'f ValuationScenario"
  vr_BaseCase :: "'f ValuationScenario"
  vr_BearCase :: "'f ValuationScenario"
  vr_Assumptions :: "'f ValuationAssumptions"

record ReportResult =
  rr_Ticker :: string
  rr_MarkdownContent :: string
  rr_KeyRisks :: "string list"
  rr_Recommendation :: string
  rr_GeneratedAt :: Time

record 'f ReportGeneratorInput =
  rgi_Ticker :: string
  rgi_Financial :: "'f FinancialResult option"
  rgi_Pipeline :: "PipelineResult option"
  rgi_PipelineAnalyses :: "'f PipelineAnalysisResult list"
  rgi_Clinical :: "'f ClinicalResult option"
  rgi_Market :: "'f MarketResult option"
  rgi_Valuation :: "'f ValuationResult option"

definition zero_FinancialResult :: "('f::zero) FinancialResult" where
  "zero_FinancialResult =
     \<lparr>fr_Ticker = [],
      fr_Metrics = \<lparr>fm_CashOnHand = 0, fm_AnnualBurnRate = 0, fm_CashRunwayMonths = 0,
                    fm_RAndDExpenses = 0, fm_OperatingCashFlow = 0\<rparr>,
      fr_HealthScore = 0, fr_RiskWarning = [], fr_SourceURL = [], fr_UpdatedAt = 0\<rparr>"

definition zero_PipelineResult :: PipelineResult where
  "zero_PipelineResult = \<lparr>pr_Ticker = [], pr_Pipelines = [], pr_DataAsOf = 0\<rparr>"

definition zero_MarketForecast :: "('f::zero) MarketForecast" where
  "zero_MarketForecast =
     \<lparr>mf_TAM = 0, mf_PenetrationRate = 0, mf_PeakSales = 0, mf_Currency = []\<rparr>"

definition zero_BDForecast :: "('f::zero) BDForecast" where
  "zero_BDForecast =
     \<lparr>bd_UpfrontPotential = 0, bd_MilestonePotential = 0, bd_RoyaltyRate = 0,
      bd_TargetRegion = [], bd_ComparableDeals = []\<rparr>"

definition zero_ClinicalAssessment :: "('f::zero) ClinicalAssessment" where
  "zero_ClinicalAssessment =
     \<lparr>ca_DrugName = [], ca_Target = [], ca_Indication = [], ca_Phase = [], ca_POSScore = 0,
      ca_CompetitiveLandscape = [], ca_ClinicalAdvantage = [], ca_Rating = [],
      ca_KeyCompetitors = [], ca_DataSources = []\<rparr>"

definition zero_MarketAssessment :: "('f::zero) MarketAssessment" where
  "zero_MarketAssessment =
     \<lparr>ma_DrugName = [], ma_Target = [], ma_Indication = [],
      ma_Domestic = zero_MarketForecast, ma_BDOutlook = zero_BDForecast,
      ma_RiskAdjustedRevenue = 0, ma_Assumptions = []\<rparr>"

definition zero_ClinicalResult :: "'f ClinicalResult" where
  "zero_ClinicalResult = \<lparr>cr_Ticker = [], cr_Assessments = [], cr_UpdatedAt = 0\<rparr>"

definition zero_MarketResult :: "('f::zero) MarketResult" where
  "zero_MarketResult =
     \<lparr>mr_Ticker = [], mr_Assessments = [], mr_TotalRiskAdjustedRevenue = 0, mr_UpdatedAt = 0\<rparr>"

definition zero_ValuationScenario :: "('f::zero) ValuationScenario" where
  "zero_ValuationScenario =
     \<lparr>vs_Value1Y = 0, vs_Value3Y = 0, vs_Value5Y = 0, vs_Value10Y = 0, vs_Rationale = []\<rparr>"

definition zero_ValuationResult :: "('f::zero) ValuationResult" where
  "zero_ValuationResult =
     \<lparr>vr_BullCase = zero_ValuationScenario, vr_BaseCase = zero_ValuationScenario,
      vr_BearCase = zero_ValuationScenario,
      vr_Assumptions = \<lparr>va_WACC = 0, va_TerminalGrowth = 0, va_AvgPOS = 0,
                          va_Methodology = []\<rparr>\<rparr>"

section \<open>The per-pipeline child workflow\<close>

text \<open>
  \<^verbatim>\<open>workflow.ExecuteActivity(ctx, name, input).Get(ctx, &result)\<close> returns what the
  activity returned on its last attempt, after the retries of the runtime. The two
  answers are the fields of \<open>pa_env\<close>. The workflow returns its result together with the
  activities it dispatched, in order.
\<close>

record 'f pa_env =
  exec_ClinicalAssessor :: "ClinicalAssessorInput \<Rightarrow> error + 'f ClinicalAssessment"
  exec_MarketStrategist :: "'f MarketStrategistInput \<Rightarrow> error + 'f MarketAssessment"

datatype 'f pa_call =
    CallClinicalAssessor ClinicalAssessorInput
  | CallMarketStrategist "'f MarketStrategistInput"

definition getDefaultPOS :: "string \<Rightarrow> 'f::{inverse,numeral,power}" where
  "getDefaultPOS phase =
     (if phase = ''Preclinical'' then 0.05
      else if phase = ''Phase1'' then 0.10
      else if phase = ''Phase1_2'' then 0.15
      else if phase = ''Phase2'' then 0.30
      else if phase = ''Phase2_3'' then 0.50
      else if phase = ''Phase3'' then 0.60
      else if phase = ''Approved'' then 1.0
      else 0.20)"

definition default_ClinicalAssessment ::
  "DrugPipeline \<Rightarrow> ('f::{inverse,numeral,power,zero}) ClinicalAssessment" where
  "default_ClinicalAssessment p =
     zero_ClinicalAssessment
       \<lparr>ca_DrugName := dp_DrugName p,
        ca_Target := dp_Target p,
        ca_Indication := dp_Indication p,
        ca_Phase := dp_Phase p,
        ca_POSScore := getDefaultPOS (dp_Phase p),
        ca_CompetitiveLandscape := ''Unable to assess'',
        ca_ClinicalAdvantage := ''Unable to assess'',
        ca_Rating := ''Unknown''\<rparr>"

definition default_MarketAssessment :: "DrugPipeline \<Rightarrow> ('f::zero) MarketAssessment" where
  "default_MarketAssessment p =
     zero_MarketAssessment
       \<lparr>ma_DrugName := dp_DrugName p,
        ma_Target := dp_Target p,
        ma_Indication := dp_Indication p,
        ma_Domestic := zero_MarketForecast\<lparr>mf_TAM := 0, mf_Currency := ''USD''\<rparr>,
        ma_BDOutlook := zero_BDForecast\<lparr>bd_TargetRegion := ''Unknown''\<rparr>,
        ma_RiskAdjustedRevenue := 0\<rparr>"

definition PipelineAnalysisWorkflow ::
  "('f::{inverse,numeral,power,zero}) pa_env \<Rightarrow> PipelineAnalysisInput
     \<Rightarrow> (error + 'f PipelineAnalysisResult) \<times> 'f pa_call list" where
  "PipelineAnalysisWorkflow env input =
     (let clinicalInput = \<lparr>cai_Ticker = pai_Ticker input, cai_Pipeline = pai_Pipeline input\<rparr>;
          clinicalResult =
            (case exec_ClinicalAssessor env clinicalInput of
               Inl err \<Rightarrow> default_ClinicalAssessment (pai_Pipeline input)
             | Inr c \<Rightarrow> c);
          marketInput = \<lparr>msi_Ticker = pai_Ticker input, msi_Pipeline = pai_Pipeline input,
                          msi_Clinical = Some clinicalResult\<rparr>;
          marketResult =
            (case exec_MarketStrategist env marketInput of
               Inl err \<Rightarrow> default_MarketAssessment (pai_Pipeline input)
             | Inr m \<Rightarrow> m)
      in (Inr \<lparr>par_Pipeline = pai_Pipeline input, par_Clinical = clinicalResult,
               par_Market = marketResult\<rparr>,
          [CallClinicalAssessor clinicalInput, CallMarketStrategist marketInput]))"

section \<open>Aggregation of the per-drug analyses\<close>

fun aggregateClinicalResults_loop ::
  "'f PipelineAnalysisResult list \<Rightarrow> 'f ClinicalAssessment list \<Rightarrow> 'f ClinicalAssessment list" where
  "aggregateClinicalResults_loop [] assessments = assessments"
| "aggregateClinicalResults_loop (a # rest) assessments =
     aggregateClinicalResults_loop rest (assessments @ [par_Clinical a])"

definition aggregateClinicalResults ::
  "string \<Rightarrow> 'f PipelineAnalysisResult list \<Rightarrow> 'f ClinicalResult" where
  "aggregateClinicalResults ticker analyses =
     zero_ClinicalResult
       \<lparr>cr_Ticker := ticker,
        cr_Assessments := aggregateClinicalResults_loop analyses []\<rparr>"

fun aggregateMarketResults_loop ::
  "('f::{plus,zero}) PipelineAnalysisResult list \<Rightarrow> 'f MarketAssessment list \<times> 'f
     \<Rightarrow> 'f MarketAssessment list \<times> 'f" where
  "aggregateMarketResults_loop [] (assessments, totalRevenue) = (assessments, totalRevenue)"
| "aggregateMarketResults_loop (a # rest) (assessments, totalRevenue) =
     aggregateMarketResults_loop rest
       (assessments @ [par_Market a], totalRevenue + ma_RiskAdjustedRevenue (par_Market a))"

definition aggregateMarketResults ::
  "string \<Rightarrow> ('f::{plus,zero}) PipelineAnalysisResult list \<Rightarrow> 'f MarketResult" where
  "aggregateMarketResults ticker analyses =
     (case aggregateMarketResults_loop analyses ([], 0) of
        (assessments, totalRevenue) \<Rightarrow>
          zero_MarketResult
            \<lparr>mr_Ticker := ticker,
             mr_Assessments := assessments,
             mr_TotalRiskAdjustedRevenue := totalRevenue\<rparr>)"

section \<open>The valuation child workflow\<close>

record 'f ValuationInput =
  vi_Ticker :: string
  vi_Financial :: "'f FinancialResult option"
  vi_Clinical :: "'f ClinicalResult option"
  vi_Market :: "'f MarketResult option"

definition ValuationWorkflow ::
  "('f ValuationActuaryInput \<Rightarrow> error + 'f ValuationResult) \<Rightarrow> 'f ValuationInput
     \<Rightarrow> error + 'f ValuationResult" where
  "ValuationWorkflow exec_ValuationActuary input =
     (case exec_ValuationActuary
             \<lparr>vai_Ticker = vi_Ticker input, vai_Financial = vi_Financial input,
              vai_Clinical = vi_Clinical input, vai_Market = vi_Market input\<rparr> of
        Inl err \<Rightarrow> Inl err
      | Inr result \<Rightarrow> Inr result)"

section \<open>The main workflow\<close>

record WorkflowInput =
  wi_Ticker :: string
  wi_ReportPath :: string
  wi_Options :: "(string \<times> string) list"

record 'f WorkflowOutput =
  wo_Ticker :: string
  wo_Financial :: "'f FinancialResult option"
  wo_Pipeline :: "PipelineResult option"
  wo_PipelineAnalyses :: "'f PipelineAnalysisResult list"
  wo_Clinical :: "'f ClinicalResult option"
  wo_Market :: "'f MarketResult option"
  wo_Valuation :: "'f ValuationResult option"
  wo_Report :: "ReportResult option"
  wo_TraceID :: string
  wo_CompletedAt :: Time

record 'p ProgressInfo =
  pi_CurrentAgent :: string
  pi_CompletedSteps :: "string list"
  pi_TotalSteps :: int
  pi_Progress :: 'p
  pi_PipelineProgress :: "(string \<times> string) list"

text \<open>
  Everything the workflow dispatches through the SDK, in dispatch order. The child
  workflows carry their workflow ID. \<^verbatim>\<open>NotifyCompensationFailure\<close> receives the
  step name and \<^verbatim>\<open>err.Error()\<close>; the model keeps the error itself.
\<close>

datatype 'f wf_call =
    CallFinancialAuditor FinancialAuditorInput
  | CallPipelineScout PipelineScoutInput
  | StartPipelineAnalysis string PipelineAnalysisInput
  | StartValuation string "'f ValuationInput"
  | CallReportGenerator "'f ReportGeneratorInput"
  | CallCleanupCache string string
  | CallNotifyCompensationFailure string error

text \<open>
  The answers of the runtime to one run. \<open>env_PipelineAnalysis i\<close> is what the child
  workflow started at index \<open>i\<close> returns to the parent. \<open>env_readyA\<close> and
  \<open>env_readyB\<close> decide which pending future each \<^verbatim>\<open>Select\<close> finds ready (see
  \<open>select_order\<close>). The signal listener runs concurrently with the main routine; of
  it the model keeps what the main routine observes at its three checkpoints:
  \<open>env_isPaused k\<close> is the value of \<^verbatim>\<open>isPaused\<close> read at checkpoint \<open>k\<close>, and
  \<open>env_AwaitReturns k\<close> says whether the \<^verbatim>\<open>Await\<close> entered there ever returns.
\<close>

record 'f wf_env =
  env_RunID :: string
  env_SetQueryHandler :: "error option"
  env_FinancialAuditor :: "FinancialAuditorInput \<Rightarrow> error + 'f FinancialResult"
  env_PipelineScout :: "PipelineScoutInput \<Rightarrow> error + PipelineResult"
  env_readyA :: "nat \<Rightarrow> nat"
  env_PipelineAnalysis :: "nat \<Rightarrow> PipelineAnalysisInput \<Rightarrow> error + 'f PipelineAnalysisResult"
  env_readyB :: "nat \<Rightarrow> nat"
  env_Valuation :: "'f ValuationInput \<Rightarrow> error + 'f ValuationResult"
  env_ReportGenerator :: "'f ReportGeneratorInput \<Rightarrow> error + ReportResult"
  env_CleanupCache :: "string \<Rightarrow> string \<Rightarrow> error option"
  env_isPaused :: "nat \<Rightarrow> bool"
  env_AwaitReturns :: "nat \<Rightarrow> bool"
  env_Now :: Time

text \<open>
  The variables the closures of \<^verbatim>\<open>BioValueWorkflow\<close> share, with the dispatches
  (\<open>calls\<close>) and the log of the Saga (\<open>sagaLog\<close>).
\<close>

record 'f wf_state =
  currentAgent :: string
  completedSteps :: "string list"
  pipelineProgress :: "(string \<times> string) list"
  saga :: "'f wf_call list SagaCompensation"
  "output" :: "'f WorkflowOutput"
  financialResult :: "'f FinancialResult"
  pipelineResult :: PipelineResult
  pipelineAnalyses :: "'f PipelineAnalysisResult list"
  clinicalResult :: "'f ClinicalResult"
  marketResult :: "'f MarketResult"
  valuationResult :: "'f ValuationResult"
  calls :: "'f wf_call list"
  sagaLog :: "saga_event list"

text \<open>
  The registered \<^verbatim>\<open>progress\<close> query handler: its answer, and the state it leaves.
  The percentage is a \<^verbatim>\<open>float64\<close>: \<open>float64\<close> is the conversion
  \<^verbatim>\<open>float64(n)\<close> of an \<^verbatim>\<open>int\<close>, and the division, the product and the literal
  100 are those of the float type \<open>'p\<close>, of which nothing is assumed.
\<close>

definition progress_query ::
  "(int \<Rightarrow> 'p::{inverse,times,numeral}) \<Rightarrow> 'f wf_state
     \<Rightarrow> (error + 'p ProgressInfo) \<times> 'f wf_state" where
  "progress_query float64 s =
     (let totalSteps = 4 + int (length (pipelineProgress s)) * 2
      in (Inr \<lparr>pi_CurrentAgent = currentAgent s,
               pi_CompletedSteps = completedSteps s,
               pi_TotalSteps = totalSteps,
               pi_Progress = float64 (int (length (completedSteps s))) / float64 totalSteps * 100,
               pi_PipelineProgress = pipelineProgress s\<rparr>, s))"

text \<open>
  A selector holding the futures \<open>pending\<close>: each \<^verbatim>\<open>Select\<close> runs the callback of
  one pending future that is ready, and a future fires once. Which one is the choice of
  the runtime, \<open>ready k\<close> at the \<open>k\<close>-th \<^verbatim>\<open>Select\<close>. The result is the order in
  which the callbacks run when \<^verbatim>\<open>Select\<close> is called once per future.
\<close>

function select_order :: "(nat \<Rightarrow> nat) \<Rightarrow> nat \<Rightarrow> nat list \<Rightarrow> nat list" where
  "select_order ready k pending =
     (if pending = [] then []
      else let i = pending ! (ready k mod length pending)
           in i # select_order ready (Suc k) (remove1 i pending))"
  by pat_completeness auto
termination
  by (relation "measure (\<lambda>(ready, k, pending). length pending)")
     (auto simp: length_remove1 intro!: diff_less)

declare select_order.simps [simp del]

fun Sprint_d :: "nat \<Rightarrow> string" where
  "Sprint_d n =
     (if n < 10 then [''0123456789'' ! n]
      else Sprint_d (n div 10) @ [''0123456789'' ! (n mod 10)])"

declare Sprint_d.simps [simp del]

definition cleanupFinancialData ::
  "'f wf_env \<Rightarrow> string \<Rightarrow> 'f wf_call list \<Rightarrow> error option \<times> 'f wf_call list" where
  "cleanupFinancialData env ticker w =
     (env_CleanupCache env ticker ''financials'', w @ [CallCleanupCache ticker ''financials''])"

definition cleanupPipelineData ::
  "'f wf_env \<Rightarrow> string \<Rightarrow> 'f wf_call list \<Rightarrow> error option \<times> 'f wf_call list" where
  "cleanupPipelineData env ticker w =
     (env_CleanupCache env ticker ''pipeline'', w @ [CallCleanupCache ticker ''pipeline''])"

definition initial_state :: "'f wf_env \<Rightarrow> WorkflowInput \<Rightarrow> ('f::zero) wf_state" where
  "initial_state env input =
     \<lparr>currentAgent = [], completedSteps = [], pipelineProgress = [],
      saga = NewSagaCompensation,
      output = \<lparr>wo_Ticker = wi_Ticker input, wo_Financial = None, wo_Pipeline = None,
                 wo_PipelineAnalyses = [], wo_Clinical = None, wo_Market = None,
                 wo_Valuation = None, wo_Report = None, wo_TraceID = env_RunID env,
                 wo_CompletedAt = 0\<rparr>,
      financialResult = zero_FinancialResult, pipelineResult = zero_PipelineResult,
      pipelineAnalyses = [], clinicalResult = zero_ClinicalResult,
      marketResult = zero_MarketResult, valuationResult = zero_ValuationResult,
      calls = [], sagaLog = []\<rparr>"

text \<open>Steps 1 and 2. Future 0 is the financial audit, future 1 the pipeline scan.\<close>

definition parallel_callback ::
  "'f wf_env \<Rightarrow> WorkflowInput \<Rightarrow> nat \<Rightarrow> 'f wf_state \<Rightarrow> 'f wf_state" where
  "parallel_callback env input i s =
     (if i = 0 then
        (case env_FinancialAuditor env
                \<lparr>fai_Ticker = wi_Ticker input, fai_ReportPath = wi_ReportPath input\<rparr> of
           Inl err \<Rightarrow> s
         | Inr r \<Rightarrow>
             s\<lparr>financialResult := r,
               completedSteps := completedSteps s @ [''FinancialAuditor''],
               output := (output s)\<lparr>wo_Financial := Some r\<rparr>,
               saga := AddCompensation ''financial''
                         (cleanupFinancialData env (wi_Ticker input)) (saga s)\<rparr>)
      else
        (case env_PipelineScout env \<lparr>psi_Ticker = wi_Ticker input, psi_CompanyURL = []\<rparr> of
           Inl err \<Rightarrow> s
         | Inr r \<Rightarrow>
             s\<lparr>pipelineResult := r,
               completedSteps := completedSteps s @ [''PipelineScout''],
               output := (output s)\<lparr>wo_Pipeline := Some r\<rparr>,
               saga := AddCompensation ''pipeline''
                         (cleanupPipelineData env (wi_Ticker input)) (saga s)\<rparr>))"

definition parallel_phase :: "'f wf_env \<Rightarrow> WorkflowInput \<Rightarrow> 'f wf_state \<Rightarrow> 'f wf_state" where
  "parallel_phase env input s =
     (let s1 = s\<lparr>currentAgent := ''FinancialAuditor,PipelineScout'',
                 calls := calls s @
                   [CallFinancialAuditor
                      \<lparr>fai_Ticker = wi_Ticker input, fai_ReportPath = wi_ReportPath input\<rparr>,
                    CallPipelineScout \<lparr>psi_Ticker = wi_Ticker input, psi_CompanyURL = []\<rparr>]\<rparr>
      in foldl (\<lambda>acc i. parallel_callback env input i acc) s1
           (select_order (env_readyA env) 0 [0, 1]))"

text \<open>Step 3: the fan-out over the pipelines and the collection of the children.\<close>

fun init_progress :: "DrugPipeline list \<Rightarrow> (string \<times> string) list \<Rightarrow> (string \<times> string) list" where
  "init_progress [] m = m"
| "init_progress (p # rest) m = init_progress rest (AList.update (dp_DrugName p) ''pending'' m)"

fun start_children ::
  "string \<Rightarrow> string \<Rightarrow> nat \<Rightarrow> DrugPipeline list \<Rightarrow> 'f wf_state \<Rightarrow> 'f wf_state" where
  "start_children ticker runID i [] s = s"
| "start_children ticker runID i (pipeline # rest) s =
     start_children ticker runID (Suc i) rest
       (s\<lparr>calls := calls s @
             [StartPipelineAnalysis
                (''pipeline-analysis-'' @ ticker @ ''-'' @ runID @ ''-'' @ Sprint_d i)
                \<lparr>pai_Ticker = ticker, pai_Pipeline = pipeline\<rparr>],
          pipelineProgress :=
             AList.update (dp_DrugName pipeline) ''in_progress'' (pipelineProgress s)\<rparr>)"

definition collect_callback ::
  "'f wf_env \<Rightarrow> string \<Rightarrow> DrugPipeline list \<Rightarrow> nat \<Rightarrow> 'f wf_state \<Rightarrow> 'f wf_state" where
  "collect_callback env ticker pipelines idx s =
     (let drugName = dp_DrugName (pipelines ! idx)
      in case env_PipelineAnalysis env idx
                \<lparr>pai_Ticker = ticker, pai_Pipeline = pipelines ! idx\<rparr> of
           Inl err \<Rightarrow>
             s\<lparr>pipelineProgress := AList.update drugName ''failed'' (pipelineProgress s)\<rparr>
         | Inr result \<Rightarrow>
             s\<lparr>pipelineAnalyses := pipelineAnalyses s @ [result],
               pipelineProgress := AList.update drugName ''completed'' (pipelineProgress s),
               completedSteps := completedSteps s @ [''PipelineAnalysis:'' @ drugName]\<rparr>)"

fun collect ::
  "'f wf_env \<Rightarrow> string \<Rightarrow> DrugPipeline list \<Rightarrow> nat list \<Rightarrow> 'f wf_state \<Rightarrow> 'f wf_state" where
  "collect env ticker pipelines [] s = s"
| "collect env ticker pipelines (idx # rest) s =
     collect env ticker pipelines rest (collect_callback env ticker pipelines idx s)"

definition fan_out_phase ::
  "('f::{plus,zero}) wf_env \<Rightarrow> WorkflowInput \<Rightarrow> 'f wf_state \<Rightarrow> 'f wf_state" where
  "fan_out_phase env input s =
     (let pipelines = pr_Pipelines (pipelineResult s);
          s1 = s\<lparr>currentAgent := ''PipelineAnalysis''\<rparr>;
          s2 = s1\<lparr>pipelineProgress := init_progress pipelines (pipelineProgress s1)\<rparr>;
          s3 = start_children (wi_Ticker input) (env_RunID env) 0 pipelines
                 (s2\<lparr>pipelineAnalyses := []\<rparr>);
          s4 = collect env (wi_Ticker input) pipelines
                 (select_order (env_readyB env) 0 [0..<length pipelines]) s3;
          s5 = s4\<lparr>output := (output s4)\<lparr>wo_PipelineAnalyses := pipelineAnalyses s4\<rparr>\<rparr>;
          clinical = aggregateClinicalResults (wi_Ticker input) (pipelineAnalyses s5);
          s6 = s5\<lparr>clinicalResult := clinical,
                  output := (output s5)\<lparr>wo_Clinical := Some clinical\<rparr>,
                  completedSteps := completedSteps s5 @ [''ClinicalAggregation'']\<rparr>;
          market = aggregateMarketResults (wi_Ticker input) (pipelineAnalyses s6)
      in s6\<lparr>marketResult := market,
            output := (output s6)\<lparr>wo_Market := Some market\<rparr>,
            completedSteps := completedSteps s6 @ [''MarketAggregation'']\<rparr>)"

text \<open>
  Step 4: the valuation child workflow. The first component is the error the workflow
  returns with, if it aborts here. \<^verbatim>\<open>classifiedErr.Level\<close> reads through the
  pointer \<^verbatim>\<open>ClassifyError\<close> returns, which is nil for a nil error only.
\<close>

definition valuation_phase ::
  "'f wf_env \<Rightarrow> WorkflowInput \<Rightarrow> 'f wf_state \<Rightarrow> error option \<times> 'f wf_state" where
  "valuation_phase env input s =
     (let valuationInput =
            \<lparr>vi_Ticker = wi_Ticker input, vi_Financial = Some (financialResult s),
             vi_Clinical = Some (clinicalResult s), vi_Market = Some (marketResult s)\<rparr>;
          s1 = s\<lparr>currentAgent := ''ValuationActuary'',
                 calls := calls s @
                   [StartValuation (''valuation-'' @ wi_Ticker input @ ''-'' @ env_RunID env)
                      valuationInput]\<rparr>
      in case env_Valuation env valuationInput of
           Inl err \<Rightarrow>
             (case ClassifyError (Some err) of
                None \<Rightarrow> (Some (ErrOther ''panic: nil pointer dereference''), s1)
              | Some classifiedErr \<Rightarrow>
                  if ce_Level classifiedErr \<ge> L2Intervention then
                    (case Execute (\<lambda>name e w. w @ [CallNotifyCompensationFailure name e])
                            (saga s1) (calls s1) of
                       (_, w, evs) \<Rightarrow>
                         (Some (Errorf ''valuation workflow failed'' err),
                          s1\<lparr>calls := w, sagaLog := sagaLog s1 @ evs\<rparr>))
                  else (None, s1))
         | Inr v \<Rightarrow>
             (None, s1\<lparr>valuationResult := v,
                       completedSteps := completedSteps s1 @ [''ValuationActuary''],
                       output := (output s1)\<lparr>wo_Valuation := Some v\<rparr>\<rparr>))"

text \<open>Step 5: the report.\<close>

definition report_phase :: "'f wf_env \<Rightarrow> WorkflowInput \<Rightarrow> 'f wf_state \<Rightarrow> 'f wf_state" where
  "report_phase env input s =
     (let reportInput =
            \<lparr>rgi_Ticker = wi_Ticker input, rgi_Financial = Some (financialResult s),
             rgi_Pipeline = Some (pipelineResult s), rgi_PipelineAnalyses = pipelineAnalyses s,
             rgi_Clinical = Some (clinicalResult s), rgi_Market = Some (marketResult s),
             rgi_Valuation = Some (valuationResult s)\<rparr>;
          s1 = s\<lparr>currentAgent := ''ReportGenerator'',
                 calls := calls s @ [CallReportGenerator reportInput]\<rparr>
      in case env_ReportGenerator env reportInput of
           Inl err \<Rightarrow> s1
         | Inr r \<Rightarrow>
             s1\<lparr>completedSteps := completedSteps s1 @ [''ReportGenerator''],
                output := (output s1)\<lparr>wo_Report := Some r\<rparr>\<rparr>)"

text \<open>
  A checkpoint \<^verbatim>\<open>if isPaused { waitForResume() }\<close> holds the run for ever when the
  flag is set and the \<^verbatim>\<open>Await\<close> never returns.
\<close>

definition blocked :: "'f wf_env \<Rightarrow> nat \<Rightarrow> bool" where
  "blocked env k = (env_isPaused env k \<and> \<not> env_AwaitReturns env k)"

text \<open>The states of a run at the end of each phase it reaches.\<close>

definition after_parallel :: "('f::zero) wf_env \<Rightarrow> WorkflowInput \<Rightarrow> 'f wf_state" where
  "after_parallel env input = parallel_phase env input (initial_state env input)"

definition after_fan_out :: "('f::{plus,zero}) wf_env \<Rightarrow> WorkflowInput \<Rightarrow> 'f wf_state" where
  "after_fan_out env input = fan_out_phase env input (after_parallel env input)"

definition after_valuation ::
  "('f::{plus,zero}) wf_env \<Rightarrow> WorkflowInput \<Rightarrow> error option \<times> 'f wf_state" where
  "after_valuation env input = valuation_phase env input (after_fan_out env input)"

text \<open>
  The workflow returns \<open>None\<close> when the run never returns (held at a checkpoint),
  \<open>Some (Inl err)\<close> for \<^verbatim>\<open>return nil, err\<close> and \<open>Some (Inr out)\<close> for
  \<^verbatim>\<open>return output, nil\<close>; the second component is the last state of the run.
\<close>

definition BioValueWorkflow ::
  "('f::{plus,zero}) wf_env \<Rightarrow> WorkflowInput
     \<Rightarrow> (error + 'f WorkflowOutput) option \<times> 'f wf_state" where
  "BioValueWorkflow env input =
     (case env_SetQueryHandler env of
        Some err \<Rightarrow>
          (Some (Inl (Errorf ''failed to set query handler'' err)), initial_state env input)
      | None \<Rightarrow>
          if blocked env 1 then (None, after_parallel env input)
          else if blocked env 2 then (None, after_fan_out env input)
          else
            (case after_valuation env input of
               (Some err, s) \<Rightarrow> (Some (Inl err), s)
             | (None, s) \<Rightarrow>
                 if blocked env 3 then (None, s)
                 else
                   (let s1 = report_phase env input s;
                        s2 = s1\<lparr>output := (output s1)\<lparr>wo_CompletedAt := env_Now env\<rparr>\<rparr>
                    in (Some (Inr (output s2)), s2))))"

section \<open>The cache\<close>

text \<open>
  \<^verbatim>\<open>pkg/cache/redis.go\<close> wraps a go-redis client. The server behind the client is
  a key-value store that may be unreachable; every entry carries the TTL (in seconds) it
  was written with. Expiry is the server's business and is not modelled: an expired entry
  is an absent entry. The server stays reachable or unreachable during one activity.
  \<^verbatim>\<open>redis.Nil\<close> is the error of the client for an absent key.
\<close>

record redis_server =
  reachable :: bool
  entries :: "string \<Rightarrow> (string \<times> int) option"

definition redis_Nil :: error where
  "redis_Nil = ErrOther ''redis: nil''"

definition client_Get :: "redis_server \<Rightarrow> string \<Rightarrow> error + string" where
  "client_Get r key =
     (if \<not> reachable r then Inl (ErrOther ''redis: connection refused'')
      else case entries r key of None \<Rightarrow> Inl redis_Nil | Some (v, ttl) \<Rightarrow> Inr v)"

definition client_Set :: "redis_server \<Rightarrow> string \<Rightarrow> string \<Rightarrow> int \<Rightarrow> error option \<times> redis_server" where
  "client_Set r key val ttl =
     (if \<not> reachable r then (Some (ErrOther ''redis: connection refused''), r)
      else (None, r\<lparr>entries := (entries r)(key \<mapsto> (val, ttl))\<rparr>))"

definition cache_Get :: "redis_server \<Rightarrow> string \<Rightarrow> string \<times> error option" where
  "cache_Get r key =
     (case client_Get r key of
        Inl err \<Rightarrow> if err = redis_Nil then ([], None) else ([], Some err)
      | Inr result \<Rightarrow> (result, None))"

definition cache_Set :: "redis_server \<Rightarrow> string \<Rightarrow> string \<Rightarrow> int \<Rightarrow> error option \<times> redis_server" where
  "cache_Set r key val ttl = client_Set r key val ttl"

section \<open>The activities\<close>

text \<open>
  The request and the response of the LLM client (\<^verbatim>\<open>pkg/llm/client.go\<close>), with the
  fields the activities write and read.
\<close>

record Tool =
  tool_Name :: string
  tool_Description :: string
  tool_InputSchema :: string
  tool_MCPServer :: string

record InferRequest =
  ir_TraceID :: string
  ir_AgentID :: string
  ir_SystemPrompt :: string
  ir_UserPrompt :: string
  ir_ImagePaths :: "string list"
  ir_EnableTools :: bool
  ir_Tools :: "Tool list"

record InferResponse =
  resp_TraceID :: string
  resp_Status :: int
  resp_FinalAnswer :: string

text \<open>
  What an activity takes from outside the repository: the run identifier of its workflow,
  the answer of the LLM gateway, the wall clock (\<open>ae_Now 0\<close> where a cached value is
  checked for freshness or a result is stamped first, \<open>ae_Now 1\<close> where a result is
  stamped after such a check), and \<^verbatim>\<open>encoding/json\<close> for each type that is
  parsed or printed. The prompt templates and the system prompts are fixed texts in
  Chinese: \<open>ae_Sprintf\<close> formats the template named by its first argument with the
  values of the second, and a system prompt is named by its Go constant.
  \<^verbatim>\<open>metrics.ActivityDuration\<close> and the logger are left out.
\<close>

record 'f act_env =
  ae_RunID :: string
  ae_Infer :: "InferRequest \<Rightarrow> error + InferResponse"
  ae_Now :: "nat \<Rightarrow> Time"
  ae_Sprintf :: "string \<Rightarrow> string list \<Rightarrow> string"
  ae_FormatFloat :: "'f \<Rightarrow> string"
  ae_unmarshalFinancial :: "string \<Rightarrow> error + 'f FinancialResult"
  ae_marshalFinancial :: "'f FinancialResult \<Rightarrow> string"
  ae_unmarshalPipelineResult :: "string \<Rightarrow> error + PipelineResult"
  ae_marshalPipelineResult :: "PipelineResult \<Rightarrow> string"
  ae_unmarshalPipelines :: "string \<Rightarrow> error + DrugPipeline list"
  ae_marshalPipeline :: "DrugPipeline \<Rightarrow> string"
  ae_unmarshalClinical :: "string \<Rightarrow> error + 'f ClinicalAssessment"
  ae_marshalClinical :: "'f ClinicalAssessment \<Rightarrow> string"
  ae_marshalClinicalPtr :: "'f ClinicalAssessment option \<Rightarrow> string"
  ae_unmarshalMarket :: "string \<Rightarrow> error + 'f MarketAssessment"
  ae_marshalMarket :: "'f MarketAssessment \<Rightarrow> string"
  ae_marshalFinancialPtr :: "'f FinancialResult option \<Rightarrow> string"
  ae_marshalClinicalResultPtr :: "'f ClinicalResult option \<Rightarrow> string"
  ae_marshalMarketResultPtr :: "'f MarketResult option \<Rightarrow> string"
  ae_unmarshalValuation :: "string \<Rightarrow> error + 'f ValuationResult"

datatype act_event =
    MetricCacheHit
  | MetricCacheMiss
  | RecordHeartbeat string
  | Infer InferRequest
  | CacheSet string string int

definition hour :: int where
  "hour = 3600"

definition web_search :: Tool where
  "web_search = \<lparr>tool_Name = ''web_search'', tool_Description = [], tool_InputSchema = [],
                   tool_MCPServer = ''mcp-web-search''\<rparr>"

text \<open>
  Each cacheable activity is in two parts: the look-up in the cache, and the rest of
  the function, from the miss counter on (\<open>_compute\<close>), which the look-up falls through
  to. \<open>evs\<close> are the events before the fall-through.
\<close>

definition FinancialAuditor_compute ::
  "'f act_env \<Rightarrow> redis_server \<Rightarrow> FinancialAuditorInput \<Rightarrow> string \<Rightarrow> act_event list
     \<Rightarrow> (error + 'f FinancialResult) \<times> redis_server \<times> act_event list" where
  "FinancialAuditor_compute env cache input cacheKey evs =
     (let prompt = ae_Sprintf env ''financialAuditorPrompt''
                     [fai_Ticker input, fai_ReportPath input];
          req = \<lparr>ir_TraceID = ae_RunID env, ir_AgentID = ''A1_FinancialAuditor'',
                 ir_SystemPrompt = ''financialAuditorSystemPrompt'', ir_UserPrompt = prompt,
                 ir_ImagePaths = [fai_ReportPath input], ir_EnableTools = False,
                 ir_Tools = []\<rparr>;
          evs1 = evs @ [MetricCacheMiss, RecordHeartbeat ''Analyzing financial report...'',
                        Infer req]
      in case ae_Infer env req of
           Inl err \<Rightarrow> (Inl (Errorf ''LLM inference failed'' err), cache, evs1)
         | Inr response \<Rightarrow>
             (case ae_unmarshalFinancial env (resp_FinalAnswer response) of
                Inl err \<Rightarrow> (Inl (Errorf ''failed to parse LLM response'' err), cache, evs1)
              | Inr parsed \<Rightarrow>
                  (let result = parsed\<lparr>fr_Ticker := fai_Ticker input,
                                        fr_UpdatedAt := ae_Now env 0\<rparr>;
                       resultJSON = ae_marshalFinancial env result
                   in case cache_Set cache cacheKey resultJSON (24 * hour) of
                        (err, cache') \<Rightarrow>
                          (Inr result, cache',
                           evs1 @ [CacheSet cacheKey resultJSON (24 * hour)]))))"

definition FinancialAuditorActivity ::
  "'f act_env \<Rightarrow> redis_server \<Rightarrow> FinancialAuditorInput
     \<Rightarrow> (error + 'f FinancialResult) \<times> redis_server \<times> act_event list" where
  "FinancialAuditorActivity env cache input =
     (let cacheKey = ''company:'' @ fai_Ticker input @ '':financials''
      in case cache_Get cache cacheKey of
           (cached, err) \<Rightarrow>
             if err = None \<and> cached \<noteq> [] then
               (case ae_unmarshalFinancial env cached of
                  Inr result \<Rightarrow> (Inr result, cache, [MetricCacheHit])
                | Inl perr \<Rightarrow>
                    FinancialAuditor_compute env cache input cacheKey [MetricCacheHit])
             else FinancialAuditor_compute env cache input cacheKey [])"

definition PipelineScout_compute ::
  "'f act_env \<Rightarrow> redis_server \<Rightarrow> PipelineScoutInput \<Rightarrow> string \<Rightarrow> act_event list
     \<Rightarrow> (error + PipelineResult) \<times> redis_server \<times> act_event list" where
  "PipelineScout_compute env cache input cacheKey evs =
     (let prompt = ae_Sprintf env ''pipelineScoutPrompt'' [psi_Ticker input];
          req = \<lparr>ir_TraceID = ae_RunID env, ir_AgentID = ''A2_PipelineScout'',
                 ir_SystemPrompt = ''pipelineScoutSystemPrompt'', ir_UserPrompt = prompt,
                 ir_ImagePaths = [], ir_EnableTools = True, ir_Tools = [web_search]\<rparr>;
          evs1 = evs @ [MetricCacheMiss, RecordHeartbeat ''Scanning drug pipelines...'',
                        Infer req]
      in case ae_Infer env req of
           Inl err \<Rightarrow> (Inl (Errorf ''LLM inference failed'' err), cache, evs1)
         | Inr response \<Rightarrow>
             (case ae_unmarshalPipelines env (resp_FinalAnswer response) of
                Inl err \<Rightarrow> (Inl (Errorf ''failed to parse pipeline data'' err), cache, evs1)
              | Inr pipelines \<Rightarrow>
                  (let result = \<lparr>pr_Ticker = psi_Ticker input, pr_Pipelines = pipelines,
                                  pr_DataAsOf = ae_Now env 1\<rparr>;
                       resultJSON = ae_marshalPipelineResult env result
                   in case cache_Set cache cacheKey resultJSON (24 * hour) of
                        (err, cache') \<Rightarrow>
                          (Inr result, cache',
                           evs1 @ [CacheSet cacheKey resultJSON (24 * hour)]))))"

definition PipelineScoutActivity ::
  "'f act_env \<Rightarrow> redis_server \<Rightarrow> PipelineScoutInput
     \<Rightarrow> (error + PipelineResult) \<times> redis_server \<times> act_event list" where
  "PipelineScoutActivity env cache input =
     (let cacheKey = ''company:'' @ psi_Ticker input @ '':pipeline:raw''
      in case cache_Get cache cacheKey of
           (cached, err) \<Rightarrow>
             if err = None \<and> cached \<noteq> [] then
               (case ae_unmarshalPipelineResult env cached of
                  Inr result \<Rightarrow>
                    if ae_Now env 0 - pr_DataAsOf result < 24 * hour
                    then (Inr result, cache, [MetricCacheHit])
                    else PipelineScout_compute env cache input cacheKey [MetricCacheHit]
                | Inl perr \<Rightarrow> PipelineScout_compute env cache input cacheKey [MetricCacheHit])
             else PipelineScout_compute env cache input cacheKey [])"

definition ClinicalAssessor_compute ::
  "'f act_env \<Rightarrow> redis_server \<Rightarrow> ClinicalAssessorInput \<Rightarrow> string \<Rightarrow> act_event list
     \<Rightarrow> (error + 'f ClinicalAssessment) \<times> redis_server \<times> act_event list" where
  "ClinicalAssessor_compute env cache input cacheKey evs =
     (let drugName = dp_DrugName (cai_Pipeline input);
          pipelineJSON = ae_marshalPipeline env (cai_Pipeline input);
          prompt = ae_Sprintf env ''clinicalAssessorPrompt''
                     [cai_Ticker input, pipelineJSON, dp_Target (cai_Pipeline input),
                      dp_Phase (cai_Pipeline input)];
          req = \<lparr>ir_TraceID = ae_RunID env, ir_AgentID = ''A3_ClinicalAssessor_'' @ drugName,
                 ir_SystemPrompt = ''clinicalAssessorSystemPrompt'', ir_UserPrompt = prompt,
                 ir_ImagePaths = [], ir_EnableTools = True, ir_Tools = [web_search]\<rparr>;
          evs1 = evs @ [MetricCacheMiss,
                        RecordHeartbeat (''Assessing clinical competitiveness for '' @ drugName
                                           @ ''...''),
                        Infer req]
      in case ae_Infer env req of
           Inl err \<Rightarrow> (Inl (Errorf (''LLM inference failed for '' @ drugName) err), cache, evs1)
         | Inr response \<Rightarrow>
             (case ae_unmarshalClinical env (resp_FinalAnswer response) of
                Inl err \<Rightarrow>
                  (Inl (Errorf (''failed to parse clinical assessment for '' @ drugName) err),
                   cache, evs1)
              | Inr parsed \<Rightarrow>
                  (let result = parsed\<lparr>ca_DrugName := drugName,
                                        ca_Target := dp_Target (cai_Pipeline input),
                                        ca_Indication := dp_Indication (cai_Pipeline input),
                                        ca_Phase := dp_Phase (cai_Pipeline input)\<rparr>;
                       resultJSON = ae_marshalClinical env result
                   in case cache_Set cache cacheKey resultJSON (12 * hour) of
                        (err, cache') \<Rightarrow>
                          (Inr result, cache',
                           evs1 @ [CacheSet cacheKey resultJSON (12 * hour)]))))"

definition ClinicalAssessorActivity ::
  "'f act_env \<Rightarrow> redis_server \<Rightarrow> ClinicalAssessorInput
     \<Rightarrow> (error + 'f ClinicalAssessment) \<times> redis_server \<times> act_event list" where
  "ClinicalAssessorActivity env cache input =
     (let cacheKey = ''company:'' @ cai_Ticker input @ '':pipeline:''
                       @ dp_DrugName (cai_Pipeline input) @ '':clinical''
      in case cache_Get cache cacheKey of
           (cached, err) \<Rightarrow>
             if err = None \<and> cached \<noteq> [] then
               (case ae_unmarshalClinical env cached of
                  Inr result \<Rightarrow> (Inr result, cache, [MetricCacheHit])
                | Inl perr \<Rightarrow> ClinicalAssessor_compute env cache input cacheKey [])
             else ClinicalAssessor_compute env cache input cacheKey [])"

text \<open>
  \<^verbatim>\<open>MarketStrategistActivity\<close> reads \<^verbatim>\<open>input.Clinical.Rating\<close> through the
  pointer when it builds the prompt: with a nil pointer the activity panics, which the
  runtime reports as an activity error.
\<close>

definition MarketStrategist_compute ::
  "'f act_env \<Rightarrow> redis_server \<Rightarrow> 'f MarketStrategistInput \<Rightarrow> string \<Rightarrow> act_event list
     \<Rightarrow> (error + 'f MarketAssessment) \<times> redis_server \<times> act_event list" where
  "MarketStrategist_compute env cache input cacheKey evs =
     (let drugName = dp_DrugName (msi_Pipeline input);
          evs0 = evs @ [MetricCacheMiss,
                        RecordHeartbeat (''Analyzing market for '' @ drugName @ ''...'')]
      in case msi_Clinical input of
           None \<Rightarrow> (Inl (ErrOther ''panic: nil pointer dereference''), cache, evs0)
         | Some clinical \<Rightarrow>
             (let pipelineJSON = ae_marshalPipeline env (msi_Pipeline input);
                  clinicalJSON = ae_marshalClinicalPtr env (msi_Clinical input);
                  prompt = ae_Sprintf env ''marketStrategistPrompt''
                             [msi_Ticker input, pipelineJSON, clinicalJSON,
                              dp_Indication (msi_Pipeline input), dp_Target (msi_Pipeline input),
                              ca_Rating clinical, ae_FormatFloat env (ca_POSScore clinical)];
                  req = \<lparr>ir_TraceID = ae_RunID env,
                         ir_AgentID = ''A4_A5_MarketStrategist_'' @ drugName,
                         ir_SystemPrompt = ''marketStrategistSystemPrompt'',
                         ir_UserPrompt = prompt, ir_ImagePaths = [], ir_EnableTools = True,
                         ir_Tools = [web_search]\<rparr>;
                  evs1 = evs0 @ [Infer req]
              in case ae_Infer env req of
                   Inl err \<Rightarrow>
                     (Inl (Errorf (''LLM inference failed for '' @ drugName) err), cache, evs1)
                 | Inr response \<Rightarrow>
                     (case ae_unmarshalMarket env (resp_FinalAnswer response) of
                        Inl err \<Rightarrow>
                          (Inl (Errorf (''failed to parse market assessment for '' @ drugName) err),
                           cache, evs1)
                      | Inr parsed \<Rightarrow>
                          (let result = parsed\<lparr>ma_DrugName := drugName,
                                                ma_Target := dp_Target (msi_Pipeline input),
                                                ma_Indication :=
                                                  dp_Indication (msi_Pipeline input)\<rparr>;
                               resultJSON = ae_marshalMarket env result
                           in case cache_Set cache cacheKey resultJSON (6 * hour) of
                                (err, cache') \<Rightarrow>
                                  (Inr result, cache',
                                   evs1 @ [CacheSet cacheKey resultJSON (6 * hour)])))))"

definition MarketStrategistActivity ::
  "'f act_env \<Rightarrow> redis_server \<Rightarrow> 'f MarketStrategistInput
     \<Rightarrow> (error + 'f MarketAssessment) \<times> redis_server \<times> act_event list" where
  "MarketStrategistActivity env cache input =
     (let cacheKey = ''company:'' @ msi_Ticker input @ '':pipeline:''
                       @ dp_DrugName (msi_Pipeline input) @ '':market''
      in case cache_Get cache cacheKey of
           (cached, err) \<Rightarrow>
             if err = None \<and> cached \<noteq> [] then
               (case ae_unmarshalMarket env cached of
                  Inr result \<Rightarrow> (Inr result, cache, [MetricCacheHit])
                | Inl perr \<Rightarrow> MarketStrategist_compute env cache input cacheKey [])
             else MarketStrategist_compute env cache input cacheKey [])"

definition ValuationActuaryActivity ::
  "'f act_env \<Rightarrow> 'f ValuationActuaryInput \<Rightarrow> (error + 'f ValuationResult) \<times> act_event list" where
  "ValuationActuaryActivity env input =
     (let financialJSON = ae_marshalFinancialPtr env (vai_Financial input);
          clinicalJSON = ae_marshalClinicalResultPtr env (vai_Clinical input);
          marketJSON = ae_marshalMarketResultPtr env (vai_Market input);
          prompt = ae_Sprintf env ''valuationActuaryPrompt''
                     [vai_Ticker input, financialJSON, clinicalJSON, marketJSON];
          req = \<lparr>ir_TraceID = ae_RunID env, ir_AgentID = ''A7_ValuationActuary'',
                 ir_SystemPrompt = ''valuationActuarySystemPrompt'', ir_UserPrompt = prompt,
                 ir_ImagePaths = [], ir_EnableTools = True,
                 ir_Tools = [\<lparr>tool_Name = ''code_execute'', tool_Description = [],
                              tool_InputSchema = [], tool_MCPServer = ''sandbox-fusion''\<rparr>]\<rparr>;
          evs = [RecordHeartbeat ''Building valuation models...'', Infer req]
      in case ae_Infer env req of
           Inl err \<Rightarrow> (Inl (Errorf ''LLM inference failed'' err), evs)
         | Inr response \<Rightarrow>
             (case ae_unmarshalValuation env (resp_FinalAnswer response) of
                Inl err \<Rightarrow> (Inl (Errorf ''failed to parse valuation result'' err), evs)
              | Inr result \<Rightarrow> (Inr result, evs)))"

section \<open>Example runs\<close>

text \<open>
  Concrete pipelines and runtime answers, over the reals, at which the theorems below are
  instantiated. In \<open>example_env ps child_fails valuation\<close> the scout finds the pipelines
  \<open>ps\<close>, the child workflow of index \<open>i\<close> fails when \<open>child_fails i\<close>, the valuation
  child returns \<open>valuation\<close>, and every \<^verbatim>\<open>Select\<close> finds the oldest pending future
  ready.
\<close>

definition drug :: "string \<Rightarrow> string \<Rightarrow> DrugPipeline" where
  "drug name phase =
     \<lparr>dp_DrugName = name, dp_Target = ''PD-1'', dp_Indication = ''NSCLC'',
      dp_Phase = phase, dp_Modality = ''antibody'', dp_NCTID = []\<rparr>"

definition example_analysis :: "DrugPipeline \<Rightarrow> real PipelineAnalysisResult" where
  "example_analysis p =
     \<lparr>par_Pipeline = p, par_Clinical = default_ClinicalAssessment p,
      par_Market = default_MarketAssessment p\<rparr>"

definition example_env ::
  "DrugPipeline list \<Rightarrow> (nat \<Rightarrow> bool) \<Rightarrow> (error + real ValuationResult) \<Rightarrow> real wf_env" where
  "example_env ps child_fails valuation =
     \<lparr>env_RunID = ''run-1'', env_SetQueryHandler = None,
      env_FinancialAuditor = (\<lambda>i. Inr (zero_FinancialResult\<lparr>fr_Ticker := fai_Ticker i\<rparr>)),
      env_PipelineScout =
        (\<lambda>i. Inr \<lparr>pr_Ticker = psi_Ticker i, pr_Pipelines = ps, pr_DataAsOf = 0\<rparr>),
      env_readyA = (\<lambda>k. 0),
      env_PipelineAnalysis =
        (\<lambda>i inp. if child_fails i then Inl (ErrOther ''child workflow timed out'')
                  else Inr (example_analysis (pai_Pipeline inp))),
      env_readyB = (\<lambda>k. 0),
      env_Valuation = (\<lambda>i. valuation),
      env_ReportGenerator =
        (\<lambda>i. Inr \<lparr>rr_Ticker = rgi_Ticker i, rr_MarkdownContent = ''# Report'',
                   rr_KeyRisks = [], rr_Recommendation = ''HOLD'', rr_GeneratedAt = 0\<rparr>),
      env_CleanupCache = (\<lambda>t ns. None),
      env_isPaused = (\<lambda>k. False), env_AwaitReturns = (\<lambda>k. True), env_Now = 1000\<rparr>"

definition example_input :: WorkflowInput where
  "example_input = \<lparr>wi_Ticker = ''BGNE'', wi_ReportPath = ''/r/bgne.pdf'', wi_Options = []\<rparr>"

definition example_pa_env :: "real pa_env" where
  "example_pa_env =
     \<lparr>exec_ClinicalAssessor = (\<lambda>i. Inl DeadlineExceeded),
      exec_MarketStrategist =
        (\<lambda>i. Inr ((default_MarketAssessment (msi_Pipeline i))
                     \<lparr>ma_RiskAdjustedRevenue := 120\<rparr>))\<rparr>"

definition example_pa_input :: PipelineAnalysisInput where
  "example_pa_input = \<lparr>pai_Ticker = ''BGNE'', pai_Pipeline = drug ''DrugB'' ''Phase2''\<rparr>"

definition example_distinct_env :: "real wf_env" where
  "example_distinct_env =
     example_env [drug ''DrugA'' ''Phase3'', drug ''DrugB'' ''Phase2''] (\<lambda>i. i = 0)
       (Inr zero_ValuationResult)"

definition example_duplicate_env :: "real wf_env" where
  "example_duplicate_env =
     example_env [drug ''DrugA'' ''Phase3'', drug ''DrugA'' ''Phase2''] (\<lambda>i. i = 0)
       (Inr zero_ValuationResult)"


definition example_empty_env :: "real wf_env" where
  "example_empty_env = example_env [] (\<lambda>i. False) (Inr zero_ValuationResult)"

definition example_single_env :: "real wf_env" where
  "example_single_env =
     example_env [drug ''DrugA'' ''Phase3''] (\<lambda>i. False) (Inr zero_ValuationResult)"



definition example_child_env :: "real wf_env" where
  "example_child_env =
     (example_env [drug ''DrugA'' ''Phase3'', drug ''DrugB'' ''Phase2''] (\<lambda>i. False)
        (Inr zero_ValuationResult))
       \<lparr>env_PipelineAnalysis := (\<lambda>i inp. fst (PipelineAnalysisWorkflow example_pa_env inp))\<rparr>"

text \<open>
  In the example the LLM answers the pipeline scout with the empty JSON array and every
  other agent with a JSON object that has none of the keys of the artifact asked for, as
  the placeholder client of \<^verbatim>\<open>pkg/llm/client.go\<close> does. \<^verbatim>\<open>encoding/json\<close> parses
  the object to the zero value of a struct and the array to the empty slice, and rejects
  anything else the examples hold.
\<close>

definition example_answer :: string where
  "example_answer = ''{\"status\": \"success\"}''"

definition example_unmarshal :: "'a \<Rightarrow> string \<Rightarrow> error + 'a" where
  "example_unmarshal zero s =
     (if s = example_answer then Inr zero else Inl (ErrOther ''json: cannot unmarshal''))"

definition example_act_env :: "real act_env" where
  "example_act_env =
     \<lparr>ae_RunID = ''run-1'',
      ae_Infer = (\<lambda>req. Inr \<lparr>resp_TraceID = ir_TraceID req, resp_Status = 0,
                              resp_FinalAnswer =
                                (if ir_AgentID req = ''A2_PipelineScout'' then ''[]''
                                 else example_answer)\<rparr>),
      ae_Now = (\<lambda>k. 1000),
      ae_Sprintf = (\<lambda>template args. template @ concat args),
      ae_FormatFloat = (\<lambda>x. ''0.30''),
      ae_unmarshalFinancial = example_unmarshal zero_FinancialResult,
      ae_marshalFinancial = (\<lambda>r. ''financial:'' @ fr_Ticker r),
      ae_unmarshalPipelineResult = example_unmarshal zero_PipelineResult,
      ae_marshalPipelineResult = (\<lambda>r. ''pipelines:'' @ pr_Ticker r),
      ae_unmarshalPipelines =
        (\<lambda>s. if s = ''[]'' then Inr [] else Inl (ErrOther ''json: cannot unmarshal'')),
      ae_marshalPipeline = (\<lambda>p. ''pipeline:'' @ dp_DrugName p),
      ae_unmarshalClinical = example_unmarshal zero_ClinicalAssessment,
      ae_marshalClinical = (\<lambda>c. ''clinical:'' @ ca_DrugName c),
      ae_marshalClinicalPtr = (\<lambda>c. ''clinical''),
      ae_unmarshalMarket = example_unmarshal zero_MarketAssessment,
      ae_marshalMarket = (\<lambda>m. ''market:'' @ ma_DrugName m),
      ae_marshalFinancialPtr = (\<lambda>r. ''financial''),
      ae_marshalClinicalResultPtr = (\<lambda>r. ''clinical''),
      ae_marshalMarketResultPtr = (\<lambda>r. ''market''),
      ae_unmarshalValuation = example_unmarshal zero_ValuationResult\<rparr>"

definition example_cache :: redis_server where
  "example_cache = \<lparr>reachable = True, entries = (\<lambda>key. Some (''corrupt'', 100))\<rparr>"

definition example_valuation_input :: "real ValuationActuaryInput" where
  "example_valuation_input =
     \<lparr>vai_Ticker = ''BGNE'', vai_Financial = Some zero_FinancialResult,
      vai_Clinical =
        Some \<lparr>cr_Ticker = ''BGNE'',
              cr_Assessments = [default_ClinicalAssessment (drug ''DrugA'' ''Phase3'')],
              cr_UpdatedAt = 0\<rparr>,
      vai_Market = Some zero_MarketResult\<rparr>"

definition example_financial_input :: FinancialAuditorInput where
  "example_financial_input = \<lparr>fai_Ticker = ''BGNE'', fai_ReportPath = ''/r/bgne.pdf''\<rparr>"

definition example_scout_input :: PipelineScoutInput where
  "example_scout_input = \<lparr>psi_Ticker = ''BGNE'', psi_CompanyURL = []\<rparr>"

definition example_clinical_input :: ClinicalAssessorInput where
  "example_clinical_input = \<lparr>cai_Ticker = ''BGNE'', cai_Pipeline = drug ''DrugB'' ''Phase2''\<rparr>"

definition example_market_input :: "real MarketStrategistInput" where
  "example_market_input =
     \<lparr>msi_Ticker = ''BGNE'', msi_Pipeline = drug ''DrugB'' ''Phase2'',
      msi_Clinical = Some (default_ClinicalAssessment (drug ''DrugB'' ''Phase2''))\<rparr>"

definition example_failing_act_env :: "real act_env" where
  "example_failing_act_env = example_act_env\<lparr>ae_Infer := (\<lambda>req. Inl ErrRateLimited)\<rparr>"

section \<open>Readings of a run\<close>

text \<open>
  What the child workflow of index \<open>i\<close> returns to the parent in a run, the analyses
  of the children that succeeded among the indices \<open>order\<close>, and the number of drugs
  the progress map marks as failed.
\<close>

definition child_outcome ::
  "'f wf_env \<Rightarrow> string \<Rightarrow> DrugPipeline list \<Rightarrow> nat \<Rightarrow> error + 'f PipelineAnalysisResult" where
  "child_outcome env ticker pipelines i =
     env_PipelineAnalysis env i \<lparr>pai_Ticker = ticker, pai_Pipeline = pipelines ! i\<rparr>"

definition child_status :: "'f wf_env \<Rightarrow> string \<Rightarrow> DrugPipeline list \<Rightarrow> nat \<Rightarrow> string" where
  "child_status env ticker pipelines i =
     (case child_outcome env ticker pipelines i of
        Inl err \<Rightarrow> ''failed'' | Inr r \<Rightarrow> ''completed'')"

definition successes ::
  "'f wf_env \<Rightarrow> string \<Rightarrow> DrugPipeline list \<Rightarrow> nat list \<Rightarrow> 'f PipelineAnalysisResult list" where
  "successes env ticker pipelines order =
     concat (map (\<lambda>i. case child_outcome env ticker pipelines i of
                         Inl err \<Rightarrow> [] | Inr r \<Rightarrow> [r]) order)"

definition failed_drugs :: "(string \<times> string) list \<Rightarrow> nat" where
  "failed_drugs progress = length (filter (\<lambda>kv. snd kv = ''failed'') progress)"

text \<open>
  A cache entry is corrupted for a type when it is read without error, is not empty and
  does not parse to the type. \<open>evict\<close> removes an entry.
\<close>

definition corrupted :: "redis_server \<Rightarrow> string \<Rightarrow> (string \<Rightarrow> error + 'a) \<Rightarrow> bool" where
  "corrupted cache key unmarshal =
     (case cache_Get cache key of
        (cached, err) \<Rightarrow> err = None \<and> cached \<noteq> [] \<and> isl (unmarshal cached))"

definition evict :: "redis_server \<Rightarrow> string \<Rightarrow> redis_server" where
  "evict cache key = cache\<lparr>entries := (entries cache)(key := None)\<rparr>"

text \<open>The cache keys of the four cacheable activities.\<close>

definition financials_key :: "FinancialAuditorInput \<Rightarrow> string" where
  "financials_key input = ''company:'' @ fai_Ticker input @ '':financials''"

definition pipeline_key :: "PipelineScoutInput \<Rightarrow> string" where
  "pipeline_key input = ''company:'' @ psi_Ticker input @ '':pipeline:raw''"

definition clinical_key :: "ClinicalAssessorInput \<Rightarrow> string" where
  "clinical_key input =
     ''company:'' @ cai_Ticker input @ '':pipeline:'' @ dp_DrugName (cai_Pipeline input)
       @ '':clinical''"

definition market_key :: "'f MarketStrategistInput \<Rightarrow> string" where
  "market_key input =
     ''company:'' @ msi_Ticker input @ '':pipeline:'' @ dp_DrugName (msi_Pipeline input)
       @ '':market''"

text \<open>The requests the four activities send to the LLM.\<close>

definition financial_request :: "'f act_env \<Rightarrow> FinancialAuditorInput \<Rightarrow> InferRequest" where
  "financial_request env input =
     \<lparr>ir_TraceID = ae_RunID env, ir_AgentID = ''A1_FinancialAuditor'',
      ir_SystemPrompt = ''financialAuditorSystemPrompt'',
      ir_UserPrompt = ae_Sprintf env ''financialAuditorPrompt''
                        [fai_Ticker input, fai_ReportPath input],
      ir_ImagePaths = [fai_ReportPath input], ir_EnableTools = False, ir_Tools = []\<rparr>"

definition scout_request :: "'f act_env \<Rightarrow> PipelineScoutInput \<Rightarrow> InferRequest" where
  "scout_request env input =
     \<lparr>ir_TraceID = ae_RunID env, ir_AgentID = ''A2_PipelineScout'',
      ir_SystemPrompt = ''pipelineScoutSystemPrompt'',
      ir_UserPrompt = ae_Sprintf env ''pipelineScoutPrompt'' [psi_Ticker input],
      ir_ImagePaths = [], ir_EnableTools = True, ir_Tools = [web_search]\<rparr>"

definition clinical_request :: "'f act_env \<Rightarrow> ClinicalAssessorInput \<Rightarrow> InferRequest" where
  "clinical_request env input =
     \<lparr>ir_TraceID = ae_RunID env,
      ir_AgentID = ''A3_ClinicalAssessor_'' @ dp_DrugName (cai_Pipeline input),
      ir_SystemPrompt = ''clinicalAssessorSystemPrompt'',
      ir_UserPrompt = ae_Sprintf env ''clinicalAssessorPrompt''
                        [cai_Ticker input, ae_marshalPipeline env (cai_Pipeline input),
                         dp_Target (cai_Pipeline input), dp_Phase (cai_Pipeline input)],
      ir_ImagePaths = [], ir_EnableTools = True, ir_Tools = [web_search]\<rparr>"

definition market_request ::
  "'f act_env \<Rightarrow> 'f MarketStrategistInput \<Rightarrow> 'f ClinicalAssessment \<Rightarrow> InferRequest" where
  "market_request env input clinical =
     \<lparr>ir_TraceID = ae_RunID env,
      ir_AgentID = ''A4_A5_MarketStrategist_'' @ dp_DrugName (msi_Pipeline input),
      ir_SystemPrompt = ''marketStrategistSystemPrompt'',
      ir_UserPrompt = ae_Sprintf env ''marketStrategistPrompt''
                        [msi_Ticker input, ae_marshalPipeline env (msi_Pipeline input),
                         ae_marshalClinicalPtr env (msi_Clinical input),
                         dp_Indication (msi_Pipeline input), dp_Target (msi_Pipeline input),
                         ca_Rating clinical, ae_FormatFloat env (ca_POSScore clinical)],
      ir_ImagePaths = [], ir_EnableTools = True, ir_Tools = [web_search]\<rparr>"

definition ran_inference :: "act_event list \<Rightarrow> bool" where
  "ran_inference evs = (\<exists>req. Infer req \<in> set evs)"

section \<open>Properties of the Saga compensator\<close>

lemma steps_add_all:
  "map cs_Name (steps (add_all adds s)) = rev (map fst adds) @ map cs_Name (steps s)"
  unfolding add_all_def
  by (induction adds arbitrary: s) (auto simp: AddCompensation_def)

lemma executed_append: "executed (xs @ ys) = executed xs @ executed ys"
  by (induction xs rule: executed.induct) auto

lemma failures_append: "failures (xs @ ys) = failures xs @ failures ys"
  by (induction xs rule: failures.induct) auto

lemma notified_append: "notified (xs @ ys) = notified xs @ notified ys"
  by (induction xs rule: notified.induct) auto

lemma executed_Execute_loop:
  "executed (snd (Execute_loop notify sts w evs)) = executed evs @ map cs_Name sts"
  by (induction sts arbitrary: w evs) (auto simp: executed_append split: prod.splits option.splits)

lemma notified_Execute_loop:
  "notified evs = failures evs \<Longrightarrow>
   notified (snd (Execute_loop notify sts w evs)) = failures (snd (Execute_loop notify sts w evs))"
  by (induction sts arbitrary: w evs)
     (auto simp: notified_append failures_append split: prod.splits option.splits)

lemma steps_add_all_eq:
  "steps (add_all adds s)
     = map (\<lambda>step. \<lparr>cs_Name = fst step, cs_Fn = snd step\<rparr>) (rev adds) @ steps s"
  unfolding add_all_def
  by (induction adds arbitrary: s) (auto simp: AddCompensation_def)

lemma Execute_loop_saga_run:
  "Execute_loop notify (map (\<lambda>step. \<lparr>cs_Name = fst step, cs_Fn = snd step\<rparr>) sts) w evs
     = (fst (saga_run notify sts w), evs @ snd (saga_run notify sts w))"
proof (induction sts arbitrary: w evs)
  case Nil
  then show ?case by simp
next
  case (Cons step rest)
  show ?case
  proof (cases "snd step w")
    case (Pair r w')
    then show ?thesis
      by (cases r)
         (simp_all add: Cons.IH compensate_def compensation_events_def split: prod.splits)
  qed
qed

text \<open>
  C2. Compensations added in the order a, b, c are executed in the order c, b, a, and more
  generally any sequence of additions to a new Saga is executed in reverse: the world
  after \<^verbatim>\<open>Execute\<close> is the world after running every compensation, newest first,
  each on the world its predecessors left, with the \<^verbatim>\<open>NotifyCompensationFailure\<close>
  dispatch applied after each one that failed, and the log is the log of these runs. Every
  step is run whatever the earlier steps returned (the compensations are arbitrary
  functions, failing or not), and \<^verbatim>\<open>Execute\<close> itself returns nil.
\<close>

theorem saga_lifo:
  fixes adds :: "(string \<times> ('w \<Rightarrow> error option \<times> 'w)) list"
  shows "Execute notify (add_all adds NewSagaCompensation) w
           = (None, saga_run notify (rev adds) w)
       \<and> fst (snd (Execute notify
           (AddCompensation c fc (AddCompensation b fb (AddCompensation a fa NewSagaCompensation)))
           w))
           = compensate notify (a, fa) (compensate notify (b, fb) (compensate notify (c, fc) w))
       \<and> executed (snd (snd (Execute notify (add_all adds NewSagaCompensation) w)))
           = rev (map fst adds)
       \<and> executed (snd (snd (Execute notify
           (AddCompensation c fc (AddCompensation b fb (AddCompensation a fa NewSagaCompensation)))
           w))) = [c, b, a]
       \<and> notified (snd (snd (Execute notify (add_all adds NewSagaCompensation) w)))
           = failures (snd (snd (Execute notify (add_all adds NewSagaCompensation) w)))
       \<and> fst (Execute notify (add_all adds NewSagaCompensation) w) = None"
proof -
  have run: "Execute notify (add_all xs NewSagaCompensation) w
           = (None, saga_run notify (rev xs) w)"
    for xs :: "(string \<times> ('w \<Rightarrow> error option \<times> 'w)) list"
    by (simp add: Execute_def steps_add_all_eq NewSagaCompensation_def Execute_loop_saga_run
          del: Execute_loop.simps)
  have three: "AddCompensation c fc
                 (AddCompensation b fb (AddCompensation a fa NewSagaCompensation))
               = add_all [(a, fa), (b, fb), (c, fc)] (NewSagaCompensation :: 'w SagaCompensation)"
    by (simp add: add_all_def)
  have "fst (saga_run notify [(c, fc), (b, fb), (a, fa)] w)
          = compensate notify (a, fa) (compensate notify (b, fb) (compensate notify (c, fc) w))"
    by (simp split: prod.splits)
  then have world: "fst (snd (Execute notify
           (AddCompensation c fc (AddCompensation b fb (AddCompensation a fa NewSagaCompensation)))
           w))
           = compensate notify (a, fa) (compensate notify (b, fb) (compensate notify (c, fc) w))"
    unfolding three run by simp
  have "executed (snd (snd (Execute notify (add_all adds NewSagaCompensation) w)))
          = rev (map fst adds)"
    by (simp add: Execute_def executed_Execute_loop steps_add_all NewSagaCompensation_def)
  moreover have "executed (snd (snd (Execute notify
          (AddCompensation c fc (AddCompensation b fb (AddCompensation a fa NewSagaCompensation)))
          w))) = [c, b, a]"
    by (simp add: Execute_def executed_Execute_loop AddCompensation_def NewSagaCompensation_def
          del: Execute_loop.simps)
  moreover have "notified (snd (snd (Execute notify (add_all adds NewSagaCompensation) w)))
          = failures (snd (snd (Execute notify (add_all adds NewSagaCompensation) w)))"
    by (simp add: Execute_def notified_Execute_loop)
  moreover have "fst (Execute notify (add_all adds NewSagaCompensation) w) = None"
    by (simp add: Execute_def)
  ultimately show ?thesis using run [of adds] world by blast
qed

text \<open>
  A run of the compensator on a world that records which compensations acted: a, b, c are
  added in this order, b fails with a timeout. The world shows that c acted, then b, then
  the notification for b, then a; the log shows c, then b with its failure and the
  notification, then a.
\<close>

theorem saga_lifo_witness:
  "Execute (\<lambda>n e w. w @ [''notify:'' @ n])
       (add_all [(''a'', \<lambda>w. (None, w @ [''a''])),
                 (''b'', \<lambda>w. (Some DeadlineExceeded, w @ [''b''])),
                 (''c'', \<lambda>w. (None, w @ [''c'']))] NewSagaCompensation) []
     = (None,
        [''c'', ''b'', ''notify:b'', ''a''],
        [Executing ''c'', CompensationCompleted ''c'',
         Executing ''b'', CompensationFailed ''b'' DeadlineExceeded,
         NotifyCompensationFailure ''b'' DeadlineExceeded,
         Executing ''a'', CompensationCompleted ''a''])
   \<and> executed (snd (snd (Execute (\<lambda>n e w. w @ [''notify:'' @ n])
       (add_all [(''a'', \<lambda>w. (None, w @ [''a''])),
                 (''b'', \<lambda>w. (Some DeadlineExceeded, w @ [''b''])),
                 (''c'', \<lambda>w. (None, w @ [''c'']))] NewSagaCompensation) [])))
     = [''c'', ''b'', ''a'']"
proof -
  let ?notify = "\<lambda>(n::string) (e::error) (w::string list). w @ [''notify:'' @ n]"
  let ?adds = "[(''a'', \<lambda>w. (None, w @ [''a''])),
                (''b'', \<lambda>w. (Some DeadlineExceeded, w @ [''b''])),
                (''c'', \<lambda>w::string list. (None :: error option, w @ [''c'']))]"
  from saga_lifo [of ?notify ?adds "[]"]
  have run: "Execute ?notify (add_all ?adds NewSagaCompensation) []
               = (None, saga_run ?notify (rev ?adds) [])"
    and ex: "executed (snd (snd (Execute ?notify (add_all ?adds NewSagaCompensation) [])))
               = rev (map fst ?adds)"
    by blast+
  have "saga_run ?notify (rev ?adds) []
          = ([''c'', ''b'', ''notify:b'', ''a''],
             [Executing ''c'', CompensationCompleted ''c'',
              Executing ''b'', CompensationFailed ''b'' DeadlineExceeded,
              NotifyCompensationFailure ''b'' DeadlineExceeded,
              Executing ''a'', CompensationCompleted ''a''])"
    by (simp add: compensate_def compensation_events_def)
  with run ex show ?thesis by simp
qed

section \<open>Properties of the aggregation\<close>

lemma aggregateMarketResults_loop_eq:
  "aggregateMarketResults_loop analyses (acc, tot) =
     (acc @ map par_Market analyses,
      foldl (+) tot (map (\<lambda>a. ma_RiskAdjustedRevenue (par_Market a)) analyses))"
  by (induction analyses arbitrary: acc tot) auto

lemma aggregateClinicalResults_loop_eq:
  "aggregateClinicalResults_loop analyses acc = acc @ map par_Clinical analyses"
  by (induction analyses arbitrary: acc) auto

text \<open>
  C4. The total of the aggregated market result is the left fold of the addition of
  \<^verbatim>\<open>float64\<close> over the risk-adjusted revenues of the collected analyses, starting
  from zero and in collection order (no law of addition is used: \<open>'f\<close> only has a
  zero and a sum), and the assessments are the market assessments of those analyses, in the
  same order.
\<close>

theorem aggregate_market_total:
  "mr_TotalRiskAdjustedRevenue (aggregateMarketResults ticker analyses)
     = foldl (+) 0 (map (\<lambda>a. ma_RiskAdjustedRevenue (par_Market a)) analyses)
   \<and> mr_Assessments (aggregateMarketResults ticker analyses) = map par_Market analyses
   \<and> mr_Ticker (aggregateMarketResults ticker analyses) = ticker"
  by (simp add: aggregateMarketResults_def aggregateMarketResults_loop_eq)

section \<open>Properties of the per-pipeline child workflow\<close>

text \<open>
  C3. When the clinical-assessment activity fails, the child workflow continues with the
  default assessment of the pipeline: its score is the table value of the phase, its rating
  is Unknown, and the market-analysis activity is dispatched next with this default as the
  clinical input; the market part of the result is what that activity returns (or the
  default market assessment when it fails too). The table has the seven listed values, and
  0.20 for any other phase.
\<close>

theorem clinical_failure_default:
  fixes env :: "('f::{inverse,numeral,power,zero}) pa_env"
  assumes "exec_ClinicalAssessor env
             \<lparr>cai_Ticker = pai_Ticker input, cai_Pipeline = pai_Pipeline input\<rparr> = Inl err"
  shows "\<exists>r. fst (PipelineAnalysisWorkflow env input) = Inr r
       \<and> par_Clinical r = default_ClinicalAssessment (pai_Pipeline input)
       \<and> ca_POSScore (par_Clinical r) = getDefaultPOS (dp_Phase (pai_Pipeline input))
       \<and> ca_Rating (par_Clinical r) = ''Unknown''
       \<and> snd (PipelineAnalysisWorkflow env input) =
           [CallClinicalAssessor \<lparr>cai_Ticker = pai_Ticker input, cai_Pipeline = pai_Pipeline input\<rparr>,
            CallMarketStrategist \<lparr>msi_Ticker = pai_Ticker input, msi_Pipeline = pai_Pipeline input,
               msi_Clinical = Some (default_ClinicalAssessment (pai_Pipeline input))\<rparr>]
       \<and> par_Market r =
           (case exec_MarketStrategist env
                   \<lparr>msi_Ticker = pai_Ticker input, msi_Pipeline = pai_Pipeline input,
                    msi_Clinical = Some (default_ClinicalAssessment (pai_Pipeline input))\<rparr> of
              Inl e \<Rightarrow> default_MarketAssessment (pai_Pipeline input)
            | Inr m \<Rightarrow> m)
       \<and> (getDefaultPOS ''Preclinical'' :: 'f) = 0.05
       \<and> (getDefaultPOS ''Phase1'' :: 'f) = 0.10
       \<and> (getDefaultPOS ''Phase1_2'' :: 'f) = 0.15
       \<and> (getDefaultPOS ''Phase2'' :: 'f) = 0.30
       \<and> (getDefaultPOS ''Phase2_3'' :: 'f) = 0.50
       \<and> (getDefaultPOS ''Phase3'' :: 'f) = 0.60
       \<and> (getDefaultPOS ''Approved'' :: 'f) = 1.0
       \<and> (phase \<notin> set [''Preclinical'', ''Phase1'', ''Phase1_2'', ''Phase2'', ''Phase2_3'',
                         ''Phase3'', ''Approved'']
            \<longrightarrow> (getDefaultPOS phase :: 'f) = 0.20)"
  using assms
  by (simp add: PipelineAnalysisWorkflow_def Let_def default_ClinicalAssessment_def
        zero_ClinicalAssessment_def getDefaultPOS_def)

theorem clinical_failure_default_witness:
  "exec_ClinicalAssessor example_pa_env
       \<lparr>cai_Ticker = pai_Ticker example_pa_input, cai_Pipeline = pai_Pipeline example_pa_input\<rparr>
     = Inl DeadlineExceeded
   \<and> (\<exists>r. fst (PipelineAnalysisWorkflow example_pa_env example_pa_input) = Inr r
        \<and> ca_POSScore (par_Clinical r) = 0.30
        \<and> ca_Rating (par_Clinical r) = ''Unknown''
        \<and> ma_RiskAdjustedRevenue (par_Market r) = 120)
   \<and> ''Phase4'' \<notin> set [''Preclinical'', ''Phase1'', ''Phase1_2'', ''Phase2'', ''Phase2_3'',
                         ''Phase3'', ''Approved'']
   \<and> (getDefaultPOS ''Phase4'' :: real) = 0.20"
proof -
  have hyp: "exec_ClinicalAssessor example_pa_env
       \<lparr>cai_Ticker = pai_Ticker example_pa_input, cai_Pipeline = pai_Pipeline example_pa_input\<rparr>
     = Inl DeadlineExceeded"
    by (simp add: example_pa_env_def)
  from clinical_failure_default [OF hyp, of "''Phase4''"]
  obtain r where r: "fst (PipelineAnalysisWorkflow example_pa_env example_pa_input) = Inr r"
    "ca_POSScore (par_Clinical r) = getDefaultPOS (dp_Phase (pai_Pipeline example_pa_input))"
    "ca_Rating (par_Clinical r) = ''Unknown''"
    "par_Market r =
           (case exec_MarketStrategist example_pa_env
                   \<lparr>msi_Ticker = pai_Ticker example_pa_input,
                    msi_Pipeline = pai_Pipeline example_pa_input,
                    msi_Clinical = Some (default_ClinicalAssessment (pai_Pipeline example_pa_input))\<rparr> of
              Inl e \<Rightarrow> default_MarketAssessment (pai_Pipeline example_pa_input)
            | Inr m \<Rightarrow> m)"
    and other: "''Phase4'' \<notin> set [''Preclinical'', ''Phase1'', ''Phase1_2'', ''Phase2'',
                   ''Phase2_3'', ''Phase3'', ''Approved'']
                \<longrightarrow> (getDefaultPOS ''Phase4'' :: real) = 0.20"
    by blast
  have pos: "ca_POSScore (par_Clinical r) = 0.30"
    using r(2) by (simp add: example_pa_input_def drug_def getDefaultPOS_def)
  have rev: "ma_RiskAdjustedRevenue (par_Market r) = 120"
    using r(4) by (simp add: example_pa_env_def)
  have notin: "''Phase4'' \<notin> set [''Preclinical'', ''Phase1'', ''Phase1_2'', ''Phase2'',
                   ''Phase2_3'', ''Phase3'', ''Approved'']"
    by simp
  with other have dflt: "(getDefaultPOS ''Phase4'' :: real) = 0.20" by blast
  show ?thesis using hyp r(1,3) pos rev notin dflt by blast
qed

section \<open>Properties of the progress query\<close>

text \<open>
  C8. In every state of the workflow the progress query answers without error with the
  current agent, the completed steps, the total 4 + 2 * (number of entries of the
  pipeline-progress map), the percentage, and the map itself. The percentage is the
  quotient of the number of completed steps by the total, both converted to
  \<^verbatim>\<open>float64\<close>, times 100, in the arithmetic of the float type. The state after the
  query is the state before it.
\<close>

theorem progress_query_pure:
  fixes float64 :: "int \<Rightarrow> 'p::{inverse,times,numeral}"
  shows "snd (progress_query float64 s) = s
   \<and> (\<exists>info. fst (progress_query float64 s) = Inr info
        \<and> pi_CurrentAgent info = currentAgent s
        \<and> pi_CompletedSteps info = completedSteps s
        \<and> pi_TotalSteps info = 4 + 2 * int (length (pipelineProgress s))
        \<and> pi_Progress info =
            float64 (int (length (completedSteps s))) / float64 (pi_TotalSteps info) * 100
        \<and> pi_PipelineProgress info = pipelineProgress s)"
  by (simp add: progress_query_def Let_def)

section \<open>Properties of the selector\<close>

lemma mset_select_order: "mset (select_order ready k pending) = mset pending"
proof (induction ready k pending rule: select_order.induct)
  case (1 ready k pending)
  show ?case
  proof (cases "pending = []")
    case True
    then show ?thesis by (simp add: select_order.simps [of _ _ "[]"])
  next
    case False
    define i where "i = pending ! (ready k mod length pending)"
    have mem: "i \<in> set pending"
      unfolding i_def using False by simp
    have "mset (select_order ready (Suc k) (remove1 i pending)) = mset (remove1 i pending)"
      using "1.IH" [OF False i_def] .
    then have "mset (i # select_order ready (Suc k) (remove1 i pending)) = mset pending"
      using mem by simp
    moreover have "select_order ready k pending
                     = i # select_order ready (Suc k) (remove1 i pending)"
      using False by (subst select_order.simps) (simp add: i_def Let_def)
    ultimately show ?thesis by simp
  qed
qed

lemma set_select_order: "set (select_order ready k pending) = set pending"
  using mset_select_order [of ready k pending] by (metis set_mset_mset)

lemma distinct_select_order:
  "distinct pending \<Longrightarrow> distinct (select_order ready k pending)"
  using mset_select_order [of ready k pending] by (metis distinct_count_atmost_1 mset_eq_imp_distinct_iff)

lemma select_order_pair:
  "select_order ready 0 [0, 1] = [0, 1] \<or> select_order ready 0 [0, 1] = [1, 0]"
proof -
  have "ready 0 mod Suc (Suc 0) = 0 \<or> ready 0 mod Suc (Suc 0) = Suc 0" by arith
  then show ?thesis
  proof
    assume "ready 0 mod Suc (Suc 0) = 0"
    then have "select_order ready 0 [0, 1] = [0, 1]"
      by (simp add: select_order.simps [of _ _ "[0, Suc 0]"] select_order.simps [of _ _ "[Suc 0]"]
            select_order.simps [of _ _ "[]"] Let_def)
    then show ?thesis by simp
  next
    assume "ready 0 mod Suc (Suc 0) = Suc 0"
    then have "select_order ready 0 [0, 1] = [1, 0]"
      by (simp add: select_order.simps [of _ _ "[0, Suc 0]"] select_order.simps [of _ _ "[0]"]
            select_order.simps [of _ _ "[]"] Let_def)
    then show ?thesis by simp
  qed
qed

section \<open>Properties of the fan-out\<close>

lemma keys_init_progress:
  "distinct (map fst m @ map dp_DrugName ps) \<Longrightarrow>
   map fst (init_progress ps m) = map fst m @ map dp_DrugName ps"
proof (induction ps arbitrary: m)
  case Nil
  then show ?case by simp
next
  case (Cons p rest)
  let ?m = "AList.update (dp_DrugName p) ''pending'' m"
  have keys: "map fst ?m = map fst m @ [dp_DrugName p]"
    using Cons.prems by (simp add: update_keys)
  have "distinct (map fst ?m @ map dp_DrugName rest)"
    using Cons.prems keys by auto
  then have "map fst (init_progress rest ?m) = map fst ?m @ map dp_DrugName rest"
    by (rule Cons.IH)
  then show ?case using keys by simp
qed

lemma start_children_fields:
  "pipelineAnalyses (start_children t r i ps s) = pipelineAnalyses s"
  "completedSteps (start_children t r i ps s) = completedSteps s"
  "saga (start_children t r i ps s) = saga s"
  "sagaLog (start_children t r i ps s) = sagaLog s"
  "pipelineResult (start_children t r i ps s) = pipelineResult s"
  "financialResult (start_children t r i ps s) = financialResult s"
  "output (start_children t r i ps s) = output s"
  by (induction ps arbitrary: i s) simp_all

lemma keys_update_known:
  "k \<in> set (map fst m) \<Longrightarrow> map fst (AList.update k v m) = map fst m"
  by (simp add: update_keys)

lemma keys_start_children:
  "set (map dp_DrugName ps) \<subseteq> set (map fst (pipelineProgress s)) \<Longrightarrow>
   map fst (pipelineProgress (start_children t r i ps s)) = map fst (pipelineProgress s)"
proof (induction ps arbitrary: i s)
  case Nil
  then show ?case by simp
next
  case (Cons p rest)
  let ?s = "s\<lparr>calls := calls s @
             [StartPipelineAnalysis
                (''pipeline-analysis-'' @ t @ ''-'' @ r @ ''-'' @ Sprint_d i)
                \<lparr>pai_Ticker = t, pai_Pipeline = p\<rparr>],
          pipelineProgress :=
             AList.update (dp_DrugName p) ''in_progress'' (pipelineProgress s)\<rparr>"
  have keys: "map fst (pipelineProgress ?s) = map fst (pipelineProgress s)"
    using Cons.prems by (simp add: keys_update_known)
  have "set (map dp_DrugName rest) \<subseteq> set (map fst (pipelineProgress ?s))"
    using Cons.prems unfolding keys by simp
  then have "map fst (pipelineProgress (start_children t r (Suc i) rest ?s))
               = map fst (pipelineProgress ?s)"
    by (rule Cons.IH)
  then show ?case unfolding keys by (simp del: Sprint_d.simps)
qed

lemma collect_fields:
  "saga (collect env t ps order s) = saga s"
  "sagaLog (collect env t ps order s) = sagaLog s"
  "calls (collect env t ps order s) = calls s"
  "pipelineResult (collect env t ps order s) = pipelineResult s"
  "financialResult (collect env t ps order s) = financialResult s"
  "output (collect env t ps order s) = output s"
  by (induction order arbitrary: s) (simp_all add: collect_callback_def Let_def split: sum.splits)

lemma analyses_collect:
  "pipelineAnalyses (collect env t ps order s) = pipelineAnalyses s @ successes env t ps order"
  by (induction order arbitrary: s)
     (simp_all add: collect_callback_def successes_def child_outcome_def Let_def split: sum.splits)

lemma progress_callback:
  "pipelineProgress (collect_callback env t ps idx s)
     = AList.update (dp_DrugName (ps ! idx)) (child_status env t ps idx) (pipelineProgress s)"
  by (simp add: collect_callback_def child_status_def child_outcome_def Let_def split: sum.splits)

lemma keys_collect:
  "\<forall>i\<in>set order. dp_DrugName (ps ! i) \<in> set (map fst (pipelineProgress s)) \<Longrightarrow>
   map fst (pipelineProgress (collect env t ps order s)) = map fst (pipelineProgress s)"
proof (induction order arbitrary: s)
  case Nil
  then show ?case by simp
next
  case (Cons idx rest)
  have keys: "map fst (pipelineProgress (collect_callback env t ps idx s))
                = map fst (pipelineProgress s)"
    using Cons.prems by (simp add: progress_callback keys_update_known)
  have "\<forall>i\<in>set rest. dp_DrugName (ps ! i)
          \<in> set (map fst (pipelineProgress (collect_callback env t ps idx s)))"
    using Cons.prems unfolding keys by simp
  then have "map fst (pipelineProgress (collect env t ps rest (collect_callback env t ps idx s)))
               = map fst (pipelineProgress (collect_callback env t ps idx s))"
    by (rule Cons.IH)
  then show ?case unfolding keys by simp
qed

lemma lookup_collect_other:
  "name \<notin> (\<lambda>i. dp_DrugName (ps ! i)) ` set order \<Longrightarrow>
   map_of (pipelineProgress (collect env t ps order s)) name = map_of (pipelineProgress s) name"
  by (induction order arbitrary: s) (simp_all add: progress_callback update_conv')

lemma lookup_collect:
  "distinct order \<Longrightarrow> inj_on (\<lambda>i. dp_DrugName (ps ! i)) (set order) \<Longrightarrow> i \<in> set order \<Longrightarrow>
   map_of (pipelineProgress (collect env t ps order s)) (dp_DrugName (ps ! i))
     = Some (child_status env t ps i)"
proof (induction order arbitrary: s)
  case Nil
  then show ?case by simp
next
  case (Cons idx rest)
  show ?case
  proof (cases "i = idx")
    case True
    have "dp_DrugName (ps ! idx) \<notin> (\<lambda>j. dp_DrugName (ps ! j)) ` set rest"
    proof
      assume "dp_DrugName (ps ! idx) \<in> (\<lambda>j. dp_DrugName (ps ! j)) ` set rest"
      then obtain j where j: "j \<in> set rest" "dp_DrugName (ps ! j) = dp_DrugName (ps ! idx)"
        by auto
      with Cons.prems(2) have "j = idx" by (auto simp: inj_on_def)
      with j(1) Cons.prems(1) show False by simp
    qed
    then show ?thesis
      using True by (simp add: lookup_collect_other progress_callback update_conv')
  next
    case False
    with Cons.prems have "i \<in> set rest" "distinct rest"
      "inj_on (\<lambda>i. dp_DrugName (ps ! i)) (set rest)"
      by (auto simp: inj_on_def)
    then show ?thesis using Cons.IH by simp
  qed
qed

lemma alist_determined:
  assumes "map fst xs = ks" "distinct ks"
    and "\<And>j. j < length ks \<Longrightarrow> map_of xs (ks ! j) = Some (f j)"
  shows "xs = map (\<lambda>j. (ks ! j, f j)) [0..<length ks]"
proof (rule nth_equalityI)
  show "length xs = length (map (\<lambda>j. (ks ! j, f j)) [0..<length ks])"
    using assms(1) by (metis length_map length_upt minus_nat.diff_0)
next
  fix j assume "j < length xs"
  then have j: "j < length ks" using assms(1) by (metis length_map)
  have fstj: "fst (xs ! j) = ks ! j" using assms(1) \<open>j < length xs\<close> by (metis nth_map)
  have "xs ! j \<in> set xs" using \<open>j < length xs\<close> by simp
  then have "map_of xs (fst (xs ! j)) = Some (snd (xs ! j))"
    using assms(1,2) by (simp add: map_of_eq_Some_iff)
  with assms(3) [OF j] fstj have "snd (xs ! j) = f j" by simp
  with fstj show "xs ! j = map (\<lambda>j. (ks ! j, f j)) [0..<length ks] ! j"
    using j by (simp add: prod_eq_iff)
qed

lemma length_successes:
  "length (successes env t ps order)
     = length (filter (\<lambda>i. child_status env t ps i = ''completed'') order)"
  by (induction order) (simp_all add: successes_def child_status_def split: sum.splits)

lemma length_filter_mset:
  "mset xs = mset ys \<Longrightarrow> length (filter P xs) = length (filter P ys)"
  by (metis mset_filter size_mset)

lemma status_cases:
  "child_status env t ps i = ''failed'' \<longleftrightarrow> child_status env t ps i \<noteq> ''completed''"
  by (simp add: child_status_def split: sum.splits)

lemma parallel_callback_fields:
  "pipelineProgress (parallel_callback env input i s) = pipelineProgress s"
  "sagaLog (parallel_callback env input i s) = sagaLog s"
  "pipelineAnalyses (parallel_callback env input i s) = pipelineAnalyses s"
  by (simp_all add: parallel_callback_def split: sum.splits)

lemma after_parallel_fields:
  "pipelineProgress (after_parallel env input) = []"
  "sagaLog (after_parallel env input) = []"
  using select_order_pair [of "env_readyA env"]
  by (auto simp: after_parallel_def parallel_phase_def parallel_callback_fields
        initial_state_def)

lemma fan_out_fields:
  "pipelineResult (fan_out_phase env input s) = pipelineResult s"
  "financialResult (fan_out_phase env input s) = financialResult s"
  "saga (fan_out_phase env input s) = saga s"
  "sagaLog (fan_out_phase env input s) = sagaLog s"
  by (simp_all add: fan_out_phase_def Let_def collect_fields start_children_fields)

lemma fan_out_analyses:
  "pipelineAnalyses (fan_out_phase env input s)
     = successes env (wi_Ticker input) (pr_Pipelines (pipelineResult s))
         (select_order (env_readyB env) 0 [0..<length (pr_Pipelines (pipelineResult s))])"
  "wo_PipelineAnalyses (output (fan_out_phase env input s))
     = pipelineAnalyses (fan_out_phase env input s)"
  "clinicalResult (fan_out_phase env input s)
     = aggregateClinicalResults (wi_Ticker input) (pipelineAnalyses (fan_out_phase env input s))"
  "marketResult (fan_out_phase env input s)
     = aggregateMarketResults (wi_Ticker input) (pipelineAnalyses (fan_out_phase env input s))"
  "wo_Clinical (output (fan_out_phase env input s)) = Some (clinicalResult (fan_out_phase env input s))"
  "wo_Market (output (fan_out_phase env input s)) = Some (marketResult (fan_out_phase env input s))"
  by (simp_all add: fan_out_phase_def Let_def analyses_collect start_children_fields)

lemma fan_out_progress_raw:
  "pipelineProgress (fan_out_phase env input s)
     = pipelineProgress
         (collect env (wi_Ticker input) (pr_Pipelines (pipelineResult s))
            (select_order (env_readyB env) 0 [0..<length (pr_Pipelines (pipelineResult s))])
            (start_children (wi_Ticker input) (env_RunID env) 0 (pr_Pipelines (pipelineResult s))
               (s\<lparr>currentAgent := ''PipelineAnalysis'',
                   pipelineProgress :=
                     init_progress (pr_Pipelines (pipelineResult s)) (pipelineProgress s),
                   pipelineAnalyses := []\<rparr>)))"
  by (simp add: fan_out_phase_def Let_def)

lemma fan_out_progress:
  assumes empty: "pipelineProgress s = []"
    and dist: "distinct (map dp_DrugName (pr_Pipelines (pipelineResult s)))"
  shows "pipelineProgress (fan_out_phase env input s)
           = map (\<lambda>j. (dp_DrugName (pr_Pipelines (pipelineResult s) ! j),
                        child_status env (wi_Ticker input) (pr_Pipelines (pipelineResult s)) j))
               [0..<length (pr_Pipelines (pipelineResult s))]"
proof -
  let ?ps = "pr_Pipelines (pipelineResult s)"
  let ?t = "wi_Ticker input"
  let ?names = "map dp_DrugName ?ps"
  let ?order = "select_order (env_readyB env) 0 [0..<length ?ps]"
  let ?s2 = "s\<lparr>currentAgent := ''PipelineAnalysis'',
                pipelineProgress := init_progress ?ps (pipelineProgress s),
                pipelineAnalyses := []\<rparr>"
  let ?s3 = "start_children ?t (env_RunID env) 0 ?ps ?s2"
  let ?final = "pipelineProgress (collect env ?t ?ps ?order ?s3)"
  have order_set: "set ?order = {0..<length ?ps}"
    by (simp add: set_select_order)
  have order_dist: "distinct ?order"
    by (simp add: distinct_select_order)
  have keys2: "map fst (pipelineProgress ?s2) = ?names"
    using keys_init_progress [of "[]" ?ps] dist empty by simp
  have "set (map dp_DrugName ?ps) \<subseteq> set (map fst (pipelineProgress ?s2))"
    unfolding keys2 by simp
  then have "map fst (pipelineProgress ?s3) = map fst (pipelineProgress ?s2)"
    by (rule keys_start_children)
  then have keys3: "map fst (pipelineProgress ?s3) = ?names"
    unfolding keys2 .
  have "\<forall>i\<in>set ?order. dp_DrugName (?ps ! i) \<in> set (map fst (pipelineProgress ?s3))"
    unfolding keys3 order_set by simp
  then have "map fst ?final = map fst (pipelineProgress ?s3)"
    by (rule keys_collect)
  then have keys: "map fst ?final = ?names"
    unfolding keys3 .
  have inj: "inj_on (\<lambda>i. dp_DrugName (?ps ! i)) (set ?order)"
    unfolding order_set inj_on_def
  proof (intro ballI impI)
    fix a b assume "a \<in> {0..<length ?ps}" "b \<in> {0..<length ?ps}"
      and "dp_DrugName (?ps ! a) = dp_DrugName (?ps ! b)"
    then show "a = b"
      using nth_eq_iff_index_eq [OF dist, of a b] by simp
  qed
  have lookup: "map_of ?final (?names ! j) = Some (child_status env ?t ?ps j)"
    if "j < length ?names" for j
  proof -
    from that have "j \<in> set ?order" unfolding order_set by simp
    from lookup_collect [OF order_dist inj this, of env ?t ?s3] that
    show ?thesis by simp
  qed
  have "?final = map (\<lambda>j. (?names ! j, child_status env ?t ?ps j)) [0..<length ?names]"
    using keys dist lookup by (rule alist_determined)
  also have "\<dots> = map (\<lambda>j. (dp_DrugName (?ps ! j), child_status env ?t ?ps j)) [0..<length ?ps]"
    by simp
  finally show ?thesis unfolding fan_out_progress_raw .
qed

lemma failed_drugs_statuses:
  "failed_drugs (map (\<lambda>j. (k j, st j)) xs) = length (filter (\<lambda>j. st j = ''failed'') xs)"
  by (simp add: failed_drugs_def filter_map comp_def)

lemma fan_out_counts:
  assumes empty: "pipelineProgress s = []"
    and dist: "distinct (map dp_DrugName (pr_Pipelines (pipelineResult s)))"
  shows "length (pipelineAnalyses (fan_out_phase env input s))
           + failed_drugs (pipelineProgress (fan_out_phase env input s))
         = length (pr_Pipelines (pipelineResult s))"
proof -
  let ?ps = "pr_Pipelines (pipelineResult s)"
  let ?t = "wi_Ticker input"
  let ?order = "select_order (env_readyB env) 0 [0..<length ?ps]"
  let ?ok = "\<lambda>i. child_status env ?t ?ps i = ''completed''"
  have "length (pipelineAnalyses (fan_out_phase env input s)) = length (filter ?ok ?order)"
    by (simp add: fan_out_analyses length_successes)
  also have "\<dots> = length (filter ?ok [0..<length ?ps])"
    by (rule length_filter_mset) (rule mset_select_order)
  finally have a: "length (pipelineAnalyses (fan_out_phase env input s))
                     = length (filter ?ok [0..<length ?ps])" .
  have b: "failed_drugs (pipelineProgress (fan_out_phase env input s))
             = length (filter (\<lambda>i. \<not> ?ok i) [0..<length ?ps])"
    unfolding fan_out_progress [OF empty dist] failed_drugs_statuses
    by (simp add: status_cases)
  show ?thesis unfolding a b
    using sum_length_filter_compl [of ?ok "[0..<length ?ps]"] by simp
qed

lemma successes_member:
  "i \<in> set order \<Longrightarrow> child_outcome env t ps i = Inr r \<Longrightarrow> r \<in> set (successes env t ps order)"
  by (induction order) (auto simp: successes_def)

lemma map_of_tabulated:
  "distinct (map k xs) \<Longrightarrow> i \<in> set xs \<Longrightarrow> map_of (map (\<lambda>j. (k j, f j)) xs) (k i) = Some (f i)"
proof (induction xs)
  case Nil
  then show ?case by simp
next
  case (Cons a xs)
  show ?case
  proof (cases "i = a")
    case True
    then show ?thesis by simp
  next
    case False
    with Cons.prems have i: "i \<in> set xs" and "k a \<notin> k ` set xs" and "distinct (map k xs)"
      by auto
    then have "k i \<noteq> k a" by (metis imageI)
    then show ?thesis using Cons.IH [OF \<open>distinct (map k xs)\<close> i] by simp
  qed
qed

lemma length_aggregateClinicalResults:
  "length (cr_Assessments (aggregateClinicalResults t analyses)) = length analyses"
  by (simp add: aggregateClinicalResults_def aggregateClinicalResults_loop_eq)

lemma length_aggregateMarketResults:
  "length (mr_Assessments (aggregateMarketResults t analyses)) = length analyses"
  by (simp add: aggregateMarketResults_def aggregateMarketResults_loop_eq)

text \<open>
  C1, amended. Let the drug names found by the scout be pairwise distinct. At the end of
  the fan-out phase every drug is accounted for once: if its child workflow returned a
  result, the result is among the pipeline analyses of the output and the progress map
  holds "completed" for the drug; if its child workflow failed, the map holds "failed".
  The analyses of the output are those of the successful children, each index taken once.
  Hence the number of clinical assessments plus the number of drugs marked failed is the
  number of pipelines, and the same holds for the market assessments.
\<close>

theorem fan_out_conservation:
  fixes env :: "('f::{plus,zero}) wf_env"
  assumes dist: "distinct (map dp_DrugName (pr_Pipelines (pipelineResult (after_fan_out env input))))"
  shows
    "(let s = after_fan_out env input;
          ps = pr_Pipelines (pipelineResult s);
          t = wi_Ticker input
      in (\<forall>i<length ps.
            (case child_outcome env t ps i of
               Inl err \<Rightarrow> map_of (pipelineProgress s) (dp_DrugName (ps ! i)) = Some ''failed''
             | Inr r \<Rightarrow> r \<in> set (wo_PipelineAnalyses (output s))
                        \<and> map_of (pipelineProgress s) (dp_DrugName (ps ! i)) = Some ''completed''))
         \<and> (\<exists>order. mset order = mset [0..<length ps]
               \<and> wo_PipelineAnalyses (output s) = successes env t ps order)
         \<and> wo_Clinical (output s) = Some (aggregateClinicalResults t (wo_PipelineAnalyses (output s)))
         \<and> wo_Market (output s) = Some (aggregateMarketResults t (wo_PipelineAnalyses (output s)))
         \<and> length (cr_Assessments (clinicalResult s)) + failed_drugs (pipelineProgress s)
             = length ps
         \<and> length (mr_Assessments (marketResult s)) + failed_drugs (pipelineProgress s)
             = length ps)"
proof -
  let ?before = "after_parallel env input"
  let ?s = "after_fan_out env input"
  let ?ps = "pr_Pipelines (pipelineResult ?before)"
  let ?t = "wi_Ticker input"
  let ?order = "select_order (env_readyB env) 0 [0..<length ?ps]"
  have s_def: "?s = fan_out_phase env input ?before"
    by (simp add: after_fan_out_def)
  have ps_eq: "pr_Pipelines (pipelineResult ?s) = ?ps"
    by (simp add: s_def fan_out_fields)
  have dist0: "distinct (map dp_DrugName ?ps)"
    using dist unfolding ps_eq .
  have empty: "pipelineProgress ?before = []"
    by (rule after_parallel_fields)
  have progress: "pipelineProgress ?s
      = map (\<lambda>j. (dp_DrugName (?ps ! j), child_status env ?t ?ps j)) [0..<length ?ps]"
    unfolding s_def by (rule fan_out_progress [OF empty dist0])
  have analyses: "wo_PipelineAnalyses (output ?s) = successes env ?t ?ps ?order"
    unfolding s_def by (simp add: fan_out_analyses)
  have dist_keys: "distinct (map (\<lambda>j. dp_DrugName (?ps ! j)) [0..<length ?ps])"
    using dist0 by (simp add: distinct_conv_nth)
  have lookup: "map_of (pipelineProgress ?s) (dp_DrugName (?ps ! i))
                  = Some (child_status env ?t ?ps i)" if "i < length ?ps" for i
    unfolding progress using map_of_tabulated [OF dist_keys, of i] that by simp
  have per_drug: "\<forall>i<length ?ps.
      (case child_outcome env ?t ?ps i of
         Inl err \<Rightarrow> map_of (pipelineProgress ?s) (dp_DrugName (?ps ! i)) = Some ''failed''
       | Inr r \<Rightarrow> r \<in> set (wo_PipelineAnalyses (output ?s))
                  \<and> map_of (pipelineProgress ?s) (dp_DrugName (?ps ! i)) = Some ''completed'')"
  proof (intro allI impI)
    fix i assume i: "i < length ?ps"
    then have mem: "i \<in> set ?order" by (simp add: set_select_order)
    show "case child_outcome env ?t ?ps i of
         Inl err \<Rightarrow> map_of (pipelineProgress ?s) (dp_DrugName (?ps ! i)) = Some ''failed''
       | Inr r \<Rightarrow> r \<in> set (wo_PipelineAnalyses (output ?s))
                  \<and> map_of (pipelineProgress ?s) (dp_DrugName (?ps ! i)) = Some ''completed''"
    proof (cases "child_outcome env ?t ?ps i")
      case (Inl err)
      then show ?thesis using lookup [OF i] by (simp add: child_status_def)
    next
      case (Inr r)
      then show ?thesis
        using lookup [OF i] successes_member [OF mem Inr] analyses
        by (simp add: child_status_def)
    qed
  qed
  have perm: "\<exists>order. mset order = mset [0..<length ?ps]
               \<and> wo_PipelineAnalyses (output ?s) = successes env ?t ?ps order"
    using analyses mset_select_order by blast
  have agg: "wo_Clinical (output ?s) = Some (aggregateClinicalResults ?t (wo_PipelineAnalyses (output ?s)))"
       "wo_Market (output ?s) = Some (aggregateMarketResults ?t (wo_PipelineAnalyses (output ?s)))"
    unfolding s_def by (simp_all add: fan_out_analyses)
  have count: "length (pipelineAnalyses ?s) + failed_drugs (pipelineProgress ?s) = length ?ps"
    unfolding s_def by (rule fan_out_counts [OF empty dist0])
  have clin: "length (cr_Assessments (clinicalResult ?s)) = length (pipelineAnalyses ?s)"
    unfolding s_def by (simp add: fan_out_analyses(3) length_aggregateClinicalResults)
  have mark: "length (mr_Assessments (marketResult ?s)) = length (pipelineAnalyses ?s)"
    unfolding s_def by (simp add: fan_out_analyses(4) length_aggregateMarketResults)
  show ?thesis
    unfolding Let_def ps_eq
    using per_drug perm agg count clin mark by simp
qed

text \<open>
  A run with two distinct drugs, the first child failing: one assessment, one drug marked
  failed, two pipelines.
\<close>

theorem fan_out_conservation_witness:
  "distinct (map dp_DrugName
      (pr_Pipelines (pipelineResult (after_fan_out example_distinct_env example_input))))
   \<and> length (pr_Pipelines (pipelineResult (after_fan_out example_distinct_env example_input))) = 2
   \<and> length (cr_Assessments (clinicalResult (after_fan_out example_distinct_env example_input)))
       + failed_drugs (pipelineProgress (after_fan_out example_distinct_env example_input)) = 2
   \<and> length (mr_Assessments (marketResult (after_fan_out example_distinct_env example_input)))
       + failed_drugs (pipelineProgress (after_fan_out example_distinct_env example_input)) = 2
   \<and> pipelineProgress (after_fan_out example_distinct_env example_input)
       = [(''DrugA'', ''failed''), (''DrugB'', ''completed'')]"
proof -
  have names: "map dp_DrugName
      (pr_Pipelines (pipelineResult (after_fan_out example_distinct_env example_input)))
      = [''DrugA'', ''DrugB'']"
    unfolding example_distinct_env_def by code_simp
  then have dist: "distinct (map dp_DrugName
      (pr_Pipelines (pipelineResult (after_fan_out example_distinct_env example_input))))"
    by simp
  have len: "length (pr_Pipelines (pipelineResult
      (after_fan_out example_distinct_env example_input))) = 2"
    using names by (metis length_map length_Cons list.size(3) numeral_2_eq_2)
  have prog: "pipelineProgress (after_fan_out example_distinct_env example_input)
       = [(''DrugA'', ''failed''), (''DrugB'', ''completed'')]"
    unfolding example_distinct_env_def by code_simp
  from fan_out_conservation [OF dist] len
  show ?thesis using dist prog by (simp add: Let_def)
qed

text \<open>
  Without distinct names the accounting fails. The scout returns two pipelines of the same
  drug (two indications of DrugA); the child of the first fails, the child of the second
  succeeds and arrives later. The progress map has the single key DrugA, which ends as
  "completed": the failed pipeline is neither in the output nor marked failed, and
  assessments plus failed drugs is 1 for 2 pipelines.
\<close>

theorem fan_out_conservation_counterexample:
  "length (pr_Pipelines (pipelineResult (after_fan_out example_duplicate_env example_input))) = 2
   \<and> child_outcome example_duplicate_env (wi_Ticker example_input)
        (pr_Pipelines (pipelineResult (after_fan_out example_duplicate_env example_input))) 0
       = Inl (ErrOther ''child workflow timed out'')
   \<and> dp_DrugName (pr_Pipelines (pipelineResult
        (after_fan_out example_duplicate_env example_input)) ! 0) = ''DrugA''
   \<and> map_of (pipelineProgress (after_fan_out example_duplicate_env example_input)) ''DrugA''
       = Some ''completed''
   \<and> length (cr_Assessments (clinicalResult (after_fan_out example_duplicate_env example_input)))
       + failed_drugs (pipelineProgress (after_fan_out example_duplicate_env example_input))
     \<noteq> length (pr_Pipelines (pipelineResult
         (after_fan_out example_duplicate_env example_input)))
   \<and> length (cr_Assessments (clinicalResult (after_fan_out example_duplicate_env example_input)))
       + failed_drugs (pipelineProgress (after_fan_out example_duplicate_env example_input)) = 1
   \<and> length (mr_Assessments (marketResult (after_fan_out example_duplicate_env example_input)))
       + failed_drugs (pipelineProgress (after_fan_out example_duplicate_env example_input)) = 1"
  unfolding example_duplicate_env_def by code_simp

section \<open>Properties of the valuation phase\<close>

lemma after_parallel_saga:
  "(''financial'' \<in> set (map cs_Name (steps (saga (after_parallel env input))))
      \<longleftrightarrow> (\<exists>r. env_FinancialAuditor env
                  \<lparr>fai_Ticker = wi_Ticker input, fai_ReportPath = wi_ReportPath input\<rparr> = Inr r))"
  "(''pipeline'' \<in> set (map cs_Name (steps (saga (after_parallel env input))))
      \<longleftrightarrow> (\<exists>r. env_PipelineScout env
                  \<lparr>psi_Ticker = wi_Ticker input, psi_CompanyURL = []\<rparr> = Inr r))"
  using select_order_pair [of "env_readyA env"]
  by (auto simp: after_parallel_def parallel_phase_def parallel_callback_def
        initial_state_def AddCompensation_def NewSagaCompensation_def split: sum.splits)

text \<open>
  The branch of the valuation phase that aborts: for an error that \<^verbatim>\<open>ClassifyError\<close>
  puts at level L2 or above, the workflow runs the Saga and returns the error wrapped.
\<close>

lemma valuation_abort_branch:
  fixes env :: "('f::{plus,zero}) wf_env"
  assumes handler: "env_SetQueryHandler env = None"
    and gate1: "\<not> blocked env 1"
    and gate2: "\<not> blocked env 2"
    and fails: "env_Valuation env
                  \<lparr>vi_Ticker = wi_Ticker input,
                   vi_Financial = Some (financialResult (after_fan_out env input)),
                   vi_Clinical = Some (clinicalResult (after_fan_out env input)),
                   vi_Market = Some (marketResult (after_fan_out env input))\<rparr> = Inl err"
    and classified: "ClassifyError (Some err) = Some classifiedErr"
    and level: "ce_Level classifiedErr \<ge> L2Intervention"
  shows "fst (BioValueWorkflow env input)
           = Some (Inl (Errorf ''valuation workflow failed'' err))"
    and "executed (sagaLog (snd (BioValueWorkflow env input)))
           = map cs_Name (steps (saga (after_fan_out env input)))"
proof -
  let ?s = "after_fan_out env input"
  let ?notify = "\<lambda>name e w. w @ [CallNotifyCompensationFailure name e :: 'f wf_call]"
  let ?w = "calls ?s @ [StartValuation (''valuation-'' @ wi_Ticker input @ ''-'' @ env_RunID env)
                  \<lparr>vi_Ticker = wi_Ticker input, vi_Financial = Some (financialResult ?s),
                   vi_Clinical = Some (clinicalResult ?s), vi_Market = Some (marketResult ?s)\<rparr>]"
  let ?run = "Execute_loop ?notify (steps (saga ?s)) ?w []"
  have log0: "sagaLog ?s = []"
    by (simp add: after_fan_out_def fan_out_fields after_parallel_fields)
  have av1: "fst (after_valuation env input) = Some (Errorf ''valuation workflow failed'' err)"
    using fails classified level
    by (simp add: after_valuation_def valuation_phase_def Let_def Execute_def split: prod.splits)
  have av2: "sagaLog (snd (after_valuation env input)) = snd ?run"
    using fails classified level log0
    by (simp add: after_valuation_def valuation_phase_def Let_def Execute_def split: prod.splits)
  obtain s' where av: "after_valuation env input = (Some (Errorf ''valuation workflow failed'' err), s')"
    using av1 by (cases "after_valuation env input") simp
  have res: "BioValueWorkflow env input = (Some (Inl (Errorf ''valuation workflow failed'' err)), s')"
    using handler gate1 gate2 av by (simp add: BioValueWorkflow_def)
  then show "fst (BioValueWorkflow env input)
           = Some (Inl (Errorf ''valuation workflow failed'' err))"
    by simp
  have log: "sagaLog (snd (BioValueWorkflow env input)) = snd ?run"
    using res av av2 by simp
  show "executed (sagaLog (snd (BioValueWorkflow env input)))
           = map cs_Name (steps (saga (after_fan_out env input)))"
    unfolding log by (simp add: executed_Execute_loop)
qed






section \<open>Runs whose children never fail\<close>

lemma values_update: "snd ` set (AList.update k v m) \<subseteq> insert v (snd ` set m)"
  by (induction m) auto

lemma values_init_progress:
  "''failed'' \<notin> snd ` set m \<Longrightarrow> ''failed'' \<notin> snd ` set (init_progress ps m)"
proof (induction ps arbitrary: m)
  case Nil
  then show ?case by simp
next
  case (Cons p rest)
  have "''failed'' \<notin> snd ` set (AList.update (dp_DrugName p) ''pending'' m)"
    using Cons.prems values_update [of "dp_DrugName p" "''pending''" m] by auto
  then show ?case using Cons.IH by simp
qed

lemma values_start_children:
  "''failed'' \<notin> snd ` set (pipelineProgress s) \<Longrightarrow>
   ''failed'' \<notin> snd ` set (pipelineProgress (start_children t r i ps s))"
proof (induction ps arbitrary: i s)
  case Nil
  then show ?case by simp
next
  case (Cons p rest)
  have "''failed'' \<notin> snd ` set (AList.update (dp_DrugName p) ''in_progress'' (pipelineProgress s))"
    using Cons.prems values_update [of "dp_DrugName p" "''in_progress''" "pipelineProgress s"]
    by auto
  then show ?case using Cons.IH by simp
qed

lemma values_collect:
  "''failed'' \<notin> snd ` set (pipelineProgress s) \<Longrightarrow>
   \<forall>i\<in>set order. child_status env t ps i \<noteq> ''failed'' \<Longrightarrow>
   ''failed'' \<notin> snd ` set (pipelineProgress (collect env t ps order s))"
proof (induction order arbitrary: s)
  case Nil
  then show ?case by simp
next
  case (Cons idx rest)
  have "''failed'' \<notin> snd ` set (pipelineProgress (collect_callback env t ps idx s))"
    unfolding progress_callback
    using Cons.prems
      values_update [of "dp_DrugName (ps ! idx)" "child_status env t ps idx" "pipelineProgress s"]
    by auto
  then show ?case using Cons.IH Cons.prems(2) by simp
qed

lemma fan_out_no_failure:
  assumes "pipelineProgress s = []"
    and "\<forall>i. child_status env (wi_Ticker input) (pr_Pipelines (pipelineResult s)) i \<noteq> ''failed''"
  shows "''failed'' \<notin> snd ` set (pipelineProgress (fan_out_phase env input s))"
  unfolding fan_out_progress_raw
  by (intro values_collect values_start_children) (simp_all add: assms values_init_progress)

text \<open>
  C9. The per-pipeline child workflow always returns a result and never an error: the
  result holds the input pipeline, the clinical assessment of the activity or its default,
  and the market assessment of the activity or its default. So when what the children
  return to the parent is what this workflow returns, no drug is marked failed.
\<close>

theorem pipeline_analysis_never_fails:
  fixes env :: "('f::{inverse,numeral,power,zero}) pa_env"
    and wenv :: "'f wf_env"
  shows "(\<exists>r. fst (PipelineAnalysisWorkflow env input) = Inr r
            \<and> par_Pipeline r = pai_Pipeline input
            \<and> par_Clinical r =
                (case exec_ClinicalAssessor env
                        \<lparr>cai_Ticker = pai_Ticker input, cai_Pipeline = pai_Pipeline input\<rparr> of
                   Inl e \<Rightarrow> default_ClinicalAssessment (pai_Pipeline input)
                 | Inr c \<Rightarrow> c)
            \<and> par_Market r =
                (case exec_MarketStrategist env
                        \<lparr>msi_Ticker = pai_Ticker input, msi_Pipeline = pai_Pipeline input,
                         msi_Clinical = Some (par_Clinical r)\<rparr> of
                   Inl e \<Rightarrow> default_MarketAssessment (pai_Pipeline input)
                 | Inr m \<Rightarrow> m))
       \<and> ((\<forall>i inp. env_PipelineAnalysis wenv i inp = fst (PipelineAnalysisWorkflow (penv i) inp))
            \<longrightarrow> ''failed'' \<notin> snd ` set (pipelineProgress (after_fan_out wenv winput))
                \<and> failed_drugs (pipelineProgress (after_fan_out wenv winput)) = 0)"
proof -
  have first: "\<exists>r. fst (PipelineAnalysisWorkflow env input) = Inr r
            \<and> par_Pipeline r = pai_Pipeline input
            \<and> par_Clinical r =
                (case exec_ClinicalAssessor env
                        \<lparr>cai_Ticker = pai_Ticker input, cai_Pipeline = pai_Pipeline input\<rparr> of
                   Inl e \<Rightarrow> default_ClinicalAssessment (pai_Pipeline input)
                 | Inr c \<Rightarrow> c)
            \<and> par_Market r =
                (case exec_MarketStrategist env
                        \<lparr>msi_Ticker = pai_Ticker input, msi_Pipeline = pai_Pipeline input,
                         msi_Clinical = Some (par_Clinical r)\<rparr> of
                   Inl e \<Rightarrow> default_MarketAssessment (pai_Pipeline input)
                 | Inr m \<Rightarrow> m)"
    by (simp add: PipelineAnalysisWorkflow_def Let_def)
  have second: "''failed'' \<notin> snd ` set (pipelineProgress (after_fan_out wenv winput))
                \<and> failed_drugs (pipelineProgress (after_fan_out wenv winput)) = 0"
    if children: "\<forall>i inp. env_PipelineAnalysis wenv i inp
                     = fst (PipelineAnalysisWorkflow (penv i) inp)"
  proof -
    have "child_status wenv t ps i \<noteq> ''failed''" for t ps i
      using children
      by (simp add: child_status_def child_outcome_def PipelineAnalysisWorkflow_def Let_def)
    then have nf: "''failed'' \<notin> snd ` set (pipelineProgress (after_fan_out wenv winput))"
      unfolding after_fan_out_def
      by (intro fan_out_no_failure) (simp_all add: after_parallel_fields)
    have "snd kv \<noteq> ''failed''"
      if "kv \<in> set (pipelineProgress (after_fan_out wenv winput))" for kv
      using nf that by (metis image_eqI)
    then have "filter (\<lambda>kv. snd kv = ''failed'') (pipelineProgress (after_fan_out wenv winput)) = []"
      by (simp add: filter_empty_conv)
    then show ?thesis using nf by (simp add: failed_drugs_def)
  qed
  show ?thesis using first second by blast
qed

theorem pipeline_analysis_never_fails_witness:
  "(\<forall>i inp. env_PipelineAnalysis example_child_env i inp
              = fst (PipelineAnalysisWorkflow example_pa_env inp))
   \<and> failed_drugs (pipelineProgress (after_fan_out example_child_env example_input)) = 0
   \<and> pipelineProgress (after_fan_out example_child_env example_input)
       = [(''DrugA'', ''completed''), (''DrugB'', ''completed'')]"
proof -
  have children: "\<forall>i inp. env_PipelineAnalysis example_child_env i inp
              = fst (PipelineAnalysisWorkflow example_pa_env inp)"
    by (simp add: example_child_env_def)
  have prog: "pipelineProgress (after_fan_out example_child_env example_input)
       = [(''DrugA'', ''completed''), (''DrugB'', ''completed'')]"
    unfolding example_child_env_def by code_simp
  from pipeline_analysis_never_fails
         [of example_pa_env example_pa_input example_child_env "\<lambda>i. example_pa_env" example_input]
       children
  have "failed_drugs (pipelineProgress (after_fan_out example_child_env example_input)) = 0"
    by blast
  then show ?thesis using children prog by blast
qed

section \<open>Runs in which every step succeeds\<close>

lemma after_parallel_success:
  assumes "env_FinancialAuditor env
             \<lparr>fai_Ticker = wi_Ticker input, fai_ReportPath = wi_ReportPath input\<rparr> = Inr f"
    and "env_PipelineScout env \<lparr>psi_Ticker = wi_Ticker input, psi_CompanyURL = []\<rparr> = Inr p"
  shows "pipelineResult (after_parallel env input) = p"
    and "length (completedSteps (after_parallel env input)) = 2"
  using select_order_pair [of "env_readyA env"] assms
  by (auto simp: after_parallel_def parallel_phase_def parallel_callback_def initial_state_def)

lemma completedSteps_collect:
  "length (completedSteps (collect env t ps order s))
     = length (completedSteps s)
       + length (filter (\<lambda>i. child_status env t ps i = ''completed'') order)"
  by (induction order arbitrary: s)
     (simp_all add: collect_callback_def child_status_def child_outcome_def Let_def
        split: sum.splits)

lemma completedSteps_fan_out:
  "length (completedSteps (fan_out_phase env input s))
     = length (completedSteps s) + length (pipelineAnalyses (fan_out_phase env input s)) + 2"
  by (simp add: fan_out_phase_def Let_def completedSteps_collect analyses_collect
        start_children_fields length_successes)

lemma all_children_succeed:
  assumes "\<forall>i inp. \<exists>r. env_PipelineAnalysis env i inp = Inr r"
  shows "child_status env t ps i = ''completed''"
proof -
  obtain r where "child_outcome env t ps i = Inr r"
    using assms unfolding child_outcome_def by blast
  then show ?thesis by (simp add: child_status_def)
qed

lemma valuation_phase_fields:
  "pipelineProgress (snd (valuation_phase env input s)) = pipelineProgress s"
  by (simp add: valuation_phase_def Let_def split: sum.splits prod.splits option.splits)

lemma report_phase_fields:
  "pipelineProgress (report_phase env input s) = pipelineProgress s"
  by (simp add: report_phase_def Let_def split: sum.splits)

lemma valuation_phase_success:
  assumes "\<forall>vin. \<exists>v. env_Valuation env vin = Inr v"
  shows "fst (valuation_phase env input s) = None"
    and "length (completedSteps (snd (valuation_phase env input s)))
           = length (completedSteps s) + 1"
proof -
  obtain v where "env_Valuation env
            \<lparr>vi_Ticker = wi_Ticker input, vi_Financial = Some (financialResult s),
             vi_Clinical = Some (clinicalResult s), vi_Market = Some (marketResult s)\<rparr> = Inr v"
    using assms by blast
  then show "fst (valuation_phase env input s) = None"
    and "length (completedSteps (snd (valuation_phase env input s)))
           = length (completedSteps s) + 1"
    by (simp_all add: valuation_phase_def Let_def)
qed

lemma report_phase_success:
  assumes "\<forall>rin. \<exists>r. env_ReportGenerator env rin = Inr r"
  shows "length (completedSteps (report_phase env input s)) = length (completedSteps s) + 1"
proof -
  obtain r where "env_ReportGenerator env
            \<lparr>rgi_Ticker = wi_Ticker input, rgi_Financial = Some (financialResult s),
             rgi_Pipeline = Some (pipelineResult s), rgi_PipelineAnalyses = pipelineAnalyses s,
             rgi_Clinical = Some (clinicalResult s), rgi_Market = Some (marketResult s),
             rgi_Valuation = Some (valuationResult s)\<rparr> = Inr r"
    using assms by blast
  then show ?thesis by (simp add: report_phase_def Let_def)
qed

text \<open>
  C10. The reported percentage is not bounded by 100. In a run that is never held, in
  which the two activities of the first phase, every child workflow, the valuation and the
  report succeed, and which has n drugs of distinct names, the workflow completes and the
  query then reports 6 + n completed steps (the audit, the scan, one analysis per drug, the
  two aggregations, the valuation, the report) of a total of 4 + 2 n. With fewer than two
  drugs the percentage exceeds 100, and with none it is 150. (The quotients 6 / 4 and
  7 / 6 are taken in the reals; 6 / 4 * 100 is exact in binary64 too.)
\<close>

theorem progress_exceeds_100:
  fixes env :: "('f::{plus,zero}) wf_env"
  assumes handler: "env_SetQueryHandler env = None"
    and gates: "\<not> blocked env 1" "\<not> blocked env 2" "\<not> blocked env 3"
    and fin: "env_FinancialAuditor env
               \<lparr>fai_Ticker = wi_Ticker input, fai_ReportPath = wi_ReportPath input\<rparr> = Inr f"
    and scout: "env_PipelineScout env \<lparr>psi_Ticker = wi_Ticker input, psi_CompanyURL = []\<rparr>
                  = Inr p"
    and children: "\<forall>i inp. \<exists>r. env_PipelineAnalysis env i inp = Inr r"
    and valuation: "\<forall>vin. \<exists>v. env_Valuation env vin = Inr v"
    and report: "\<forall>rin. \<exists>r. env_ReportGenerator env rin = Inr r"
    and dist: "distinct (map dp_DrugName (pr_Pipelines p))"
  shows "\<exists>out info.
           fst (BioValueWorkflow env input) = Some (Inr out)
         \<and> fst (progress_query real_of_int (snd (BioValueWorkflow env input))) = Inr info
         \<and> length (pi_CompletedSteps info) = 6 + length (pr_Pipelines p)
         \<and> pi_TotalSteps info = 4 + 2 * int (length (pr_Pipelines p))
         \<and> (length (pr_Pipelines p) < 2 \<longrightarrow> pi_Progress info > 100)
         \<and> (length (pr_Pipelines p) = 0 \<longrightarrow> pi_Progress info = 150)"
proof -
  let ?n = "length (pr_Pipelines p)"
  let ?a = "after_parallel env input"
  let ?b = "after_fan_out env input"
  let ?t = "wi_Ticker input"
  have a: "pipelineResult ?a = p" "length (completedSteps ?a) = 2"
    using after_parallel_success [OF fin scout] by simp_all
  have a0: "pipelineProgress ?a = []" by (rule after_parallel_fields)
  have dist': "distinct (map dp_DrugName (pr_Pipelines (pipelineResult ?a)))"
    using dist a(1) by simp
  have b_def: "?b = fan_out_phase env input ?a" by (simp add: after_fan_out_def)
  have "pipelineProgress ?b
      = map (\<lambda>j. (dp_DrugName (pr_Pipelines p ! j), child_status env ?t (pr_Pipelines p) j))
          [0..<?n]"
    unfolding b_def using fan_out_progress [OF a0 dist', of env input] a(1) by simp
  then have b_prog: "length (pipelineProgress ?b) = ?n" by simp
  have "length (pipelineAnalyses ?b) + failed_drugs (pipelineProgress ?b) = ?n"
    unfolding b_def using fan_out_counts [OF a0 dist', of env input] a(1) by simp
  moreover have "failed_drugs (pipelineProgress ?b) = 0"
  proof -
    have "\<forall>i. child_status env ?t (pr_Pipelines (pipelineResult ?a)) i \<noteq> ''failed''"
      using all_children_succeed [OF children] by simp
    then have nf: "''failed'' \<notin> snd ` set (pipelineProgress ?b)"
      unfolding b_def by (intro fan_out_no_failure a0)
    have "snd kv \<noteq> ''failed''" if "kv \<in> set (pipelineProgress ?b)" for kv
      using nf that by (metis image_eqI)
    then have "filter (\<lambda>kv. snd kv = ''failed'') (pipelineProgress ?b) = []"
      by (simp add: filter_empty_conv)
    then show ?thesis by (simp add: failed_drugs_def)
  qed
  ultimately have b_an: "length (pipelineAnalyses ?b) = ?n" by simp
  have b_steps: "length (completedSteps ?b) = 4 + ?n"
    unfolding b_def using completedSteps_fan_out [of env input ?a] a(2) b_an
    by (simp add: b_def)
  obtain s3 where v: "after_valuation env input = (None, s3)"
    using valuation_phase_success(1) [OF valuation, of input ?b]
    by (cases "after_valuation env input") (simp add: after_valuation_def)
  have s3: "s3 = snd (valuation_phase env input ?b)"
    using v by (simp add: after_valuation_def)
  have s3_steps: "length (completedSteps s3) = 5 + ?n"
    unfolding s3 using valuation_phase_success(2) [OF valuation, of input ?b] b_steps by simp
  have s3_prog: "length (pipelineProgress s3) = ?n"
    unfolding s3 using b_prog by (simp add: valuation_phase_fields)
  let ?s4 = "report_phase env input s3"
  let ?s5 = "?s4\<lparr>output := (output ?s4)\<lparr>wo_CompletedAt := env_Now env\<rparr>\<rparr>"
  have res: "BioValueWorkflow env input = (Some (Inr (output ?s5)), ?s5)"
    using handler gates v by (simp add: BioValueWorkflow_def Let_def)
  have steps: "length (completedSteps ?s5) = 6 + ?n"
    using report_phase_success [OF report, of input s3] s3_steps by simp
  have prog: "length (pipelineProgress ?s5) = ?n"
    using s3_prog by (simp add: report_phase_fields)
  let ?info = "\<lparr>pi_CurrentAgent = currentAgent ?s5,
               pi_CompletedSteps = completedSteps ?s5,
               pi_TotalSteps = 4 + int (length (pipelineProgress ?s5)) * 2,
               pi_Progress = real_of_int (int (length (completedSteps ?s5)))
                   / real_of_int (4 + int (length (pipelineProgress ?s5)) * 2) * 100,
               pi_PipelineProgress = pipelineProgress ?s5\<rparr>"
  have q: "fst (progress_query real_of_int ?s5) = Inr ?info"
    by (simp add: progress_query_def Let_def)
  have p_eq: "pi_Progress ?info = real (6 + ?n) / real_of_int (4 + int ?n * 2) * 100"
    using steps prog by simp
  have big: "pi_Progress ?info > 100" if "?n < 2"
  proof -
    from that have "?n = 0 \<or> ?n = 1" by arith
    then show ?thesis unfolding p_eq by (elim disjE) simp_all
  qed
  have zero: "pi_Progress ?info = 150" if "?n = 0"
    unfolding p_eq using that by simp
  have "fst (BioValueWorkflow env input) = Some (Inr (output ?s5))
         \<and> fst (progress_query real_of_int (snd (BioValueWorkflow env input))) = Inr ?info
         \<and> length (pi_CompletedSteps ?info) = 6 + ?n
         \<and> pi_TotalSteps ?info = 4 + 2 * int ?n
         \<and> (?n < 2 \<longrightarrow> pi_Progress ?info > 100)
         \<and> (?n = 0 \<longrightarrow> pi_Progress ?info = 150)"
    using res q steps prog big zero by simp
  then show ?thesis by blast
qed

text \<open>
  The run without drugs reports 150; the run with the single drug DrugA completes seven
  steps of six.
\<close>

theorem progress_exceeds_100_witness:
  "env_SetQueryHandler example_empty_env = None
   \<and> \<not> blocked example_empty_env 1 \<and> \<not> blocked example_empty_env 2
   \<and> \<not> blocked example_empty_env 3
   \<and> env_FinancialAuditor example_empty_env
         \<lparr>fai_Ticker = wi_Ticker example_input, fai_ReportPath = wi_ReportPath example_input\<rparr>
       = Inr (zero_FinancialResult\<lparr>fr_Ticker := ''BGNE''\<rparr>)
   \<and> env_PipelineScout example_empty_env
         \<lparr>psi_Ticker = wi_Ticker example_input, psi_CompanyURL = []\<rparr>
       = Inr \<lparr>pr_Ticker = ''BGNE'', pr_Pipelines = [], pr_DataAsOf = 0\<rparr>
   \<and> (\<forall>i inp. \<exists>r. env_PipelineAnalysis example_empty_env i inp = Inr r)
   \<and> (\<forall>vin. \<exists>v. env_Valuation example_empty_env vin = Inr v)
   \<and> (\<forall>rin. \<exists>r. env_ReportGenerator example_empty_env rin = Inr r)
   \<and> (\<exists>out info.
         fst (BioValueWorkflow example_empty_env example_input) = Some (Inr out)
       \<and> fst (progress_query real_of_int (snd (BioValueWorkflow example_empty_env example_input))) = Inr info
       \<and> length (pi_CompletedSteps info) = 6
       \<and> pi_TotalSteps info = 4
       \<and> pi_Progress info = 150)
   \<and> completedSteps (snd (BioValueWorkflow example_empty_env example_input))
       = [''FinancialAuditor'', ''PipelineScout'', ''ClinicalAggregation'',
          ''MarketAggregation'', ''ValuationActuary'', ''ReportGenerator'']
   \<and> (\<exists>info. fst (progress_query real_of_int (snd (BioValueWorkflow example_single_env example_input)))
                 = Inr info
       \<and> pi_CompletedSteps info
           = [''FinancialAuditor'', ''PipelineScout'', ''PipelineAnalysis:DrugA'',
              ''ClinicalAggregation'', ''MarketAggregation'', ''ValuationActuary'',
              ''ReportGenerator'']
       \<and> pi_TotalSteps info = 6
       \<and> pi_Progress info > 100)"
proof -
  have handler: "env_SetQueryHandler example_empty_env = None"
    by (simp add: example_empty_env_def example_env_def)
  have gates: "\<not> blocked example_empty_env 1" "\<not> blocked example_empty_env 2"
    "\<not> blocked example_empty_env 3"
    by (simp_all add: blocked_def example_empty_env_def example_env_def)
  have fin: "env_FinancialAuditor example_empty_env
         \<lparr>fai_Ticker = wi_Ticker example_input, fai_ReportPath = wi_ReportPath example_input\<rparr>
       = Inr (zero_FinancialResult\<lparr>fr_Ticker := ''BGNE''\<rparr>)"
    by (simp add: example_empty_env_def example_env_def example_input_def)
  have scout: "env_PipelineScout example_empty_env
         \<lparr>psi_Ticker = wi_Ticker example_input, psi_CompanyURL = []\<rparr>
       = Inr \<lparr>pr_Ticker = ''BGNE'', pr_Pipelines = [], pr_DataAsOf = 0\<rparr>"
    by (simp add: example_empty_env_def example_env_def example_input_def)
  have children: "\<forall>i inp. \<exists>r. env_PipelineAnalysis example_empty_env i inp = Inr r"
    by (simp add: example_empty_env_def example_env_def)
  have valuation: "\<forall>vin. \<exists>v. env_Valuation example_empty_env vin = Inr v"
    by (simp add: example_empty_env_def example_env_def)
  have report: "\<forall>rin. \<exists>r. env_ReportGenerator example_empty_env rin = Inr r"
    by (simp add: example_empty_env_def example_env_def)
  have dist: "distinct (map dp_DrugName
                (pr_Pipelines \<lparr>pr_Ticker = ''BGNE'', pr_Pipelines = [], pr_DataAsOf = 0\<rparr>))"
    by simp
  from progress_exceeds_100 [OF handler gates fin scout children valuation report dist]
  have run: "\<exists>out info.
         fst (BioValueWorkflow example_empty_env example_input) = Some (Inr out)
       \<and> fst (progress_query real_of_int (snd (BioValueWorkflow example_empty_env example_input))) = Inr info
       \<and> length (pi_CompletedSteps info) = 6
       \<and> pi_TotalSteps info = 4
       \<and> pi_Progress info = 150"
    by simp blast
  have e1: "completedSteps (snd (BioValueWorkflow example_empty_env example_input))
          = [''FinancialAuditor'', ''PipelineScout'', ''ClinicalAggregation'',
             ''MarketAggregation'', ''ValuationActuary'', ''ReportGenerator'']"
    unfolding example_empty_env_def by code_simp
  have s1: "completedSteps (snd (BioValueWorkflow example_single_env example_input))
          = [''FinancialAuditor'', ''PipelineScout'', ''PipelineAnalysis:DrugA'',
             ''ClinicalAggregation'', ''MarketAggregation'', ''ValuationActuary'',
             ''ReportGenerator'']"
    unfolding example_single_env_def by code_simp
  have s2: "pipelineProgress (snd (BioValueWorkflow example_single_env example_input))
          = [(''DrugA'', ''completed'')]"
    unfolding example_single_env_def by code_simp
  have single: "\<exists>info. fst (progress_query real_of_int (snd (BioValueWorkflow example_single_env example_input)))
                 = Inr info
       \<and> pi_CompletedSteps info
           = [''FinancialAuditor'', ''PipelineScout'', ''PipelineAnalysis:DrugA'',
              ''ClinicalAggregation'', ''MarketAggregation'', ''ValuationActuary'',
              ''ReportGenerator'']
       \<and> pi_TotalSteps info = 6
       \<and> pi_Progress info > 100"
    using s1 s2 by (simp add: progress_query_def Let_def)
  show ?thesis
    using handler gates fin scout children valuation report run e1 single by blast
qed

text \<open>
  The progress map of a run keeps pairwise distinct keys, so the length of the association
  list is the \<^verbatim>\<open>len\<close> of the Go map.
\<close>

lemma keys_distinct_after_fan_out:
  "distinct (map fst (pipelineProgress (after_fan_out env input)))"
proof -
  have init: "distinct (map fst m) \<Longrightarrow> distinct (map fst (init_progress ps m))" for ps m
    by (induction ps arbitrary: m) (simp_all add: distinct_update)
  have start: "distinct (map fst (pipelineProgress s)) \<Longrightarrow>
               distinct (map fst (pipelineProgress (start_children t r i ps s)))" for t r i ps s
    by (induction ps arbitrary: i s) (simp_all add: distinct_update)
  have coll: "distinct (map fst (pipelineProgress s)) \<Longrightarrow>
              distinct (map fst (pipelineProgress (collect env t ps order s)))" for t ps order s
    by (induction order arbitrary: s) (simp_all add: progress_callback distinct_update)
  show ?thesis
    unfolding after_fan_out_def fan_out_progress_raw
    by (intro coll start) (simp add: init after_parallel_fields)
qed

section \<open>Properties of the activities\<close>

lemma corruptedD:
  assumes "corrupted cache key unmarshal"
  obtains cached perr where "cache_Get cache key = (cached, None)" "cached \<noteq> []"
    "unmarshal cached = Inl perr" "reachable cache"
proof -
  obtain cached err where g: "cache_Get cache key = (cached, err)"
    by (cases "cache_Get cache key")
  with assms have e: "err = None" "cached \<noteq> []" "isl (unmarshal cached)"
    by (simp_all add: corrupted_def)
  then obtain perr where p: "unmarshal cached = Inl perr"
    by (cases "unmarshal cached") simp_all
  have "reachable cache"
    using g e(2) by (auto simp: cache_Get_def client_Get_def split: if_splits option.splits)
  with g e p that show thesis by simp
qed

lemma cache_Get_evict:
  "reachable cache \<Longrightarrow> cache_Get (evict cache key) key = ([], None)"
  by (simp add: cache_Get_def client_Get_def evict_def)

lemma entries_cache_Set:
  "reachable cache \<Longrightarrow> entries (snd (cache_Set cache key v ttl)) key = Some (v, ttl)"
  by (simp add: cache_Set_def client_Set_def)

lemma FinancialAuditor_compute_result:
  "fst (FinancialAuditor_compute env c1 input key e1)
     = fst (FinancialAuditor_compute env c2 input key e2)"
  by (simp add: FinancialAuditor_compute_def Let_def split: sum.splits prod.splits)

lemma FinancialAuditor_compute_ran:
  "ran_inference (snd (snd (FinancialAuditor_compute env c input key evs)))"
  by (auto simp: FinancialAuditor_compute_def ran_inference_def Let_def
        split: sum.splits prod.splits)

lemma FinancialAuditor_compute_events:
  "snd (snd (FinancialAuditor_compute env c1 input key evs))
     = evs @ snd (snd (FinancialAuditor_compute env c2 input key []))"
  by (simp add: FinancialAuditor_compute_def Let_def split: sum.splits prod.splits)

lemma FinancialAuditor_compute_cached:
  "reachable c \<Longrightarrow> fst (FinancialAuditor_compute env c input key e) = Inr r \<Longrightarrow>
   entries (fst (snd (FinancialAuditor_compute env c input key e))) key
     = Some (ae_marshalFinancial env r, 24 * hour)"
  by (auto simp: FinancialAuditor_compute_def Let_def cache_Set_def client_Set_def
        split: sum.splits prod.splits)

lemma PipelineScout_compute_result:
  "fst (PipelineScout_compute env c1 input key e1)
     = fst (PipelineScout_compute env c2 input key e2)"
  by (simp add: PipelineScout_compute_def Let_def split: sum.splits prod.splits option.splits)

lemma PipelineScout_compute_events:
  "snd (snd (PipelineScout_compute env c1 input key evs))
     = evs @ snd (snd (PipelineScout_compute env c2 input key []))"
  by (simp add: PipelineScout_compute_def Let_def split: sum.splits prod.splits option.splits)

lemma PipelineScout_compute_cached:
  "reachable c \<Longrightarrow> fst (PipelineScout_compute env c input key e) = Inr r \<Longrightarrow>
   entries (fst (snd (PipelineScout_compute env c input key e))) key
     = Some (ae_marshalPipelineResult env r, 24 * hour)"
  by (auto simp: PipelineScout_compute_def Let_def cache_Set_def client_Set_def
        split: sum.splits prod.splits option.splits)

lemma PipelineScout_compute_ran:
  "ran_inference (snd (snd (PipelineScout_compute env c input key evs)))"
  by (auto simp: PipelineScout_compute_def ran_inference_def Let_def
        split: sum.splits prod.splits)

lemma ClinicalAssessor_compute_result:
  "fst (ClinicalAssessor_compute env c1 input key e1)
     = fst (ClinicalAssessor_compute env c2 input key e2)"
  by (simp add: ClinicalAssessor_compute_def Let_def split: sum.splits prod.splits option.splits)

lemma ClinicalAssessor_compute_events:
  "snd (snd (ClinicalAssessor_compute env c1 input key evs))
     = evs @ snd (snd (ClinicalAssessor_compute env c2 input key []))"
  by (simp add: ClinicalAssessor_compute_def Let_def split: sum.splits prod.splits option.splits)

lemma ClinicalAssessor_compute_cached:
  "reachable c \<Longrightarrow> fst (ClinicalAssessor_compute env c input key e) = Inr r \<Longrightarrow>
   entries (fst (snd (ClinicalAssessor_compute env c input key e))) key
     = Some (ae_marshalClinical env r, 12 * hour)"
  by (auto simp: ClinicalAssessor_compute_def Let_def cache_Set_def client_Set_def
        split: sum.splits prod.splits option.splits)

lemma ClinicalAssessor_compute_ran:
  "ran_inference (snd (snd (ClinicalAssessor_compute env c input key evs)))"
  by (auto simp: ClinicalAssessor_compute_def ran_inference_def Let_def
        split: sum.splits prod.splits)

lemma MarketStrategist_compute_result:
  "fst (MarketStrategist_compute env c1 input key e1)
     = fst (MarketStrategist_compute env c2 input key e2)"
  by (simp add: MarketStrategist_compute_def Let_def split: sum.splits prod.splits option.splits)

lemma MarketStrategist_compute_events:
  "snd (snd (MarketStrategist_compute env c1 input key evs))
     = evs @ snd (snd (MarketStrategist_compute env c2 input key []))"
  by (simp add: MarketStrategist_compute_def Let_def split: sum.splits prod.splits option.splits)

lemma MarketStrategist_compute_cached:
  "reachable c \<Longrightarrow> fst (MarketStrategist_compute env c input key e) = Inr r \<Longrightarrow>
   entries (fst (snd (MarketStrategist_compute env c input key e))) key
     = Some (ae_marshalMarket env r, 6 * hour)"
  by (auto simp: MarketStrategist_compute_def Let_def cache_Set_def client_Set_def
        split: sum.splits prod.splits option.splits)

lemma MarketStrategist_compute_ran:
  "msi_Clinical input \<noteq> None \<Longrightarrow>
   ran_inference (snd (snd (MarketStrategist_compute env c input key evs)))"
  by (auto simp: MarketStrategist_compute_def ran_inference_def Let_def
        split: sum.splits prod.splits)

lemma FinancialAuditor_corrupted:
  assumes "corrupted cache (financials_key input) (ae_unmarshalFinancial env)"
  shows "FinancialAuditorActivity env cache input
           = FinancialAuditor_compute env cache input (financials_key input) [MetricCacheHit]"
    and "FinancialAuditorActivity env (evict cache (financials_key input)) input
           = FinancialAuditor_compute env (evict cache (financials_key input)) input (financials_key input) []"
    and "reachable cache"
proof -
  from assms obtain cached perr where
    c: "cache_Get cache (financials_key input) = (cached, None)"
       "cached \<noteq> []" "ae_unmarshalFinancial env cached = Inl perr" "reachable cache"
    by (rule corruptedD)
  show "FinancialAuditorActivity env cache input
           = FinancialAuditor_compute env cache input (financials_key input) [MetricCacheHit]"
    using c by (simp add: FinancialAuditorActivity_def financials_key_def Let_def)
  show "FinancialAuditorActivity env (evict cache (financials_key input)) input
           = FinancialAuditor_compute env (evict cache (financials_key input)) input (financials_key input) []"
    using cache_Get_evict [OF c(4), of "financials_key input"]
    by (simp add: FinancialAuditorActivity_def financials_key_def Let_def)
  show "reachable cache" by (rule c(4))
qed

lemma PipelineScout_corrupted:
  assumes "corrupted cache (pipeline_key input) (ae_unmarshalPipelineResult env)"
  shows "PipelineScoutActivity env cache input
           = PipelineScout_compute env cache input (pipeline_key input) [MetricCacheHit]"
    and "PipelineScoutActivity env (evict cache (pipeline_key input)) input
           = PipelineScout_compute env (evict cache (pipeline_key input)) input (pipeline_key input) []"
    and "reachable cache"
proof -
  from assms obtain cached perr where
    c: "cache_Get cache (pipeline_key input) = (cached, None)"
       "cached \<noteq> []" "ae_unmarshalPipelineResult env cached = Inl perr" "reachable cache"
    by (rule corruptedD)
  show "PipelineScoutActivity env cache input
           = PipelineScout_compute env cache input (pipeline_key input) [MetricCacheHit]"
    using c by (simp add: PipelineScoutActivity_def pipeline_key_def Let_def)
  show "PipelineScoutActivity env (evict cache (pipeline_key input)) input
           = PipelineScout_compute env (evict cache (pipeline_key input)) input (pipeline_key input) []"
    using cache_Get_evict [OF c(4), of "pipeline_key input"]
    by (simp add: PipelineScoutActivity_def pipeline_key_def Let_def)
  show "reachable cache" by (rule c(4))
qed

lemma ClinicalAssessor_corrupted:
  assumes "corrupted cache (clinical_key input) (ae_unmarshalClinical env)"
  shows "ClinicalAssessorActivity env cache input
           = ClinicalAssessor_compute env cache input (clinical_key input) []"
    and "ClinicalAssessorActivity env (evict cache (clinical_key input)) input
           = ClinicalAssessor_compute env (evict cache (clinical_key input)) input (clinical_key input) []"
    and "reachable cache"
proof -
  from assms obtain cached perr where
    c: "cache_Get cache (clinical_key input) = (cached, None)"
       "cached \<noteq> []" "ae_unmarshalClinical env cached = Inl perr" "reachable cache"
    by (rule corruptedD)
  show "ClinicalAssessorActivity env cache input
           = ClinicalAssessor_compute env cache input (clinical_key input) []"
    using c by (simp add: ClinicalAssessorActivity_def clinical_key_def Let_def)
  show "ClinicalAssessorActivity env (evict cache (clinical_key input)) input
           = ClinicalAssessor_compute env (evict cache (clinical_key input)) input (clinical_key input) []"
    using cache_Get_evict [OF c(4), of "clinical_key input"]
    by (simp add: ClinicalAssessorActivity_def clinical_key_def Let_def)
  show "reachable cache" by (rule c(4))
qed

lemma MarketStrategist_corrupted:
  assumes "corrupted cache (market_key input) (ae_unmarshalMarket env)"
  shows "MarketStrategistActivity env cache input
           = MarketStrategist_compute env cache input (market_key input) []"
    and "MarketStrategistActivity env (evict cache (market_key input)) input
           = MarketStrategist_compute env (evict cache (market_key input)) input (market_key input) []"
    and "reachable cache"
proof -
  from assms obtain cached perr where
    c: "cache_Get cache (market_key input) = (cached, None)"
       "cached \<noteq> []" "ae_unmarshalMarket env cached = Inl perr" "reachable cache"
    by (rule corruptedD)
  show "MarketStrategistActivity env cache input
           = MarketStrategist_compute env cache input (market_key input) []"
    using c by (simp add: MarketStrategistActivity_def market_key_def Let_def)
  show "MarketStrategistActivity env (evict cache (market_key input)) input
           = MarketStrategist_compute env (evict cache (market_key input)) input (market_key input) []"
    using cache_Get_evict [OF c(4), of "market_key input"]
    by (simp add: MarketStrategistActivity_def market_key_def Let_def)
  show "reachable cache" by (rule c(4))
qed

text \<open>
  C6. In each of the four cacheable activities (financial audit, pipeline scan, clinical
  assessment, market analysis) a cached value that is read but does not parse is treated
  as a miss. The activity counts the miss, sends its request to the LLM and returns what
  is computed from the answer: the error of the inference or of the parse, with the cache
  as it was, or the parsed answer with the fields of the input written over it, and then
  the entry holds the recomputed result with the TTL of its namespace (the market analysis
  panics before the request when the clinical input is nil, which no call of the workflow
  does). This is what the activity returns when the entry is absent, with the same events
  (the two activities that count the hit before parsing count it, and nothing else
  differs).
\<close>

theorem corrupted_cache_is_miss:
  fixes env :: "'f act_env"
  shows
    "(corrupted cache (financials_key fin) (ae_unmarshalFinancial env) \<longrightarrow>
        FinancialAuditorActivity env cache fin
          = (case ae_Infer env (financial_request env fin) of
               Inl err \<Rightarrow>
                 (Inl (Errorf ''LLM inference failed'' err), cache,
                  [MetricCacheHit, MetricCacheMiss,
                   RecordHeartbeat ''Analyzing financial report...'',
                   Infer (financial_request env fin)])
             | Inr response \<Rightarrow>
                 (case ae_unmarshalFinancial env (resp_FinalAnswer response) of
                    Inl err \<Rightarrow>
                      (Inl (Errorf ''failed to parse LLM response'' err), cache,
                       [MetricCacheHit, MetricCacheMiss,
                        RecordHeartbeat ''Analyzing financial report...'',
                        Infer (financial_request env fin)])
                  | Inr parsed \<Rightarrow>
                      (Inr (parsed\<lparr>fr_Ticker := fai_Ticker fin, fr_UpdatedAt := ae_Now env 0\<rparr>),
                       cache\<lparr>entries := (entries cache)
                          (financials_key fin \<mapsto>
                             (ae_marshalFinancial env
                                (parsed\<lparr>fr_Ticker := fai_Ticker fin,
                                         fr_UpdatedAt := ae_Now env 0\<rparr>),
                              24 * hour))\<rparr>,
                       [MetricCacheHit, MetricCacheMiss,
                        RecordHeartbeat ''Analyzing financial report...'',
                        Infer (financial_request env fin),
                        CacheSet (financials_key fin)
                          (ae_marshalFinancial env
                             (parsed\<lparr>fr_Ticker := fai_Ticker fin,
                                      fr_UpdatedAt := ae_Now env 0\<rparr>))
                          (24 * hour)])))
      \<and> fst (FinancialAuditorActivity env cache fin)
          = fst (FinancialAuditorActivity env (evict cache (financials_key fin)) fin)
      \<and> snd (snd (FinancialAuditorActivity env cache fin))
          = MetricCacheHit
              # snd (snd (FinancialAuditorActivity env (evict cache (financials_key fin)) fin))
      \<and> ran_inference (snd (snd (FinancialAuditorActivity env cache fin)))
      \<and> (\<forall>r. fst (FinancialAuditorActivity env cache fin) = Inr r \<longrightarrow>
             entries (fst (snd (FinancialAuditorActivity env cache fin))) (financials_key fin)
               = Some (ae_marshalFinancial env r, 24 * hour)))
   \<and> (corrupted cache (pipeline_key scout) (ae_unmarshalPipelineResult env) \<longrightarrow>
        PipelineScoutActivity env cache scout
          = (case ae_Infer env (scout_request env scout) of
               Inl err \<Rightarrow>
                 (Inl (Errorf ''LLM inference failed'' err), cache,
                  [MetricCacheHit, MetricCacheMiss,
                   RecordHeartbeat ''Scanning drug pipelines...'',
                   Infer (scout_request env scout)])
             | Inr response \<Rightarrow>
                 (case ae_unmarshalPipelines env (resp_FinalAnswer response) of
                    Inl err \<Rightarrow>
                      (Inl (Errorf ''failed to parse pipeline data'' err), cache,
                       [MetricCacheHit, MetricCacheMiss,
                        RecordHeartbeat ''Scanning drug pipelines...'',
                        Infer (scout_request env scout)])
                  | Inr pipelines \<Rightarrow>
                      (Inr \<lparr>pr_Ticker = psi_Ticker scout, pr_Pipelines = pipelines,
                            pr_DataAsOf = ae_Now env 1\<rparr>,
                       cache\<lparr>entries := (entries cache)
                          (pipeline_key scout \<mapsto>
                             (ae_marshalPipelineResult env
                                \<lparr>pr_Ticker = psi_Ticker scout, pr_Pipelines = pipelines,
                                 pr_DataAsOf = ae_Now env 1\<rparr>,
                              24 * hour))\<rparr>,
                       [MetricCacheHit, MetricCacheMiss,
                        RecordHeartbeat ''Scanning drug pipelines...'',
                        Infer (scout_request env scout),
                        CacheSet (pipeline_key scout)
                          (ae_marshalPipelineResult env
                             \<lparr>pr_Ticker = psi_Ticker scout, pr_Pipelines = pipelines,
                              pr_DataAsOf = ae_Now env 1\<rparr>)
                          (24 * hour)])))
      \<and> fst (PipelineScoutActivity env cache scout)
          = fst (PipelineScoutActivity env (evict cache (pipeline_key scout)) scout)
      \<and> snd (snd (PipelineScoutActivity env cache scout))
          = MetricCacheHit
              # snd (snd (PipelineScoutActivity env (evict cache (pipeline_key scout)) scout))
      \<and> ran_inference (snd (snd (PipelineScoutActivity env cache scout)))
      \<and> (\<forall>r. fst (PipelineScoutActivity env cache scout) = Inr r \<longrightarrow>
             entries (fst (snd (PipelineScoutActivity env cache scout))) (pipeline_key scout)
               = Some (ae_marshalPipelineResult env r, 24 * hour)))
   \<and> (corrupted cache (clinical_key clin) (ae_unmarshalClinical env) \<longrightarrow>
        ClinicalAssessorActivity env cache clin
          = (case ae_Infer env (clinical_request env clin) of
               Inl err \<Rightarrow>
                 (Inl (Errorf (''LLM inference failed for '' @ dp_DrugName (cai_Pipeline clin))
                         err),
                  cache,
                  [MetricCacheMiss,
                   RecordHeartbeat (''Assessing clinical competitiveness for ''
                                      @ dp_DrugName (cai_Pipeline clin) @ ''...''),
                   Infer (clinical_request env clin)])
             | Inr response \<Rightarrow>
                 (case ae_unmarshalClinical env (resp_FinalAnswer response) of
                    Inl err \<Rightarrow>
                      (Inl (Errorf (''failed to parse clinical assessment for ''
                                      @ dp_DrugName (cai_Pipeline clin)) err),
                       cache,
                       [MetricCacheMiss,
                        RecordHeartbeat (''Assessing clinical competitiveness for ''
                                           @ dp_DrugName (cai_Pipeline clin) @ ''...''),
                        Infer (clinical_request env clin)])
                  | Inr parsed \<Rightarrow>
                      (Inr (parsed\<lparr>ca_DrugName := dp_DrugName (cai_Pipeline clin),
                                    ca_Target := dp_Target (cai_Pipeline clin),
                                    ca_Indication := dp_Indication (cai_Pipeline clin),
                                    ca_Phase := dp_Phase (cai_Pipeline clin)\<rparr>),
                       cache\<lparr>entries := (entries cache)
                          (clinical_key clin \<mapsto>
                             (ae_marshalClinical env
                                (parsed\<lparr>ca_DrugName := dp_DrugName (cai_Pipeline clin),
                                         ca_Target := dp_Target (cai_Pipeline clin),
                                         ca_Indication := dp_Indication (cai_Pipeline clin),
                                         ca_Phase := dp_Phase (cai_Pipeline clin)\<rparr>),
                              12 * hour))\<rparr>,
                       [MetricCacheMiss,
                        RecordHeartbeat (''Assessing clinical competitiveness for ''
                                           @ dp_DrugName (cai_Pipeline clin) @ ''...''),
                        Infer (clinical_request env clin),
                        CacheSet (clinical_key clin)
                          (ae_marshalClinical env
                             (parsed\<lparr>ca_DrugName := dp_DrugName (cai_Pipeline clin),
                                      ca_Target := dp_Target (cai_Pipeline clin),
                                      ca_Indication := dp_Indication (cai_Pipeline clin),
                                      ca_Phase := dp_Phase (cai_Pipeline clin)\<rparr>))
                          (12 * hour)])))
      \<and> fst (ClinicalAssessorActivity env cache clin)
          = fst (ClinicalAssessorActivity env (evict cache (clinical_key clin)) clin)
      \<and> snd (snd (ClinicalAssessorActivity env cache clin))
          = snd (snd (ClinicalAssessorActivity env (evict cache (clinical_key clin)) clin))
      \<and> ran_inference (snd (snd (ClinicalAssessorActivity env cache clin)))
      \<and> (\<forall>r. fst (ClinicalAssessorActivity env cache clin) = Inr r \<longrightarrow>
             entries (fst (snd (ClinicalAssessorActivity env cache clin))) (clinical_key clin)
               = Some (ae_marshalClinical env r, 12 * hour)))
   \<and> (corrupted cache (market_key mkt) (ae_unmarshalMarket env) \<longrightarrow>
        MarketStrategistActivity env cache mkt
          = (case msi_Clinical mkt of
               None \<Rightarrow>
                 (Inl (ErrOther ''panic: nil pointer dereference''), cache,
                  [MetricCacheMiss,
                   RecordHeartbeat (''Analyzing market for '' @ dp_DrugName (msi_Pipeline mkt)
                                      @ ''...'')])
             | Some clinical \<Rightarrow>
                 (case ae_Infer env (market_request env mkt clinical) of
                    Inl err \<Rightarrow>
                      (Inl (Errorf (''LLM inference failed for ''
                                      @ dp_DrugName (msi_Pipeline mkt)) err),
                       cache,
                       [MetricCacheMiss,
                        RecordHeartbeat (''Analyzing market for ''
                                           @ dp_DrugName (msi_Pipeline mkt) @ ''...''),
                        Infer (market_request env mkt clinical)])
                  | Inr response \<Rightarrow>
                      (case ae_unmarshalMarket env (resp_FinalAnswer response) of
                         Inl err \<Rightarrow>
                           (Inl (Errorf (''failed to parse market assessment for ''
                                           @ dp_DrugName (msi_Pipeline mkt)) err),
                            cache,
                            [MetricCacheMiss,
                             RecordHeartbeat (''Analyzing market for ''
                                                @ dp_DrugName (msi_Pipeline mkt) @ ''...''),
                             Infer (market_request env mkt clinical)])
                       | Inr parsed \<Rightarrow>
                           (Inr (parsed\<lparr>ma_DrugName := dp_DrugName (msi_Pipeline mkt),
                                         ma_Target := dp_Target (msi_Pipeline mkt),
                                         ma_Indication := dp_Indication (msi_Pipeline mkt)\<rparr>),
                            cache\<lparr>entries := (entries cache)
                               (market_key mkt \<mapsto>
                                  (ae_marshalMarket env
                                     (parsed\<lparr>ma_DrugName := dp_DrugName (msi_Pipeline mkt),
                                              ma_Target := dp_Target (msi_Pipeline mkt),
                                              ma_Indication :=
                                                dp_Indication (msi_Pipeline mkt)\<rparr>),
                                   6 * hour))\<rparr>,
                            [MetricCacheMiss,
                             RecordHeartbeat (''Analyzing market for ''
                                                @ dp_DrugName (msi_Pipeline mkt) @ ''...''),
                             Infer (market_request env mkt clinical),
                             CacheSet (market_key mkt)
                               (ae_marshalMarket env
                                  (parsed\<lparr>ma_DrugName := dp_DrugName (msi_Pipeline mkt),
                                           ma_Target := dp_Target (msi_Pipeline mkt),
                                           ma_Indication :=
                                             dp_Indication (msi_Pipeline mkt)\<rparr>))
                               (6 * hour)]))))
      \<and> fst (MarketStrategistActivity env cache mkt)
          = fst (MarketStrategistActivity env (evict cache (market_key mkt)) mkt)
      \<and> snd (snd (MarketStrategistActivity env cache mkt))
          = snd (snd (MarketStrategistActivity env (evict cache (market_key mkt)) mkt))
      \<and> (msi_Clinical mkt \<noteq> None \<longrightarrow>
            ran_inference (snd (snd (MarketStrategistActivity env cache mkt))))
      \<and> (\<forall>r. fst (MarketStrategistActivity env cache mkt) = Inr r \<longrightarrow>
             entries (fst (snd (MarketStrategistActivity env cache mkt))) (market_key mkt)
               = Some (ae_marshalMarket env r, 6 * hour)))"
proof (intro conjI impI allI)
  assume c: "corrupted cache (financials_key fin) (ae_unmarshalFinancial env)"
  note f = FinancialAuditor_corrupted [OF c]
  show "FinancialAuditorActivity env cache fin
          = (case ae_Infer env (financial_request env fin) of
               Inl err \<Rightarrow>
                 (Inl (Errorf ''LLM inference failed'' err), cache,
                  [MetricCacheHit, MetricCacheMiss,
                   RecordHeartbeat ''Analyzing financial report...'',
                   Infer (financial_request env fin)])
             | Inr response \<Rightarrow>
                 (case ae_unmarshalFinancial env (resp_FinalAnswer response) of
                    Inl err \<Rightarrow>
                      (Inl (Errorf ''failed to parse LLM response'' err), cache,
                       [MetricCacheHit, MetricCacheMiss,
                        RecordHeartbeat ''Analyzing financial report...'',
                        Infer (financial_request env fin)])
                  | Inr parsed \<Rightarrow>
                      (Inr (parsed\<lparr>fr_Ticker := fai_Ticker fin, fr_UpdatedAt := ae_Now env 0\<rparr>),
                       cache\<lparr>entries := (entries cache)
                          (financials_key fin \<mapsto>
                             (ae_marshalFinancial env
                                (parsed\<lparr>fr_Ticker := fai_Ticker fin,
                                         fr_UpdatedAt := ae_Now env 0\<rparr>),
                              24 * hour))\<rparr>,
                       [MetricCacheHit, MetricCacheMiss,
                        RecordHeartbeat ''Analyzing financial report...'',
                        Infer (financial_request env fin),
                        CacheSet (financials_key fin)
                          (ae_marshalFinancial env
                             (parsed\<lparr>fr_Ticker := fai_Ticker fin,
                                      fr_UpdatedAt := ae_Now env 0\<rparr>))
                          (24 * hour)])))"
    unfolding f(1) using f(3)
    by (simp add: FinancialAuditor_compute_def financial_request_def Let_def cache_Set_def
          client_Set_def split: sum.splits)
  show "fst (FinancialAuditorActivity env cache fin)
          = fst (FinancialAuditorActivity env (evict cache (financials_key fin)) fin)"
    unfolding f(1,2) by (rule FinancialAuditor_compute_result)
  show "snd (snd (FinancialAuditorActivity env cache fin))
          = MetricCacheHit
              # snd (snd (FinancialAuditorActivity env (evict cache (financials_key fin)) fin))"
    unfolding f(1,2)
    using FinancialAuditor_compute_events
      [of env cache fin "financials_key fin" "[MetricCacheHit]" "evict cache (financials_key fin)"]
    by simp
  show "ran_inference (snd (snd (FinancialAuditorActivity env cache fin)))"
    unfolding f(1) by (rule FinancialAuditor_compute_ran)
  show "entries (fst (snd (FinancialAuditorActivity env cache fin))) (financials_key fin)
               = Some (ae_marshalFinancial env r, 24 * hour)"
    if "fst (FinancialAuditorActivity env cache fin) = Inr r" for r
    using that unfolding f(1) by (rule FinancialAuditor_compute_cached [OF f(3)])
next
  assume c: "corrupted cache (pipeline_key scout) (ae_unmarshalPipelineResult env)"
  note f = PipelineScout_corrupted [OF c]
  show "PipelineScoutActivity env cache scout
          = (case ae_Infer env (scout_request env scout) of
               Inl err \<Rightarrow>
                 (Inl (Errorf ''LLM inference failed'' err), cache,
                  [MetricCacheHit, MetricCacheMiss,
                   RecordHeartbeat ''Scanning drug pipelines...'',
                   Infer (scout_request env scout)])
             | Inr response \<Rightarrow>
                 (case ae_unmarshalPipelines env (resp_FinalAnswer response) of
                    Inl err \<Rightarrow>
                      (Inl (Errorf ''failed to parse pipeline data'' err), cache,
                       [MetricCacheHit, MetricCacheMiss,
                        RecordHeartbeat ''Scanning drug pipelines...'',
                        Infer (scout_request env scout)])
                  | Inr pipelines \<Rightarrow>
                      (Inr \<lparr>pr_Ticker = psi_Ticker scout, pr_Pipelines = pipelines,
                            pr_DataAsOf = ae_Now env 1\<rparr>,
                       cache\<lparr>entries := (entries cache)
                          (pipeline_key scout \<mapsto>
                             (ae_marshalPipelineResult env
                                \<lparr>pr_Ticker = psi_Ticker scout, pr_Pipelines = pipelines,
                                 pr_DataAsOf = ae_Now env 1\<rparr>,
                              24 * hour))\<rparr>,
                       [MetricCacheHit, MetricCacheMiss,
                        RecordHeartbeat ''Scanning drug pipelines...'',
                        Infer (scout_request env scout),
                        CacheSet (pipeline_key scout)
                          (ae_marshalPipelineResult env
                             \<lparr>pr_Ticker = psi_Ticker scout, pr_Pipelines = pipelines,
                              pr_DataAsOf = ae_Now env 1\<rparr>)
                          (24 * hour)])))"
    unfolding f(1) using f(3)
    by (simp add: PipelineScout_compute_def scout_request_def Let_def cache_Set_def
          client_Set_def split: sum.splits)
  show "fst (PipelineScoutActivity env cache scout)
          = fst (PipelineScoutActivity env (evict cache (pipeline_key scout)) scout)"
    unfolding f(1,2) by (rule PipelineScout_compute_result)
  show "snd (snd (PipelineScoutActivity env cache scout))
          = MetricCacheHit
              # snd (snd (PipelineScoutActivity env (evict cache (pipeline_key scout)) scout))"
    unfolding f(1,2)
    using PipelineScout_compute_events
      [of env cache scout "pipeline_key scout" "[MetricCacheHit]" "evict cache (pipeline_key scout)"]
    by simp
  show "ran_inference (snd (snd (PipelineScoutActivity env cache scout)))"
    unfolding f(1) by (rule PipelineScout_compute_ran)
  show "entries (fst (snd (PipelineScoutActivity env cache scout))) (pipeline_key scout)
               = Some (ae_marshalPipelineResult env r, 24 * hour)"
    if "fst (PipelineScoutActivity env cache scout) = Inr r" for r
    using that unfolding f(1) by (rule PipelineScout_compute_cached [OF f(3)])
next
  assume c: "corrupted cache (clinical_key clin) (ae_unmarshalClinical env)"
  note f = ClinicalAssessor_corrupted [OF c]
  show "ClinicalAssessorActivity env cache clin
          = (case ae_Infer env (clinical_request env clin) of
               Inl err \<Rightarrow>
                 (Inl (Errorf (''LLM inference failed for '' @ dp_DrugName (cai_Pipeline clin))
                         err),
                  cache,
                  [MetricCacheMiss,
                   RecordHeartbeat (''Assessing clinical competitiveness for ''
                                      @ dp_DrugName (cai_Pipeline clin) @ ''...''),
                   Infer (clinical_request env clin)])
             | Inr response \<Rightarrow>
                 (case ae_unmarshalClinical env (resp_FinalAnswer response) of
                    Inl err \<Rightarrow>
                      (Inl (Errorf (''failed to parse clinical assessment for ''
                                      @ dp_DrugName (cai_Pipeline clin)) err),
                       cache,
                       [MetricCacheMiss,
                        RecordHeartbeat (''Assessing clinical competitiveness for ''
                                           @ dp_DrugName (cai_Pipeline clin) @ ''...''),
                        Infer (clinical_request env clin)])
                  | Inr parsed \<Rightarrow>
                      (Inr (parsed\<lparr>ca_DrugName := dp_DrugName (cai_Pipeline clin),
                                    ca_Target := dp_Target (cai_Pipeline clin),
                                    ca_Indication := dp_Indication (cai_Pipeline clin),
                                    ca_Phase := dp_Phase (cai_Pipeline clin)\<rparr>),
                       cache\<lparr>entries := (entries cache)
                          (clinical_key clin \<mapsto>
                             (ae_marshalClinical env
                                (parsed\<lparr>ca_DrugName := dp_DrugName (cai_Pipeline clin),
                                         ca_Target := dp_Target (cai_Pipeline clin),
                                         ca_Indication := dp_Indication (cai_Pipeline clin),
                                         ca_Phase := dp_Phase (cai_Pipeline clin)\<rparr>),
                              12 * hour))\<rparr>,
                       [MetricCacheMiss,
                        RecordHeartbeat (''Assessing clinical competitiveness for ''
                                           @ dp_DrugName (cai_Pipeline clin) @ ''...''),
                        Infer (clinical_request env clin),
                        CacheSet (clinical_key clin)
                          (ae_marshalClinical env
                             (parsed\<lparr>ca_DrugName := dp_DrugName (cai_Pipeline clin),
                                      ca_Target := dp_Target (cai_Pipeline clin),
                                      ca_Indication := dp_Indication (cai_Pipeline clin),
                                      ca_Phase := dp_Phase (cai_Pipeline clin)\<rparr>))
                          (12 * hour)])))"
    unfolding f(1) using f(3)
    by (simp add: ClinicalAssessor_compute_def clinical_request_def Let_def cache_Set_def
          client_Set_def split: sum.splits)
  show "fst (ClinicalAssessorActivity env cache clin)
          = fst (ClinicalAssessorActivity env (evict cache (clinical_key clin)) clin)"
    unfolding f(1,2) by (rule ClinicalAssessor_compute_result)
  show "snd (snd (ClinicalAssessorActivity env cache clin))
          = snd (snd (ClinicalAssessorActivity env (evict cache (clinical_key clin)) clin))"
    unfolding f(1,2)
    using ClinicalAssessor_compute_events
      [of env cache clin "clinical_key clin" "[]" "evict cache (clinical_key clin)"]
    by simp
  show "ran_inference (snd (snd (ClinicalAssessorActivity env cache clin)))"
    unfolding f(1) by (rule ClinicalAssessor_compute_ran)
  show "entries (fst (snd (ClinicalAssessorActivity env cache clin))) (clinical_key clin)
               = Some (ae_marshalClinical env r, 12 * hour)"
    if "fst (ClinicalAssessorActivity env cache clin) = Inr r" for r
    using that unfolding f(1) by (rule ClinicalAssessor_compute_cached [OF f(3)])
next
  assume c: "corrupted cache (market_key mkt) (ae_unmarshalMarket env)"
  note f = MarketStrategist_corrupted [OF c]
  show "MarketStrategistActivity env cache mkt
          = (case msi_Clinical mkt of
               None \<Rightarrow>
                 (Inl (ErrOther ''panic: nil pointer dereference''), cache,
                  [MetricCacheMiss,
                   RecordHeartbeat (''Analyzing market for '' @ dp_DrugName (msi_Pipeline mkt)
                                      @ ''...'')])
             | Some clinical \<Rightarrow>
                 (case ae_Infer env (market_request env mkt clinical) of
                    Inl err \<Rightarrow>
                      (Inl (Errorf (''LLM inference failed for ''
                                      @ dp_DrugName (msi_Pipeline mkt)) err),
                       cache,
                       [MetricCacheMiss,
                        RecordHeartbeat (''Analyzing market for ''
                                           @ dp_DrugName (msi_Pipeline mkt) @ ''...''),
                        Infer (market_request env mkt clinical)])
                  | Inr response \<Rightarrow>
                      (case ae_unmarshalMarket env (resp_FinalAnswer response) of
                         Inl err \<Rightarrow>
                           (Inl (Errorf (''failed to parse market assessment for ''
                                           @ dp_DrugName (msi_Pipeline mkt)) err),
                            cache,
                            [MetricCacheMiss,
                             RecordHeartbeat (''Analyzing market for ''
                                                @ dp_DrugName (msi_Pipeline mkt) @ ''...''),
                             Infer (market_request env mkt clinical)])
                       | Inr parsed \<Rightarrow>
                           (Inr (parsed\<lparr>ma_DrugName := dp_DrugName (msi_Pipeline mkt),
                                         ma_Target := dp_Target (msi_Pipeline mkt),
                                         ma_Indication := dp_Indication (msi_Pipeline mkt)\<rparr>),
                            cache\<lparr>entries := (entries cache)
                               (market_key mkt \<mapsto>
                                  (ae_marshalMarket env
                                     (parsed\<lparr>ma_DrugName := dp_DrugName (msi_Pipeline mkt),
                                              ma_Target := dp_Target (msi_Pipeline mkt),
                                              ma_Indication :=
                                                dp_Indication (msi_Pipeline mkt)\<rparr>),
                                   6 * hour))\<rparr>,
                            [MetricCacheMiss,
                             RecordHeartbeat (''Analyzing market for ''
                                                @ dp_DrugName (msi_Pipeline mkt) @ ''...''),
                             Infer (market_request env mkt clinical),
                             CacheSet (market_key mkt)
                               (ae_marshalMarket env
                                  (parsed\<lparr>ma_DrugName := dp_DrugName (msi_Pipeline mkt),
                                           ma_Target := dp_Target (msi_Pipeline mkt),
                                           ma_Indication :=
                                             dp_Indication (msi_Pipeline mkt)\<rparr>))
                               (6 * hour)]))))"
    unfolding f(1) using f(3)
    by (simp add: MarketStrategist_compute_def market_request_def Let_def cache_Set_def
          client_Set_def split: sum.splits option.splits)
  show "fst (MarketStrategistActivity env cache mkt)
          = fst (MarketStrategistActivity env (evict cache (market_key mkt)) mkt)"
    unfolding f(1,2) by (rule MarketStrategist_compute_result)
  show "snd (snd (MarketStrategistActivity env cache mkt))
          = snd (snd (MarketStrategistActivity env (evict cache (market_key mkt)) mkt))"
    unfolding f(1,2)
    using MarketStrategist_compute_events
      [of env cache mkt "market_key mkt" "[]" "evict cache (market_key mkt)"]
    by simp
  show "ran_inference (snd (snd (MarketStrategistActivity env cache mkt)))"
    if "msi_Clinical mkt \<noteq> None"
    unfolding f(1) using that by (rule MarketStrategist_compute_ran)
  show "entries (fst (snd (MarketStrategistActivity env cache mkt))) (market_key mkt)
               = Some (ae_marshalMarket env r, 6 * hour)"
    if "fst (MarketStrategistActivity env cache mkt) = Inr r" for r
    using that unfolding f(1) by (rule MarketStrategist_compute_cached [OF f(3)])
qed

lemma example_corrupted:
  "corrupted example_cache key (ae_unmarshalFinancial example_act_env)"
  "corrupted example_cache key (ae_unmarshalPipelineResult example_act_env)"
  "corrupted example_cache key (ae_unmarshalClinical example_act_env)"
  "corrupted example_cache key (ae_unmarshalMarket example_act_env)"
  by (simp_all add: corrupted_def cache_Get_def client_Get_def example_cache_def
        example_act_env_def example_unmarshal_def example_answer_def)

text \<open>
  The four activities on a cache whose entries are all the text \<^verbatim>\<open>corrupt\<close>: each
  asks the LLM, returns the parsed answer with the fields of its input, and writes it over
  the entry of its key.
\<close>

theorem corrupted_cache_is_miss_witness:
  "corrupted example_cache (financials_key example_financial_input)
       (ae_unmarshalFinancial example_act_env)
   \<and> corrupted example_cache (pipeline_key example_scout_input)
       (ae_unmarshalPipelineResult example_act_env)
   \<and> corrupted example_cache (clinical_key example_clinical_input)
       (ae_unmarshalClinical example_act_env)
   \<and> corrupted example_cache (market_key example_market_input)
       (ae_unmarshalMarket example_act_env)
   \<and> msi_Clinical example_market_input \<noteq> None
   \<and> FinancialAuditorActivity example_act_env example_cache example_financial_input
       = (Inr (zero_FinancialResult\<lparr>fr_Ticker := ''BGNE'', fr_UpdatedAt := 1000\<rparr>),
          example_cache\<lparr>entries := (entries example_cache)
             (''company:BGNE:financials'' \<mapsto> (''financial:BGNE'', 86400))\<rparr>,
          [MetricCacheHit, MetricCacheMiss,
           RecordHeartbeat ''Analyzing financial report...'',
           Infer \<lparr>ir_TraceID = ''run-1'', ir_AgentID = ''A1_FinancialAuditor'',
                  ir_SystemPrompt = ''financialAuditorSystemPrompt'',
                  ir_UserPrompt = ''financialAuditorPromptBGNE/r/bgne.pdf'',
                  ir_ImagePaths = [''/r/bgne.pdf''], ir_EnableTools = False, ir_Tools = []\<rparr>,
           CacheSet ''company:BGNE:financials'' ''financial:BGNE'' 86400])
   \<and> PipelineScoutActivity example_act_env example_cache example_scout_input
       = (Inr \<lparr>pr_Ticker = ''BGNE'', pr_Pipelines = [], pr_DataAsOf = 1000\<rparr>,
          example_cache\<lparr>entries := (entries example_cache)
             (''company:BGNE:pipeline:raw'' \<mapsto> (''pipelines:BGNE'', 86400))\<rparr>,
          [MetricCacheHit, MetricCacheMiss,
           RecordHeartbeat ''Scanning drug pipelines...'',
           Infer \<lparr>ir_TraceID = ''run-1'', ir_AgentID = ''A2_PipelineScout'',
                  ir_SystemPrompt = ''pipelineScoutSystemPrompt'',
                  ir_UserPrompt = ''pipelineScoutPromptBGNE'',
                  ir_ImagePaths = [], ir_EnableTools = True, ir_Tools = [web_search]\<rparr>,
           CacheSet ''company:BGNE:pipeline:raw'' ''pipelines:BGNE'' 86400])
   \<and> ClinicalAssessorActivity example_act_env example_cache example_clinical_input
       = (Inr (zero_ClinicalAssessment\<lparr>ca_DrugName := ''DrugB'', ca_Target := ''PD-1'',
                 ca_Indication := ''NSCLC'', ca_Phase := ''Phase2''\<rparr>),
          example_cache\<lparr>entries := (entries example_cache)
             (''company:BGNE:pipeline:DrugB:clinical'' \<mapsto> (''clinical:DrugB'', 43200))\<rparr>,
          [MetricCacheMiss,
           RecordHeartbeat ''Assessing clinical competitiveness for DrugB...'',
           Infer \<lparr>ir_TraceID = ''run-1'', ir_AgentID = ''A3_ClinicalAssessor_DrugB'',
                  ir_SystemPrompt = ''clinicalAssessorSystemPrompt'',
                  ir_UserPrompt = ''clinicalAssessorPromptBGNEpipeline:DrugBPD-1Phase2'',
                  ir_ImagePaths = [], ir_EnableTools = True, ir_Tools = [web_search]\<rparr>,
           CacheSet ''company:BGNE:pipeline:DrugB:clinical'' ''clinical:DrugB'' 43200])
   \<and> MarketStrategistActivity example_act_env example_cache example_market_input
       = (Inr (zero_MarketAssessment\<lparr>ma_DrugName := ''DrugB'', ma_Target := ''PD-1'',
                 ma_Indication := ''NSCLC''\<rparr>),
          example_cache\<lparr>entries := (entries example_cache)
             (''company:BGNE:pipeline:DrugB:market'' \<mapsto> (''market:DrugB'', 21600))\<rparr>,
          [MetricCacheMiss,
           RecordHeartbeat ''Analyzing market for DrugB...'',
           Infer (market_request example_act_env example_market_input
                    (default_ClinicalAssessment (drug ''DrugB'' ''Phase2''))),
           CacheSet ''company:BGNE:pipeline:DrugB:market'' ''market:DrugB'' 21600])
   \<and> ir_AgentID (market_request example_act_env example_market_input
                    (default_ClinicalAssessment (drug ''DrugB'' ''Phase2'')))
       = ''A4_A5_MarketStrategist_DrugB''"
proof -
  note c = example_corrupted
  have some: "msi_Clinical example_market_input \<noteq> None"
    by (simp add: example_market_input_def)
  note t = corrupted_cache_is_miss [of example_cache example_financial_input example_act_env
      example_scout_input example_clinical_input example_market_input]
  from t c(1)
  have "FinancialAuditorActivity example_act_env example_cache example_financial_input
          = (case ae_Infer example_act_env
                    (financial_request example_act_env example_financial_input) of
               Inl err \<Rightarrow>
                 (Inl (Errorf ''LLM inference failed'' err), example_cache,
                  [MetricCacheHit, MetricCacheMiss,
                   RecordHeartbeat ''Analyzing financial report...'',
                   Infer (financial_request example_act_env example_financial_input)])
             | Inr response \<Rightarrow>
                 (case ae_unmarshalFinancial example_act_env (resp_FinalAnswer response) of
                    Inl err \<Rightarrow>
                      (Inl (Errorf ''failed to parse LLM response'' err), example_cache,
                       [MetricCacheHit, MetricCacheMiss,
                        RecordHeartbeat ''Analyzing financial report...'',
                        Infer (financial_request example_act_env example_financial_input)])
                  | Inr parsed \<Rightarrow>
                      (Inr (parsed\<lparr>fr_Ticker := fai_Ticker example_financial_input,
                                    fr_UpdatedAt := ae_Now example_act_env 0\<rparr>),
                       example_cache\<lparr>entries := (entries example_cache)
                          (financials_key example_financial_input \<mapsto>
                             (ae_marshalFinancial example_act_env
                                (parsed\<lparr>fr_Ticker := fai_Ticker example_financial_input,
                                         fr_UpdatedAt := ae_Now example_act_env 0\<rparr>),
                              24 * hour))\<rparr>,
                       [MetricCacheHit, MetricCacheMiss,
                        RecordHeartbeat ''Analyzing financial report...'',
                        Infer (financial_request example_act_env example_financial_input),
                        CacheSet (financials_key example_financial_input)
                          (ae_marshalFinancial example_act_env
                             (parsed\<lparr>fr_Ticker := fai_Ticker example_financial_input,
                                      fr_UpdatedAt := ae_Now example_act_env 0\<rparr>))
                          (24 * hour)])))"
    by blast
  then have fin: "FinancialAuditorActivity example_act_env example_cache example_financial_input
       = (Inr (zero_FinancialResult\<lparr>fr_Ticker := ''BGNE'', fr_UpdatedAt := 1000\<rparr>),
          example_cache\<lparr>entries := (entries example_cache)
             (''company:BGNE:financials'' \<mapsto> (''financial:BGNE'', 86400))\<rparr>,
          [MetricCacheHit, MetricCacheMiss,
           RecordHeartbeat ''Analyzing financial report...'',
           Infer \<lparr>ir_TraceID = ''run-1'', ir_AgentID = ''A1_FinancialAuditor'',
                  ir_SystemPrompt = ''financialAuditorSystemPrompt'',
                  ir_UserPrompt = ''financialAuditorPromptBGNE/r/bgne.pdf'',
                  ir_ImagePaths = [''/r/bgne.pdf''], ir_EnableTools = False, ir_Tools = []\<rparr>,
           CacheSet ''company:BGNE:financials'' ''financial:BGNE'' 86400])"
    by (simp add: financial_request_def financials_key_def example_financial_input_def
          example_act_env_def example_unmarshal_def example_answer_def hour_def)
  from t c(2)
  have "PipelineScoutActivity example_act_env example_cache example_scout_input
          = (case ae_Infer example_act_env (scout_request example_act_env example_scout_input) of
               Inl err \<Rightarrow>
                 (Inl (Errorf ''LLM inference failed'' err), example_cache,
                  [MetricCacheHit, MetricCacheMiss,
                   RecordHeartbeat ''Scanning drug pipelines...'',
                   Infer (scout_request example_act_env example_scout_input)])
             | Inr response \<Rightarrow>
                 (case ae_unmarshalPipelines example_act_env (resp_FinalAnswer response) of
                    Inl err \<Rightarrow>
                      (Inl (Errorf ''failed to parse pipeline data'' err), example_cache,
                       [MetricCacheHit, MetricCacheMiss,
                        RecordHeartbeat ''Scanning drug pipelines...'',
                        Infer (scout_request example_act_env example_scout_input)])
                  | Inr pipelines \<Rightarrow>
                      (Inr \<lparr>pr_Ticker = psi_Ticker example_scout_input,
                            pr_Pipelines = pipelines,
                            pr_DataAsOf = ae_Now example_act_env 1\<rparr>,
                       example_cache\<lparr>entries := (entries example_cache)
                          (pipeline_key example_scout_input \<mapsto>
                             (ae_marshalPipelineResult example_act_env
                                \<lparr>pr_Ticker = psi_Ticker example_scout_input,
                                 pr_Pipelines = pipelines,
                                 pr_DataAsOf = ae_Now example_act_env 1\<rparr>,
                              24 * hour))\<rparr>,
                       [MetricCacheHit, MetricCacheMiss,
                        RecordHeartbeat ''Scanning drug pipelines...'',
                        Infer (scout_request example_act_env example_scout_input),
                        CacheSet (pipeline_key example_scout_input)
                          (ae_marshalPipelineResult example_act_env
                             \<lparr>pr_Ticker = psi_Ticker example_scout_input,
                              pr_Pipelines = pipelines,
                              pr_DataAsOf = ae_Now example_act_env 1\<rparr>)
                          (24 * hour)])))"
    by blast
  then have scout: "PipelineScoutActivity example_act_env example_cache example_scout_input
       = (Inr \<lparr>pr_Ticker = ''BGNE'', pr_Pipelines = [], pr_DataAsOf = 1000\<rparr>,
          example_cache\<lparr>entries := (entries example_cache)
             (''company:BGNE:pipeline:raw'' \<mapsto> (''pipelines:BGNE'', 86400))\<rparr>,
          [MetricCacheHit, MetricCacheMiss,
           RecordHeartbeat ''Scanning drug pipelines...'',
           Infer \<lparr>ir_TraceID = ''run-1'', ir_AgentID = ''A2_PipelineScout'',
                  ir_SystemPrompt = ''pipelineScoutSystemPrompt'',
                  ir_UserPrompt = ''pipelineScoutPromptBGNE'',
                  ir_ImagePaths = [], ir_EnableTools = True, ir_Tools = [web_search]\<rparr>,
           CacheSet ''company:BGNE:pipeline:raw'' ''pipelines:BGNE'' 86400])"
    by (simp add: scout_request_def pipeline_key_def example_scout_input_def
          example_act_env_def hour_def)
  from t c(3)
  have "ClinicalAssessorActivity example_act_env example_cache example_clinical_input
          = (case ae_Infer example_act_env
                    (clinical_request example_act_env example_clinical_input) of
               Inl err \<Rightarrow>
                 (Inl (Errorf (''LLM inference failed for ''
                                 @ dp_DrugName (cai_Pipeline example_clinical_input)) err),
                  example_cache,
                  [MetricCacheMiss,
                   RecordHeartbeat (''Assessing clinical competitiveness for ''
                                      @ dp_DrugName (cai_Pipeline example_clinical_input)
                                      @ ''...''),
                   Infer (clinical_request example_act_env example_clinical_input)])
             | Inr response \<Rightarrow>
                 (case ae_unmarshalClinical example_act_env (resp_FinalAnswer response) of
                    Inl err \<Rightarrow>
                      (Inl (Errorf (''failed to parse clinical assessment for ''
                                      @ dp_DrugName (cai_Pipeline example_clinical_input)) err),
                       example_cache,
                       [MetricCacheMiss,
                        RecordHeartbeat (''Assessing clinical competitiveness for ''
                                           @ dp_DrugName (cai_Pipeline example_clinical_input)
                                           @ ''...''),
                        Infer (clinical_request example_act_env example_clinical_input)])
                  | Inr parsed \<Rightarrow>
                      (Inr (parsed\<lparr>ca_DrugName := dp_DrugName (cai_Pipeline example_clinical_input),
                                    ca_Target := dp_Target (cai_Pipeline example_clinical_input),
                                    ca_Indication :=
                                      dp_Indication (cai_Pipeline example_clinical_input),
                                    ca_Phase := dp_Phase (cai_Pipeline example_clinical_input)\<rparr>),
                       example_cache\<lparr>entries := (entries example_cache)
                          (clinical_key example_clinical_input \<mapsto>
                             (ae_marshalClinical example_act_env
                                (parsed\<lparr>ca_DrugName :=
                                           dp_DrugName (cai_Pipeline example_clinical_input),
                                         ca_Target :=
                                           dp_Target (cai_Pipeline example_clinical_input),
                                         ca_Indication :=
                                           dp_Indication (cai_Pipeline example_clinical_input),
                                         ca_Phase :=
                                           dp_Phase (cai_Pipeline example_clinical_input)\<rparr>),
                              12 * hour))\<rparr>,
                       [MetricCacheMiss,
                        RecordHeartbeat (''Assessing clinical competitiveness for ''
                                           @ dp_DrugName (cai_Pipeline example_clinical_input)
                                           @ ''...''),
                        Infer (clinical_request example_act_env example_clinical_input),
                        CacheSet (clinical_key example_clinical_input)
                          (ae_marshalClinical example_act_env
                             (parsed\<lparr>ca_DrugName :=
                                        dp_DrugName (cai_Pipeline example_clinical_input),
                                      ca_Target :=
                                        dp_Target (cai_Pipeline example_clinical_input),
                                      ca_Indication :=
                                        dp_Indication (cai_Pipeline example_clinical_input),
                                      ca_Phase :=
                                        dp_Phase (cai_Pipeline example_clinical_input)\<rparr>))
                          (12 * hour)])))"
    by blast
  then have clin: "ClinicalAssessorActivity example_act_env example_cache example_clinical_input
       = (Inr (zero_ClinicalAssessment\<lparr>ca_DrugName := ''DrugB'', ca_Target := ''PD-1'',
                 ca_Indication := ''NSCLC'', ca_Phase := ''Phase2''\<rparr>),
          example_cache\<lparr>entries := (entries example_cache)
             (''company:BGNE:pipeline:DrugB:clinical'' \<mapsto> (''clinical:DrugB'', 43200))\<rparr>,
          [MetricCacheMiss,
           RecordHeartbeat ''Assessing clinical competitiveness for DrugB...'',
           Infer \<lparr>ir_TraceID = ''run-1'', ir_AgentID = ''A3_ClinicalAssessor_DrugB'',
                  ir_SystemPrompt = ''clinicalAssessorSystemPrompt'',
                  ir_UserPrompt = ''clinicalAssessorPromptBGNEpipeline:DrugBPD-1Phase2'',
                  ir_ImagePaths = [], ir_EnableTools = True, ir_Tools = [web_search]\<rparr>,
           CacheSet ''company:BGNE:pipeline:DrugB:clinical'' ''clinical:DrugB'' 43200])"
    by (simp add: clinical_request_def clinical_key_def example_clinical_input_def
          example_act_env_def example_unmarshal_def example_answer_def hour_def drug_def)
  from t c(4)
  have "MarketStrategistActivity example_act_env example_cache example_market_input
          = (case msi_Clinical example_market_input of
               None \<Rightarrow>
                 (Inl (ErrOther ''panic: nil pointer dereference''), example_cache,
                  [MetricCacheMiss,
                   RecordHeartbeat (''Analyzing market for ''
                                      @ dp_DrugName (msi_Pipeline example_market_input)
                                      @ ''...'')])
             | Some clinical \<Rightarrow>
                 (case ae_Infer example_act_env
                         (market_request example_act_env example_market_input clinical) of
                    Inl err \<Rightarrow>
                      (Inl (Errorf (''LLM inference failed for ''
                                      @ dp_DrugName (msi_Pipeline example_market_input)) err),
                       example_cache,
                       [MetricCacheMiss,
                        RecordHeartbeat (''Analyzing market for ''
                                           @ dp_DrugName (msi_Pipeline example_market_input)
                                           @ ''...''),
                        Infer (market_request example_act_env example_market_input clinical)])
                  | Inr response \<Rightarrow>
                      (case ae_unmarshalMarket example_act_env (resp_FinalAnswer response) of
                         Inl err \<Rightarrow>
                           (Inl (Errorf (''failed to parse market assessment for ''
                                           @ dp_DrugName (msi_Pipeline example_market_input))
                                   err),
                            example_cache,
                            [MetricCacheMiss,
                             RecordHeartbeat (''Analyzing market for ''
                                                @ dp_DrugName (msi_Pipeline example_market_input)
                                                @ ''...''),
                             Infer (market_request example_act_env example_market_input
                                      clinical)])
                       | Inr parsed \<Rightarrow>
                           (Inr (parsed\<lparr>ma_DrugName :=
                                           dp_DrugName (msi_Pipeline example_market_input),
                                         ma_Target :=
                                           dp_Target (msi_Pipeline example_market_input),
                                         ma_Indication :=
                                           dp_Indication (msi_Pipeline example_market_input)\<rparr>),
                            example_cache\<lparr>entries := (entries example_cache)
                               (market_key example_market_input \<mapsto>
                                  (ae_marshalMarket example_act_env
                                     (parsed\<lparr>ma_DrugName :=
                                                dp_DrugName (msi_Pipeline example_market_input),
                                              ma_Target :=
                                                dp_Target (msi_Pipeline example_market_input),
                                              ma_Indication :=
                                                dp_Indication
                                                  (msi_Pipeline example_market_input)\<rparr>),
                                   6 * hour))\<rparr>,
                            [MetricCacheMiss,
                             RecordHeartbeat (''Analyzing market for ''
                                                @ dp_DrugName (msi_Pipeline example_market_input)
                                                @ ''...''),
                             Infer (market_request example_act_env example_market_input
                                      clinical),
                             CacheSet (market_key example_market_input)
                               (ae_marshalMarket example_act_env
                                  (parsed\<lparr>ma_DrugName :=
                                             dp_DrugName (msi_Pipeline example_market_input),
                                           ma_Target :=
                                             dp_Target (msi_Pipeline example_market_input),
                                           ma_Indication :=
                                             dp_Indication
                                               (msi_Pipeline example_market_input)\<rparr>))
                               (6 * hour)]))))"
    by blast
  then have mkt: "MarketStrategistActivity example_act_env example_cache example_market_input
       = (Inr (zero_MarketAssessment\<lparr>ma_DrugName := ''DrugB'', ma_Target := ''PD-1'',
                 ma_Indication := ''NSCLC''\<rparr>),
          example_cache\<lparr>entries := (entries example_cache)
             (''company:BGNE:pipeline:DrugB:market'' \<mapsto> (''market:DrugB'', 21600))\<rparr>,
          [MetricCacheMiss,
           RecordHeartbeat ''Analyzing market for DrugB...'',
           Infer (market_request example_act_env example_market_input
                    (default_ClinicalAssessment (drug ''DrugB'' ''Phase2''))),
           CacheSet ''company:BGNE:pipeline:DrugB:market'' ''market:DrugB'' 21600])"
    by (simp add: market_request_def market_key_def example_market_input_def
          example_act_env_def example_unmarshal_def example_answer_def hour_def drug_def)
  have agent: "ir_AgentID (market_request example_act_env example_market_input
                    (default_ClinicalAssessment (drug ''DrugB'' ''Phase2'')))
       = ''A4_A5_MarketStrategist_DrugB''"
    by (simp add: market_request_def example_market_input_def drug_def)
  show ?thesis using c some fin scout clin mkt agent by blast
qed

text \<open>
  C5, amended. The valuation activity returns exactly the valuation that the answer of the
  LLM parses to: it succeeds with \<open>v\<close> if and only if the inference succeeded and the
  answer parses to \<open>v\<close>, whatever the WACC, the terminal growth and the average POS in
  \<open>v\<close>. Its only errors are the failure of the inference and the failure of the
  parse; the valuation workflow hands the result of the activity on unchanged. No bound
  is checked, so no error, of level L2 or other, comes from a bound.
\<close>

theorem valuation_answer_unchecked:
  fixes env :: "'f act_env"
  shows "(fst (ValuationActuaryActivity env input) = Inr v
            \<longleftrightarrow> (\<exists>req response. snd (ValuationActuaryActivity env input)
                                    = [RecordHeartbeat ''Building valuation models...'', Infer req]
                     \<and> ae_Infer env req = Inr response
                     \<and> ae_unmarshalValuation env (resp_FinalAnswer response) = Inr v))
       \<and> (fst (ValuationActuaryActivity env input) = Inl err
            \<longrightarrow> (\<exists>cause. err = Errorf ''LLM inference failed'' cause
                         \<or> err = Errorf ''failed to parse valuation result'' cause))
       \<and> ValuationWorkflow (\<lambda>i. fst (ValuationActuaryActivity env i)) vin
           = fst (ValuationActuaryActivity env
                    \<lparr>vai_Ticker = vi_Ticker vin, vai_Financial = vi_Financial vin,
                     vai_Clinical = vi_Clinical vin, vai_Market = vi_Market vin\<rparr>)"
proof (intro conjI impI)
  show "fst (ValuationActuaryActivity env input) = Inr v
            \<longleftrightarrow> (\<exists>req response. snd (ValuationActuaryActivity env input)
                                    = [RecordHeartbeat ''Building valuation models...'', Infer req]
                     \<and> ae_Infer env req = Inr response
                     \<and> ae_unmarshalValuation env (resp_FinalAnswer response) = Inr v)"
    by (auto simp: ValuationActuaryActivity_def Let_def split: sum.splits)
  show "\<exists>cause. err = Errorf ''LLM inference failed'' cause
                         \<or> err = Errorf ''failed to parse valuation result'' cause"
    if "fst (ValuationActuaryActivity env input) = Inl err"
    using that by (auto simp: ValuationActuaryActivity_def Let_def split: sum.splits)
  show "ValuationWorkflow (\<lambda>i. fst (ValuationActuaryActivity env i)) vin
           = fst (ValuationActuaryActivity env
                    \<lparr>vai_Ticker = vi_Ticker vin, vai_Financial = vi_Financial vin,
                     vai_Clinical = vi_Clinical vin, vai_Market = vi_Market vin\<rparr>)"
    by (simp add: ValuationWorkflow_def split: sum.splits)
qed

theorem valuation_answer_unchecked_witness:
  "fst (ValuationActuaryActivity example_act_env example_valuation_input)
     = Inr zero_ValuationResult
   \<and> (\<exists>req response.
         snd (ValuationActuaryActivity example_act_env example_valuation_input)
           = [RecordHeartbeat ''Building valuation models...'', Infer req]
       \<and> ae_Infer example_act_env req = Inr response
       \<and> ae_unmarshalValuation example_act_env (resp_FinalAnswer response)
           = Inr zero_ValuationResult)
   \<and> fst (ValuationActuaryActivity example_failing_act_env example_valuation_input)
       = Inl (Errorf ''LLM inference failed'' ErrRateLimited)
   \<and> (\<exists>cause. Errorf ''LLM inference failed'' ErrRateLimited
                   = Errorf ''LLM inference failed'' cause
               \<or> Errorf ''LLM inference failed'' ErrRateLimited
                   = Errorf ''failed to parse valuation result'' cause)"
proof -
  have ok: "fst (ValuationActuaryActivity example_act_env example_valuation_input)
              = Inr zero_ValuationResult"
    by (simp add: ValuationActuaryActivity_def Let_def example_act_env_def
          example_unmarshal_def example_answer_def)
  have bad: "fst (ValuationActuaryActivity example_failing_act_env example_valuation_input)
              = Inl (Errorf ''LLM inference failed'' ErrRateLimited)"
    by (simp add: ValuationActuaryActivity_def Let_def example_failing_act_env_def)
  from valuation_answer_unchecked
         [of example_act_env example_valuation_input zero_ValuationResult] ok
  have a: "\<exists>req response.
         snd (ValuationActuaryActivity example_act_env example_valuation_input)
           = [RecordHeartbeat ''Building valuation models...'', Infer req]
       \<and> ae_Infer example_act_env req = Inr response
       \<and> ae_unmarshalValuation example_act_env (resp_FinalAnswer response)
           = Inr zero_ValuationResult"
    by blast
  from valuation_answer_unchecked
         [of example_failing_act_env example_valuation_input _
             "Errorf ''LLM inference failed'' ErrRateLimited"] bad
  have b: "\<exists>cause. Errorf ''LLM inference failed'' ErrRateLimited
                   = Errorf ''LLM inference failed'' cause
               \<or> Errorf ''LLM inference failed'' ErrRateLimited
                   = Errorf ''failed to parse valuation result'' cause"
    by blast
  show ?thesis using ok bad a b by blast
qed

text \<open>
  The LLM answers with a JSON object that has none of the keys of a valuation (the answer
  of the placeholder client of \<^verbatim>\<open>pkg/llm/client.go\<close> is such an object), which
  \<^verbatim>\<open>encoding/json\<close> parses to the zero valuation. The activity and the valuation
  workflow return it without error: its WACC is 0, below 0.08, and its average POS is 0
  while the only clinical assessment of the input has POS 0.60.
\<close>

theorem valuation_bounds_counterexample:
  "fst (ValuationActuaryActivity example_act_env example_valuation_input)
     = Inr zero_ValuationResult
   \<and> ValuationWorkflow (\<lambda>i. fst (ValuationActuaryActivity example_act_env i))
       \<lparr>vi_Ticker = vai_Ticker example_valuation_input,
        vi_Financial = vai_Financial example_valuation_input,
        vi_Clinical = vai_Clinical example_valuation_input,
        vi_Market = vai_Market example_valuation_input\<rparr>
       = Inr zero_ValuationResult
   \<and> \<not> (0.08 \<le> va_WACC (vr_Assumptions (zero_ValuationResult :: real ValuationResult)))
   \<and> vai_Clinical example_valuation_input
       = Some \<lparr>cr_Ticker = ''BGNE'',
               cr_Assessments = [default_ClinicalAssessment (drug ''DrugA'' ''Phase3'')],
               cr_UpdatedAt = 0\<rparr>
   \<and> ca_POSScore (default_ClinicalAssessment (drug ''DrugA'' ''Phase3'') :: real ClinicalAssessment)
       = 0.60
   \<and> va_AvgPOS (vr_Assumptions (zero_ValuationResult :: real ValuationResult)) = 0"
  by (simp add: ValuationActuaryActivity_def ValuationWorkflow_def Let_def example_act_env_def
        example_unmarshal_def example_answer_def
        example_valuation_input_def zero_ValuationResult_def default_ClinicalAssessment_def
        zero_ClinicalAssessment_def getDefaultPOS_def drug_def)

end
